theory Spec2Isabelle
  imports Complex_Main "HOL-Library.Word"
begin

section \<open>Scene tracker of the Baikal renderer (App/Scene/scene\_tracker.cpp)\<close>

text \<open>
  The tracker translates a host scene graph into flat device buffers and into handles of
  the intersection engine. Scene objects are identified by their address: the source
  keeps them in \<^verbatim>\<open>std::set<T const*>\<close>, which iterates in ascending pointer order and
  holds every pointer once. Objects are read through component maps from addresses to
  field values, one map per accessor of the source; the only component the tracker
  writes is the dirty bit.
\<close>

subsection \<open>Values\<close>

type_synonym addr = nat
type_synonym float = real
type_synonym int32 = "32 word"

datatype float2 = Float2 (f2x: float) (f2y: float)
datatype float3 = Float3 float float float float
datatype float4 = Float4 (fx: float) (fy: float) (fz: float) (fw: float)

datatype matrix = Matrix
  (m00: float) (m01: float) (m02: float) (m03: float)
  (m10: float) (m11: float) (m12: float) (m13: float)
  (m20: float) (m21: float) (m22: float) (m23: float)
  (m30: float) (m31: float) (m32: float) (m33: float)

text \<open>\<^verbatim>\<open>static_cast<int>\<close> of a \<^verbatim>\<open>std::size_t\<close>: the low 32 bits, read as two's complement.\<close>

definition static_cast_int :: "nat \<Rightarrow> int32" where
  "static_cast_int n = of_nat n"

subsection \<open>Shapes: the Shape, Mesh and Instance accessors\<close>

record shape_heap =
  is_instance :: "addr \<Rightarrow> bool"
  GetMaterial :: "addr \<Rightarrow> addr option"
  GetTransform :: "addr \<Rightarrow> matrix"
  GetBaseShape :: "addr \<Rightarrow> addr"
  GetVertices :: "addr \<Rightarrow> float3 list"
  GetNormals :: "addr \<Rightarrow> float3 list"
  GetUVs :: "addr \<Rightarrow> float2 list"
  GetIndices :: "addr \<Rightarrow> int32 list"

text \<open>
  \<open>is_instance w p\<close> is the source's \<^verbatim>\<open>dynamic_cast<Instance const*>(p) != nullptr\<close>.
  \<open>GetNumVertices\<close>, \<open>GetNumNormals\<close>, \<open>GetNumUVs\<close> and \<open>GetNumIndices\<close> are the lengths
  of the arrays. The source reaches the Mesh accessors of an instance's base shape
  through \<^verbatim>\<open>static_cast<Mesh const*>\<close>; the model reads the same components at that
  address.
\<close>

definition GetNumVertices :: "shape_heap \<Rightarrow> addr \<Rightarrow> nat" where
  "GetNumVertices w p = length (GetVertices w p)"

definition GetNumNormals :: "shape_heap \<Rightarrow> addr \<Rightarrow> nat" where
  "GetNumNormals w p = length (GetNormals w p)"

definition GetNumUVs :: "shape_heap \<Rightarrow> addr \<Rightarrow> nat" where
  "GetNumUVs w p = length (GetUVs w p)"

definition GetNumIndices :: "shape_heap \<Rightarrow> addr \<Rightarrow> nat" where
  "GetNumIndices w p = length (GetIndices w p)"

subsection \<open>\<^verbatim>\<open>std::set\<close> of pointers\<close>

text \<open>
  A \<^verbatim>\<open>std::set<T const*>\<close> is the strictly ascending list of its elements, which is the
  order a range-for visits them in. \<open>emplace\<close> inserts at the sorted position and leaves
  the set alone when the pointer is already there.
\<close>

fun emplace :: "addr \<Rightarrow> addr list \<Rightarrow> addr list" where
  "emplace a [] = [a]"
| "emplace a (b # bs) =
     (if a < b then a # b # bs else if a = b then b # bs else b # emplace a bs)"

subsection \<open>SplitMeshesAndInstances\<close>

text \<open>The first loop: every shape of the iterator goes to \<open>meshes\<close> or to \<open>instances\<close>.\<close>

fun split_loop :: "shape_heap \<Rightarrow> addr list \<Rightarrow> addr list \<times> addr list \<Rightarrow> addr list \<times> addr list" where
  "split_loop w [] (meshes, instances) = (meshes, instances)"
| "split_loop w (shape # rest) (meshes, instances) =
     (if \<not> is_instance w shape
      then split_loop w rest (emplace shape meshes, instances)
      else split_loop w rest (meshes, emplace shape instances))"

text \<open>The second loop: the base mesh of every instance that \<open>meshes\<close> does not hold.\<close>

fun excluded_loop :: "shape_heap \<Rightarrow> addr list \<Rightarrow> addr list \<Rightarrow> addr list \<Rightarrow> addr list" where
  "excluded_loop w meshes [] excluded_meshes = excluded_meshes"
| "excluded_loop w meshes (i # rest) excluded_meshes =
     (let base_mesh = GetBaseShape w i in
      if base_mesh \<notin> set meshes
      then excluded_loop w meshes rest (emplace base_mesh excluded_meshes)
      else excluded_loop w meshes rest excluded_meshes)"

text \<open>The result is \<open>(meshes, instances, excluded_meshes)\<close>, the order of the parameters.\<close>

definition SplitMeshesAndInstances :: "shape_heap \<Rightarrow> addr list \<Rightarrow> addr list \<times> addr list \<times> addr list" where
  "SplitMeshesAndInstances w shape_iter =
     (case split_loop w shape_iter ([], []) of
        (meshes, instances) \<Rightarrow> (meshes, instances, excluded_loop w meshes instances []))"

subsection \<open>Failures\<close>

text \<open>
  A \<^verbatim>\<open>throw std::runtime_error(msg)\<close> is \<open>RuntimeError msg s\<close>, where \<open>s\<close> is the state the
  caller finds when it catches the exception. Reading through a null pointer and a failed
  \<^verbatim>\<open>assert\<close> end the run; they leave no state to inspect.
\<close>

datatype 's failure = RuntimeError string 's | NullDereference | AssertionFailed

subsection \<open>On-device records of ClwScene\<close>

datatype clw_transform = Transform (m0: float4) (m1: float4) (m2: float4) (m3: float4)

record clw_shape =
  numprims :: int32
  startvtx :: int32
  startidx :: int32
  start_material_idx :: int32
  transform :: clw_transform
  linearvelocity :: float3
  angularvelocity :: float3

datatype Bxdf =
  kZero | kLambert | kEmissive | kPassthrough | kTranslucent | kIdealReflect | kIdealRefract
| kMicrofacetGGX | kMicrofacetBeckmann | kMicrofacetRefractionGGX | kMicrofacetRefractionBeckmann
| kMix | kLayered | kFresnelBlend

record clw_material =
  type :: Bxdf
  kx :: float4
  kxmapidx :: int32
  ns :: float
  nsmapidx :: int32
  nmapidx :: int32
  bump_flag :: int32
  fresnel :: float
  ni :: float
  brdfbaseidx :: int32
  brdftopidx :: int32

datatype LightType = kPoint | kDirectional | kSpot | kIbl | kArea

record clw_light =
  ltype :: LightType
  lp :: float3
  ld :: float3
  intensity :: float3
  ia :: float
  oa :: float
  multiplier :: float
  tex :: int32
  texdiffuse :: int32
  shapeidx :: int32
  primidx :: int32

datatype TextureFormat = RGBA8 | RGBA16 | RGBA32

record clw_texture =
  tex_w :: int32
  tex_h :: int32
  fmt :: TextureFormat
  dataoffset :: int32

record clw_camera =
  forward :: float3
  up :: float3
  right :: float3
  cp :: float3
  aperture :: float
  aspect_ratio :: float
  dim :: float2
  focal_length :: float
  focus_distance :: float
  zcap :: float2

datatype CameraType = kDefault | kPhysical

record clw_volume =
  vol_type :: int32
  vol_phase_func :: int32
  vol_data :: int32
  vol_extra :: int32
  sigma_a :: float3
  sigma_s :: float3
  sigma_e :: float3

subsection \<open>The intersection engine\<close>

text \<open>
  Modelled from the spec: the intersection engine (RadeonRays' IntersectionApi) is an
  external service of which the source only calls \<^verbatim>\<open>CreateMesh\<close>, \<^verbatim>\<open>CreateInstance\<close>,
  \<^verbatim>\<open>SetTransform\<close>, \<^verbatim>\<open>SetId\<close>, \<^verbatim>\<open>AttachShape\<close>, \<^verbatim>\<open>DetachShape\<close>, \<^verbatim>\<open>DetachAll\<close>,
  \<^verbatim>\<open>DeleteShape\<close> and \<^verbatim>\<open>Commit\<close> (here \<open>IntersectionApi_Commit\<close>). A handle records what it was created from, the transform
  and the id it was last given (\<open>None\<close> until the setter is called), and the number the
  engine allocated it under, which tells handles apart. The engine keeps the handles
  that are attached and whether they have been committed. The inverse matrix that the
  source passes to \<^verbatim>\<open>SetTransform\<close> is computed in floating point by the engine's
  \<^verbatim>\<open>inverse\<close> and is not part of the model.
\<close>

datatype rr_kind =
  RRMesh "float3 list" int32 "int32 list" int32
| RRInstance "nat option"

record rr_shape =
  rr_handle :: nat
  rr_kind :: rr_kind
  rr_transform :: "matrix option"
  rr_id :: "int32 option"

record api =
  next_handle :: nat
  attached :: "rr_shape list"
  committed :: bool

definition CreateMesh :: "api \<Rightarrow> float3 list \<Rightarrow> int32 \<Rightarrow> int32 list \<Rightarrow> int32 \<Rightarrow> rr_shape \<times> api" where
  "CreateMesh a vertices vnum indices numfaces =
     (\<lparr>rr_handle = next_handle a, rr_kind = RRMesh vertices vnum indices numfaces,
       rr_transform = None, rr_id = None\<rparr>,
      a\<lparr>next_handle := Suc (next_handle a)\<rparr>)"

definition CreateInstance :: "api \<Rightarrow> rr_shape option \<Rightarrow> rr_shape \<times> api" where
  "CreateInstance a rr_mesh =
     (\<lparr>rr_handle = next_handle a, rr_kind = RRInstance (map_option rr_handle rr_mesh),
       rr_transform = None, rr_id = None\<rparr>,
      a\<lparr>next_handle := Suc (next_handle a)\<rparr>)"

definition SetTransform :: "matrix \<Rightarrow> rr_shape \<Rightarrow> rr_shape" where
  "SetTransform t s = s\<lparr>rr_transform := Some t\<rparr>"

definition SetId :: "int32 \<Rightarrow> rr_shape \<Rightarrow> rr_shape" where
  "SetId i s = s\<lparr>rr_id := Some i\<rparr>"

definition DetachShape :: "rr_shape \<Rightarrow> api \<Rightarrow> api" where
  "DetachShape s a = a\<lparr>attached := filter (\<lambda>x. rr_handle x \<noteq> rr_handle s) (attached a), committed := False\<rparr>"

definition DeleteShape :: "rr_shape \<Rightarrow> api \<Rightarrow> api" where
  "DeleteShape s a = a"

definition AttachShape :: "rr_shape \<Rightarrow> api \<Rightarrow> api" where
  "AttachShape s a = a\<lparr>attached := attached a @ [s], committed := False\<rparr>"

definition DetachAll :: "api \<Rightarrow> api" where
  "DetachAll a = a\<lparr>attached := [], committed := False\<rparr>"

definition IntersectionApi_Commit :: "api \<Rightarrow> api" where
  "IntersectionApi_Commit a = a\<lparr>committed := True\<rparr>"

subsection \<open>The compiled scene\<close>

text \<open>
  A device buffer is the list of its elements; \<^verbatim>\<open>GetElementCount\<close> is its length. The
  bundles are the collector snapshots of the last materials and textures pass, \<open>None\<close>
  while the \<^verbatim>\<open>unique_ptr\<close> is empty.
\<close>

record clw_scene =
  camera :: "clw_camera list"
  camera_type :: CameraType
  vertices :: "float3 list"
  normals :: "float3 list"
  uvs :: "float2 list"
  indices :: "int32 list"
  shapes :: "clw_shape list"
  materialids :: "int32 list"
  materials :: "clw_material list"
  textures :: "clw_texture list"
  texturedata :: "8 word list"
  lights :: "clw_light list"
  num_lights :: int32
  envmapidx :: int32
  volumes :: "clw_volume list"
  isect_shapes :: "rr_shape list"
  visible_shapes :: "rr_shape list"
  material_bundle :: "addr list option"
  texture_bundle :: "addr list option"

subsection \<open>The scene\<close>

text \<open>
  Of \<^verbatim>\<open>Scene1\<close> the tracker reads the shape iterator, the light iterator and the camera
  pointer (null when the scene has no camera); \<^verbatim>\<open>GetNumLights\<close> is the number of lights
  the light iterator yields.
\<close>

record scene1 =
  CreateShapeIterator :: "addr list"
  CreateLightIterator :: "addr list"
  GetCamera :: "addr option"

definition GetNumLights :: "scene1 \<Rightarrow> nat" where
  "GetNumLights scene = length (CreateLightIterator scene)"

subsection \<open>UpdateIntersector and ReloadIntersector\<close>

text \<open>
  The state of the three loops of \<^verbatim>\<open>UpdateIntersector\<close>: the id counter, the two handle
  lists of the compiled scene, the \<^verbatim>\<open>rr_shapes\<close> map from a shape to its handle, and the
  engine.
\<close>

record isect_state =
  id_counter :: int32
  st_isect_shapes :: "rr_shape list"
  st_visible_shapes :: "rr_shape list"
  rr_shapes :: "addr \<Rightarrow> rr_shape option"
  st_api :: api

definition create_mesh_handle :: "shape_heap \<Rightarrow> addr \<Rightarrow> isect_state \<Rightarrow> rr_shape \<times> api" where
  "create_mesh_handle w mesh s =
     (case CreateMesh (st_api s) (GetVertices w mesh) (static_cast_int (GetNumVertices w mesh))
             (GetIndices w mesh) (static_cast_int (GetNumIndices w mesh div 3)) of
        (shape, a) \<Rightarrow> (SetId (id_counter s) (SetTransform (GetTransform w mesh) shape), a))"

fun handle_meshes :: "shape_heap \<Rightarrow> addr list \<Rightarrow> isect_state \<Rightarrow> isect_state" where
  "handle_meshes w [] s = s"
| "handle_meshes w (mesh # rest) s =
     (case create_mesh_handle w mesh s of
        (shape, a) \<Rightarrow>
          handle_meshes w rest
            (s\<lparr>id_counter := id_counter s + 1,
               st_isect_shapes := st_isect_shapes s @ [shape],
               st_visible_shapes := st_visible_shapes s @ [shape],
               rr_shapes := (rr_shapes s)(mesh \<mapsto> shape),
               st_api := a\<rparr>))"

fun handle_excluded_meshes :: "shape_heap \<Rightarrow> addr list \<Rightarrow> isect_state \<Rightarrow> isect_state" where
  "handle_excluded_meshes w [] s = s"
| "handle_excluded_meshes w (mesh # rest) s =
     (case create_mesh_handle w mesh s of
        (shape, a) \<Rightarrow>
          handle_excluded_meshes w rest
            (s\<lparr>id_counter := id_counter s + 1,
               st_isect_shapes := st_isect_shapes s @ [shape],
               rr_shapes := (rr_shapes s)(mesh \<mapsto> shape),
               st_api := a\<rparr>))"

fun handle_instances :: "shape_heap \<Rightarrow> addr list \<Rightarrow> isect_state \<Rightarrow> isect_state" where
  "handle_instances w [] s = s"
| "handle_instances w (instance # rest) s =
     (case CreateInstance (st_api s) (rr_shapes s (GetBaseShape w instance)) of
        (shape0, a) \<Rightarrow>
          (let shape = SetId (id_counter s) (SetTransform (GetTransform w instance) shape0) in
           handle_instances w rest
             (s\<lparr>id_counter := id_counter s + 1,
                st_isect_shapes := st_isect_shapes s @ [shape],
                st_visible_shapes := st_visible_shapes s @ [shape],
                st_api := a\<rparr>)))"

text \<open>Detach and delete every handle the compiled scene holds.\<close>

fun detach_and_delete :: "rr_shape list \<Rightarrow> api \<Rightarrow> api" where
  "detach_and_delete [] a = a"
| "detach_and_delete (shape # rest) a = detach_and_delete rest (DeleteShape shape (DetachShape shape a))"

definition UpdateIntersector ::
  "shape_heap \<Rightarrow> scene1 \<Rightarrow> clw_scene \<times> api \<Rightarrow> (clw_scene \<times> api) failure + clw_scene \<times> api" where
  "UpdateIntersector w scene st =
     (case st of (out, a0) \<Rightarrow>
        let a1 = detach_and_delete (isect_shapes out) a0;
            out1 = out\<lparr>isect_shapes := [], visible_shapes := []\<rparr>;
            shape_iter = CreateShapeIterator scene
        in if shape_iter = [] then Inl (RuntimeError ''No shapes in the scene'' (out1, a1))
           else
             (case SplitMeshesAndInstances w shape_iter of
                (meshes, instances, excluded_meshes) \<Rightarrow>
                  let s0 = \<lparr>id_counter = 1, st_isect_shapes = isect_shapes out1,
                            st_visible_shapes = visible_shapes out1,
                            rr_shapes = Map.empty, st_api = a1\<rparr>;
                      s1 = handle_meshes w meshes s0;
                      s2 = handle_excluded_meshes w excluded_meshes s1;
                      s3 = handle_instances w instances s2
                  in Inr (out1\<lparr>isect_shapes := st_isect_shapes s3,
                               visible_shapes := st_visible_shapes s3\<rparr>, st_api s3)))"

fun attach_all :: "rr_shape list \<Rightarrow> api \<Rightarrow> api" where
  "attach_all [] a = a"
| "attach_all (s # rest) a = attach_all rest (AttachShape s a)"

definition ReloadIntersector :: "clw_scene \<Rightarrow> api \<Rightarrow> api" where
  "ReloadIntersector inout a = IntersectionApi_Commit (attach_all (visible_shapes inout) (DetachAll a))"

subsection \<open>Materials, lights, textures and cameras: the accessors the tracker calls\<close>

text \<open>
  The classes of the scene graph are declared outside this file. Each accessor the
  tracker calls is a component of the heap, from the address of the object to what the
  call returns. \<open>material_class\<close> and \<open>light_class\<close> are the dynamic types the source tests
  with \<^verbatim>\<open>dynamic_cast\<close>; \<open>AreaLight\<close> stands for every light that is none of the other
  four, as in the last branch of \<^verbatim>\<open>GetLightType\<close>. An iterator is the list of the items it
  yields.
\<close>

datatype BxdfType =
  kZero | kLambert | kEmissive | kPassthrough | kTranslucent | kIdealReflect | kIdealRefract
| kMicrofacetGGX | kMicrofacetBeckmann | kMicrofacetRefractionGGX | kMicrofacetRefractionBeckmann

datatype MultiBxdf_Type = kMix | kLayered | kFresnelBlend

datatype material_class = SingleBxdf BxdfType | MultiBxdf MultiBxdf_Type | OtherMaterial

datatype InputType = kFloat4 | kTexture | kMaterial

record InputValue =
  input_type :: InputType
  float_value :: float4
  tex_value :: "addr option"
  mat_value :: "addr option"

record material_heap =
  material_class :: "addr \<Rightarrow> material_class"
  GetInputValue :: "addr \<Rightarrow> string \<Rightarrow> InputValue"
  CreateMaterialIterator :: "addr \<Rightarrow> addr list"
  CreateTextureIterator :: "addr \<Rightarrow> addr list"

datatype light_class = PointLight | DirectionalLight | SpotLight | ImageBasedLight | AreaLight

record light_heap =
  light_class :: "addr \<Rightarrow> light_class"
  GetPosition :: "addr \<Rightarrow> float3"
  GetDirection :: "addr \<Rightarrow> float3"
  GetEmittedRadiance :: "addr \<Rightarrow> float3"
  GetConeShape :: "addr \<Rightarrow> float2"
  GetMultiplier :: "addr \<Rightarrow> float"
  GetTexture :: "addr \<Rightarrow> addr option"
  GetShape :: "addr \<Rightarrow> addr option"
  GetPrimitiveIdx :: "addr \<Rightarrow> nat"
  CreateLightTextureIterator :: "addr \<Rightarrow> addr list"

datatype Format = kRgba8 | kRgba16 | kRgba32 | kOtherFormat

record texture_heap =
  GetSize :: "addr \<Rightarrow> int32 \<times> int32"
  GetFormat :: "addr \<Rightarrow> Format"
  GetData :: "addr \<Rightarrow> 8 word list"

definition GetSizeInBytes :: "texture_heap \<Rightarrow> addr \<Rightarrow> nat" where
  "GetSizeInBytes w p = length (GetData w p)"

record camera_heap =
  GetForwardVector :: "addr \<Rightarrow> float3"
  GetUpVector :: "addr \<Rightarrow> float3"
  GetRightVector :: "addr \<Rightarrow> float3"
  GetCameraPosition :: "addr \<Rightarrow> float3"
  GetAperture :: "addr \<Rightarrow> float"
  GetAspectRatio :: "addr \<Rightarrow> float"
  GetSensorSize :: "addr \<Rightarrow> float2"
  GetFocalLength :: "addr \<Rightarrow> float"
  GetFocusDistance :: "addr \<Rightarrow> float"
  GetDepthRange :: "addr \<Rightarrow> float2"

record world =
  the_scenes :: "addr \<Rightarrow> scene1"
  the_shapes :: shape_heap
  the_materials :: material_heap
  the_lights :: light_heap
  the_textures :: texture_heap
  the_cameras :: camera_heap

subsection \<open>Dirty bits\<close>

text \<open>
  \<open>IsDirty\<close> is the dirty bit of every scene object (\<^verbatim>\<open>SceneObject::IsDirty\<close>), by address;
  \<open>SetDirty\<close> writes it. The dirty flags of a scene are the set of the flags that are on;
  the tracker tests \<open>kCamera\<close>, \<open>kLights\<close> and \<open>kShapes\<close>.
\<close>

type_synonym dirty_bits = "addr \<Rightarrow> bool"

definition SetDirty :: "addr \<Rightarrow> bool \<Rightarrow> dirty_bits \<Rightarrow> dirty_bits" where
  "SetDirty p b d = d(p := b)"

datatype DirtyFlag = kCamera | kLights | kShapes

subsection \<open>Device buffers\<close>

text \<open>
  Modelled from the spec: \<^verbatim>\<open>CLWContext::CreateBuffer<T>(n, flags)\<close> gives a buffer of \<open>n\<close>
  elements which the source does not initialise. What such a buffer holds before the
  first write is a parameter of the model, the context's \<open>fresh\<close> element of each type.
  Mapping a buffer, writing through the pointer and unmapping it is a write to the list.
\<close>

record clw_context =
  fresh_camera :: clw_camera
  fresh_float3 :: float3
  fresh_float2 :: float2
  fresh_int :: int32
  fresh_shape :: clw_shape
  fresh_material :: clw_material
  fresh_texture :: clw_texture
  fresh_char :: "8 word"
  fresh_light :: clw_light

definition CreateBuffer :: "'a \<Rightarrow> nat \<Rightarrow> 'a list" where
  "CreateBuffer fresh n = replicate n fresh"

text \<open>
  \<^verbatim>\<open>std::copy(first, first + n, dst + off)\<close> and \<^verbatim>\<open>std::fill(dst + off, dst + off + n, v)\<close>
  on a mapped buffer, element by element. The source sizes every buffer before it writes;
  a write past the end, which would corrupt memory there, leaves the list unchanged here.
\<close>

fun copy :: "'a list \<Rightarrow> nat \<Rightarrow> 'a list \<Rightarrow> 'a list" where
  "copy [] off dst = dst"
| "copy (x # xs) off dst = copy xs (Suc off) (dst[off := x])"

fun fill :: "nat \<Rightarrow> nat \<Rightarrow> 'a \<Rightarrow> 'a list \<Rightarrow> 'a list" where
  "fill off 0 v dst = dst"
| "fill off (Suc n) v dst = fill (Suc off) n v (dst[off := v])"

subsection \<open>Collector\<close>

text \<open>
  Modelled from the spec: the Collector class is declared outside this file. Following
  section 4.1 of the specification, \<open>Collect_roots\<close> (the method \<^verbatim>\<open>Collect\<close>) accumulates the union of the sets that
  \<open>expand\<close> gives for the roots into a working set, \<open>Commit\<close> makes the working set the
  committed sequence and numbers it from 0, \<open>GetItemIndex\<close> gives that number,
  \<open>CreateBundle\<close> snapshots the committed sequence, \<open>NeedsUpdate\<close> holds when the
  committed sequence differs from the snapshot or an item is dirty, and \<open>Finalize\<close>
  applies a function to every committed item. The working set is a \<^verbatim>\<open>std::set\<close>. The
  specification does not say what \<open>GetItemIndex\<close> gives for a pointer that was not
  committed; the model reads it from the component \<open>c_outside\<close>. An \<open>expand\<close> that does
  not return gives \<open>None\<close>, and then \<open>Collect_roots\<close> does not return either.
\<close>

record collector =
  c_set :: "addr list"
  c_items :: "addr list"
  c_outside :: "addr option \<Rightarrow> int32"

definition Clear :: "collector \<Rightarrow> collector" where
  "Clear c = c\<lparr>c_set := [], c_items := []\<rparr>"

fun Collect_roots :: "(addr \<Rightarrow> addr list option) \<Rightarrow> addr list \<Rightarrow> collector \<Rightarrow> collector option" where
  "Collect_roots expand [] c = Some c"
| "Collect_roots expand (item # rest) c =
     (case expand item of
        None \<Rightarrow> None
      | Some found \<Rightarrow> Collect_roots expand rest (c\<lparr>c_set := fold emplace found (c_set c)\<rparr>))"

definition Commit :: "collector \<Rightarrow> collector" where
  "Commit c = c\<lparr>c_items := c_set c\<rparr>"

definition GetNumItems :: "collector \<Rightarrow> nat" where
  "GetNumItems c = length (c_items c)"

definition CreateIterator :: "collector \<Rightarrow> addr list" where
  "CreateIterator c = c_items c"

fun position :: "addr \<Rightarrow> addr list \<Rightarrow> nat option" where
  "position a [] = None"
| "position a (b # bs) = (if a = b then Some 0 else map_option Suc (position a bs))"

definition GetItemIndex :: "collector \<Rightarrow> addr option \<Rightarrow> int32" where
  "GetItemIndex c item =
     (case item of
        None \<Rightarrow> c_outside c None
      | Some p \<Rightarrow> (case position p (c_items c) of
                    None \<Rightarrow> c_outside c (Some p)
                  | Some k \<Rightarrow> of_nat k))"

definition CreateBundle :: "collector \<Rightarrow> addr list" where
  "CreateBundle c = c_items c"

definition NeedsUpdate :: "collector \<Rightarrow> addr list \<Rightarrow> (addr \<Rightarrow> bool) \<Rightarrow> bool" where
  "NeedsUpdate c bundle is_dirty = (c_items c \<noteq> bundle \<or> list_ex is_dirty (c_items c))"

definition Finalize :: "collector \<Rightarrow> (addr \<Rightarrow> 's \<Rightarrow> 's) \<Rightarrow> 's \<Rightarrow> 's" where
  "Finalize c per_item s = fold per_item (c_items c) s"

subsection \<open>GetShapeIdx\<close>

text \<open>
  One search loop of \<^verbatim>\<open>GetShapeIdx\<close>: \<open>Inl idx\<close> when the loop returns \<open>idx\<close>, \<open>Inr idx\<close> when it
  ends with the counter at \<open>idx\<close>. The function returns \<^verbatim>\<open>-1\<close> as a \<^verbatim>\<open>std::size_t\<close>, the
  largest 64-bit value, when no loop finds the shape.
\<close>

fun shape_idx_loop :: "addr list \<Rightarrow> addr option \<Rightarrow> nat \<Rightarrow> nat + nat" where
  "shape_idx_loop [] shape idx = Inr idx"
| "shape_idx_loop (i # rest) shape idx =
     (if Some i = shape then Inl idx else shape_idx_loop rest shape (idx + 1))"

definition GetShapeIdx :: "shape_heap \<Rightarrow> addr list \<Rightarrow> addr option \<Rightarrow> nat" where
  "GetShapeIdx w shape_iter shape =
     (case SplitMeshesAndInstances w shape_iter of
        (meshes, instances, excluded_meshes) \<Rightarrow>
          (case shape_idx_loop meshes shape 0 of
             Inl idx \<Rightarrow> idx
           | Inr idx \<Rightarrow>
               (case shape_idx_loop excluded_meshes shape idx of
                  Inl idx \<Rightarrow> idx
                | Inr idx \<Rightarrow>
                    (case shape_idx_loop instances shape idx of
                       Inl idx \<Rightarrow> idx
                     | Inr idx \<Rightarrow> 2 ^ 64 - 1))))"

subsection \<open>WriteLight and UpdateLights\<close>

definition GetLightType :: "light_heap \<Rightarrow> addr \<Rightarrow> LightType" where
  "GetLightType w light =
     (case light_class w light of
        PointLight \<Rightarrow> kPoint
      | DirectionalLight \<Rightarrow> kDirectional
      | SpotLight \<Rightarrow> kSpot
      | ImageBasedLight \<Rightarrow> kIbl
      | AreaLight \<Rightarrow> kArea)"

definition WriteLight :: "world \<Rightarrow> scene1 \<Rightarrow> addr \<Rightarrow> collector \<Rightarrow> clw_light \<Rightarrow> clw_light" where
  "WriteLight w scene light tex_collector data =
     (let lh = the_lights w;
          ty = GetLightType lh light;
          clw_light = data\<lparr>ltype := ty\<rparr>
      in case ty of
           kPoint \<Rightarrow>
             clw_light\<lparr>lp := GetPosition lh light, intensity := GetEmittedRadiance lh light\<rparr>
         | kDirectional \<Rightarrow>
             clw_light\<lparr>ld := GetDirection lh light, intensity := GetEmittedRadiance lh light\<rparr>
         | kSpot \<Rightarrow>
             clw_light\<lparr>lp := GetPosition lh light, ld := GetDirection lh light,
                        intensity := GetEmittedRadiance lh light,
                        ia := f2x (GetConeShape lh light), oa := f2y (GetConeShape lh light)\<rparr>
         | kIbl \<Rightarrow>
             (let idx = GetItemIndex tex_collector (GetTexture lh light) in
              clw_light\<lparr>multiplier := GetMultiplier lh light, tex := idx, texdiffuse := idx\<rparr>)
         | kArea \<Rightarrow>
             clw_light\<lparr>shapeidx := static_cast_int
                          (GetShapeIdx (the_shapes w) (CreateShapeIterator scene) (GetShape lh light)),
                        primidx := static_cast_int (GetPrimitiveIdx lh light)\<rparr>)"

text \<open>
  The serialising loop of \<^verbatim>\<open>UpdateLights\<close>. Its state is \<open>num_lights_written\<close>, the mapped
  lights buffer, \<open>envmapidx\<close> and the dirty bits.
\<close>

fun write_lights ::
  "world \<Rightarrow> scene1 \<Rightarrow> collector \<Rightarrow> addr list \<Rightarrow> nat \<times> clw_light list \<times> int32 \<times> dirty_bits
     \<Rightarrow> nat \<times> clw_light list \<times> int32 \<times> dirty_bits" where
  "write_lights w scene tc [] st = st"
| "write_lights w scene tc (light # rest) (num_lights_written, buf, env, d) =
     (let buf1 = buf[num_lights_written := WriteLight w scene light tc (buf ! num_lights_written)];
          n1 = num_lights_written + 1;
          env1 = (if light_class (the_lights w) light = ImageBasedLight
                  then static_cast_int (n1 - 1) else env)
      in write_lights w scene tc rest (n1, buf1, env1, SetDirty light False d))"

definition UpdateLights ::
  "clw_context \<Rightarrow> world \<Rightarrow> scene1 \<Rightarrow> collector \<Rightarrow> clw_scene \<times> dirty_bits \<Rightarrow> clw_scene \<times> dirty_bits" where
  "UpdateLights ctx w scene tex_collector st =
     (case st of (out, d) \<Rightarrow>
        let n = GetNumLights scene;
            out1 = (if n > length (lights out)
                    then out\<lparr>lights := CreateBuffer (fresh_light ctx) n\<rparr> else out);
            out2 = out1\<lparr>envmapidx := - 1\<rparr>
        in case write_lights w scene tex_collector (CreateLightIterator scene)
                  (0, lights out2, envmapidx out2, d) of
             (num_lights_written, buf, env, d1) \<Rightarrow>
               (out2\<lparr>lights := buf, envmapidx := env,
                     num_lights := static_cast_int num_lights_written\<rparr>, d1))"

subsection \<open>GetMaterialType and WriteMaterial\<close>

definition GetMaterialType :: "material_heap \<Rightarrow> addr \<Rightarrow> Bxdf" where
  "GetMaterialType w material =
     (case material_class w material of
        SingleBxdf b \<Rightarrow>
          (case b of
             BxdfType.kZero \<Rightarrow> Bxdf.kZero
           | BxdfType.kLambert \<Rightarrow> Bxdf.kLambert
           | BxdfType.kEmissive \<Rightarrow> Bxdf.kEmissive
           | BxdfType.kPassthrough \<Rightarrow> Bxdf.kPassthrough
           | BxdfType.kTranslucent \<Rightarrow> Bxdf.kTranslucent
           | BxdfType.kIdealReflect \<Rightarrow> Bxdf.kIdealReflect
           | BxdfType.kIdealRefract \<Rightarrow> Bxdf.kIdealRefract
           | BxdfType.kMicrofacetGGX \<Rightarrow> Bxdf.kMicrofacetGGX
           | BxdfType.kMicrofacetBeckmann \<Rightarrow> Bxdf.kMicrofacetBeckmann
           | BxdfType.kMicrofacetRefractionGGX \<Rightarrow> Bxdf.kMicrofacetRefractionGGX
           | BxdfType.kMicrofacetRefractionBeckmann \<Rightarrow> Bxdf.kMicrofacetRefractionBeckmann)
      | MultiBxdf t \<Rightarrow>
          (case t of
             MultiBxdf_Type.kMix \<Rightarrow> Bxdf.kMix
           | MultiBxdf_Type.kLayered \<Rightarrow> Bxdf.kLayered
           | MultiBxdf_Type.kFresnelBlend \<Rightarrow> Bxdf.kFresnelBlend)
      | OtherMaterial \<Rightarrow> Bxdf.kZero)"

text \<open>
  The case blocks of the switch in \<^verbatim>\<open>WriteMaterial\<close>. \<open>case_Microfacet\<close> is the block of the
  four microfacet labels, which has no \<^verbatim>\<open>break\<close> and runs into \<open>case_Lambert\<close>, the block
  of \<open>kLambert\<close> to \<open>kIdealReflect\<close>. \<open>case_Mix\<close> is the block of \<open>kMix\<close> and \<open>kFresnelBlend\<close>.
  An \<^verbatim>\<open>assert(false)\<close> is the failure \<open>AssertionFailed\<close>.
\<close>

definition case_Microfacet ::
  "material_heap \<Rightarrow> addr \<Rightarrow> collector \<Rightarrow> clw_material \<Rightarrow> 's failure + clw_material" where
  "case_Microfacet w material tex_collector clw =
     (let val = GetInputValue w material ''roughness'' in
      if input_type val = kFloat4
      then Inr (clw\<lparr>ns := fx (float_value val), nsmapidx := - 1\<rparr>)
      else if input_type val = kTexture
      then Inr (clw\<lparr>nsmapidx := (if tex_value val \<noteq> None
                                   then GetItemIndex tex_collector (tex_value val) else - 1)\<rparr>)
      else Inl AssertionFailed)"

definition write_normal_map :: "material_heap \<Rightarrow> addr \<Rightarrow> collector \<Rightarrow> clw_material \<Rightarrow> clw_material" where
  "write_normal_map w material tex_collector clw =
     (let val = GetInputValue w material ''normal'' in
      if input_type val = kTexture \<and> tex_value val \<noteq> None
      then clw\<lparr>nmapidx := GetItemIndex tex_collector (tex_value val), bump_flag := 0\<rparr>
      else
        (let val = GetInputValue w material ''bump'' in
         if input_type val = kTexture \<and> tex_value val \<noteq> None
         then clw\<lparr>nmapidx := GetItemIndex tex_collector (tex_value val), bump_flag := 1\<rparr>
         else clw\<lparr>nmapidx := - 1, bump_flag := 0\<rparr>))"

definition write_fresnel_ior_roughness :: "material_heap \<Rightarrow> addr \<Rightarrow> clw_material \<Rightarrow> clw_material" where
  "write_fresnel_ior_roughness w material clw =
     (let val = GetInputValue w material ''fresnel'';
          clw1 = (if input_type val = kFloat4
                  then clw\<lparr>fresnel := (if fx (float_value val) > 0 then 1 else 0)\<rparr>
                  else clw\<lparr>fresnel := 0\<rparr>);
          val = GetInputValue w material ''ior'';
          clw2 = (if input_type val = kFloat4
                  then clw1\<lparr>ni := fx (float_value val)\<rparr>
                  else clw1\<lparr>ni := 1\<rparr>);
          val = GetInputValue w material ''roughness''
      in if input_type val = kFloat4
         then clw2\<lparr>ns := fx (float_value val)\<rparr>
         else clw2\<lparr>ns := 0.99\<rparr>)"

definition case_Lambert ::
  "material_heap \<Rightarrow> addr \<Rightarrow> collector \<Rightarrow> clw_material \<Rightarrow> 's failure + clw_material" where
  "case_Lambert w material tex_collector clw =
     (let val = GetInputValue w material ''albedo'' in
      if input_type val = kFloat4
      then Inr (write_fresnel_ior_roughness w material
                 (write_normal_map w material tex_collector
                   (clw\<lparr>kx := float_value val, kxmapidx := - 1\<rparr>)))
      else if input_type val = kTexture
      then Inr (write_fresnel_ior_roughness w material
                 (write_normal_map w material tex_collector
                   (clw\<lparr>kxmapidx := (if tex_value val \<noteq> None
                                       then GetItemIndex tex_collector (tex_value val) else - 1)\<rparr>)))
      else Inl AssertionFailed)"

definition case_Mix ::
  "material_heap \<Rightarrow> addr \<Rightarrow> collector \<Rightarrow> collector \<Rightarrow> Bxdf \<Rightarrow> clw_material \<Rightarrow> 's failure + clw_material" where
  "case_Mix w material mat_collector tex_collector ty clw =
     (let value0 = GetInputValue w material ''base_material'';
          value1 = GetInputValue w material ''top_material''
      in if input_type value0 = kMaterial \<and> input_type value1 = kMaterial
         then
           (let clw1 = clw\<lparr>brdfbaseidx := GetItemIndex mat_collector (mat_value value0),
                            brdftopidx := GetItemIndex mat_collector (mat_value value1)\<rparr>
            in if ty = Bxdf.kMix
               then
                 (let val = GetInputValue w material ''weight'' in
                  if input_type val = kTexture
                  then Inr (clw1\<lparr>fresnel := 0, nsmapidx := GetItemIndex tex_collector (tex_value val)\<rparr>)
                  else Inr (clw1\<lparr>fresnel := 0, nsmapidx := - 1, ns := fx (float_value val)\<rparr>))
               else
                 (let val = GetInputValue w material ''ior'' in
                  if input_type val = kFloat4
                  then Inr (clw1\<lparr>fresnel := 1, ni := fx (float_value val)\<rparr>)
                  else Inl AssertionFailed))
         else Inl AssertionFailed)"

text \<open>
  \<open>WriteMaterial\<close> writes into the record \<open>data\<close> points to and clears the dirty bit of the
  material. \<open>kLayered\<close> has no case label: the switch takes the empty \<^verbatim>\<open>default\<close>.
\<close>

definition WriteMaterial ::
  "material_heap \<Rightarrow> addr \<Rightarrow> collector \<Rightarrow> collector \<Rightarrow> clw_material \<Rightarrow> dirty_bits
     \<Rightarrow> 's failure + clw_material \<times> dirty_bits" where
  "WriteMaterial w material mat_collector tex_collector data d =
     (let ty = GetMaterialType w material;
         clw = data\<lparr>type := ty\<rparr>;
         microfacet = (case case_Microfacet w material tex_collector clw of
                         Inl e \<Rightarrow> Inl e
                       | Inr clw1 \<Rightarrow> case_Lambert w material tex_collector clw1);
         written =
           (case ty of
              Bxdf.kZero \<Rightarrow> Inr (clw\<lparr>kx := Float4 0 0 0 0\<rparr>)
            | Bxdf.kMicrofacetGGX \<Rightarrow> microfacet
            | Bxdf.kMicrofacetBeckmann \<Rightarrow> microfacet
            | Bxdf.kMicrofacetRefractionGGX \<Rightarrow> microfacet
            | Bxdf.kMicrofacetRefractionBeckmann \<Rightarrow> microfacet
            | Bxdf.kLambert \<Rightarrow> case_Lambert w material tex_collector clw
            | Bxdf.kEmissive \<Rightarrow> case_Lambert w material tex_collector clw
            | Bxdf.kPassthrough \<Rightarrow> case_Lambert w material tex_collector clw
            | Bxdf.kTranslucent \<Rightarrow> case_Lambert w material tex_collector clw
            | Bxdf.kIdealRefract \<Rightarrow> case_Lambert w material tex_collector clw
            | Bxdf.kIdealReflect \<Rightarrow> case_Lambert w material tex_collector clw
            | Bxdf.kMix \<Rightarrow> case_Mix w material mat_collector tex_collector ty clw
            | Bxdf.kFresnelBlend \<Rightarrow> case_Mix w material mat_collector tex_collector ty clw
            | Bxdf.kLayered \<Rightarrow> Inr clw)
     in case written of
          Inl e \<Rightarrow> Inl e
        | Inr clw1 \<Rightarrow> Inr (clw1, SetDirty material False d))"

subsection \<open>UpdateCamera\<close>

text \<open>
  The source casts \<^verbatim>\<open>scene.GetCamera()\<close> to a perspective camera and reads through the
  pointer without a test; on a scene with no camera that is a null dereference. The camera
  buffer has one element, created by \<^verbatim>\<open>RecompileFull\<close>.
\<close>

definition UpdateCamera ::
  "camera_heap \<Rightarrow> scene1 \<Rightarrow> clw_scene \<Rightarrow> dirty_bits \<Rightarrow> 's failure + clw_scene \<times> dirty_bits" where
  "UpdateCamera w scene out d =
     (case GetCamera scene of
        None \<Rightarrow> Inl NullDereference
      | Some cam \<Rightarrow>
          Inr (out\<lparr>camera_type := (if GetAperture w cam > 0 then kPhysical else kDefault),
                   camera := (camera out)[0 :=
                     \<lparr>forward = GetForwardVector w cam, up = GetUpVector w cam,
                      right = GetRightVector w cam, cp = GetCameraPosition w cam,
                      aperture = GetAperture w cam, aspect_ratio = GetAspectRatio w cam,
                      dim = GetSensorSize w cam, focal_length = GetFocalLength w cam,
                      focus_distance = GetFocusDistance w cam, zcap = GetDepthRange w cam\<rparr>]\<rparr>,
               SetDirty cam False d))"

subsection \<open>UpdateShapes\<close>

text \<open>
  The state of the serialising loops: the six counters, the six mapped buffers, the
  \<^verbatim>\<open>shape_data\<close> map from a mesh to the record written for it, and the dirty bits.
\<close>

record shapes_pass =
  num_vertices_written :: nat
  num_normals_written :: nat
  num_uvs_written :: nat
  num_indices_written :: nat
  num_matids_written :: nat
  num_shapes_written :: nat
  p_vertices :: "float3 list"
  p_normals :: "float3 list"
  p_uvs :: "float2 list"
  p_indices :: "int32 list"
  p_matids :: "int32 list"
  p_shapes :: "clw_shape list"
  shape_data :: "addr \<Rightarrow> clw_shape option"
  p_dirty :: dirty_bits

definition shape_transform :: "matrix \<Rightarrow> clw_transform" where
  "shape_transform t =
     Transform (Float4 (m00 t) (m01 t) (m02 t) (m03 t)) (Float4 (m10 t) (m11 t) (m12 t) (m13 t))
               (Float4 (m20 t) (m21 t) (m22 t) (m23 t)) (Float4 (m30 t) (m31 t) (m32 t) (m33 t))"

text \<open>
  \<open>prepare_shape_descriptor\<close> is the record the source fills under the comment "Prepare
  shape descriptor". \<open>serialize_mesh\<close> is the body of the loop over \<open>meshes\<close> and of the
  loop over \<open>excluded_meshes\<close>. The two
  bodies are the same text in the source but for the value that fills the material ids:
  the collector index of the mesh's material (the default material when it has none) in
  the first loop, \<^verbatim>\<open>-1\<close> in the second.
\<close>

definition prepare_shape_descriptor :: "shape_heap \<Rightarrow> addr \<Rightarrow> shapes_pass \<Rightarrow> clw_shape" where
  "prepare_shape_descriptor w mesh s =
     \<lparr>numprims = static_cast_int (GetNumIndices w mesh div 3),
      startvtx = static_cast_int (num_vertices_written s),
      startidx = static_cast_int (num_indices_written s),
      start_material_idx = static_cast_int (num_matids_written s),
      transform = shape_transform (GetTransform w mesh),
      linearvelocity = Float3 0 0 0 0,
      angularvelocity = Float3 0 0 0 1\<rparr>"

definition serialize_mesh :: "shape_heap \<Rightarrow> addr \<Rightarrow> int32 \<Rightarrow> shapes_pass \<Rightarrow> shapes_pass" where
  "serialize_mesh w mesh matidx s =
     (let mesh_num_indices = GetNumIndices w mesh;
          shape = prepare_shape_descriptor w mesh s
      in s\<lparr>shape_data := (shape_data s)(mesh \<mapsto> shape),
           p_vertices := copy (GetVertices w mesh) (num_vertices_written s) (p_vertices s),
           num_vertices_written := num_vertices_written s + GetNumVertices w mesh,
           p_normals := copy (GetNormals w mesh) (num_normals_written s) (p_normals s),
           num_normals_written := num_normals_written s + GetNumNormals w mesh,
           p_uvs := copy (GetUVs w mesh) (num_uvs_written s) (p_uvs s),
           num_uvs_written := num_uvs_written s + GetNumUVs w mesh,
           p_indices := copy (GetIndices w mesh) (num_indices_written s) (p_indices s),
           num_indices_written := num_indices_written s + mesh_num_indices,
           p_shapes := (p_shapes s)[num_shapes_written s := shape],
           num_shapes_written := num_shapes_written s + 1,
           p_matids := fill (num_matids_written s) (mesh_num_indices div 3) matidx (p_matids s),
           num_matids_written := num_matids_written s + mesh_num_indices div 3,
           p_dirty := SetDirty mesh False (p_dirty s)\<rparr>)"

definition material_or_default :: "shape_heap \<Rightarrow> addr \<Rightarrow> addr \<Rightarrow> addr" where
  "material_or_default w default_material shape =
     (case GetMaterial w shape of None \<Rightarrow> default_material | Some material \<Rightarrow> material)"

fun serialize_meshes :: "shape_heap \<Rightarrow> addr \<Rightarrow> collector \<Rightarrow> addr list \<Rightarrow> shapes_pass \<Rightarrow> shapes_pass" where
  "serialize_meshes w default_material mat_collector [] s = s"
| "serialize_meshes w default_material mat_collector (mesh # rest) s =
     serialize_meshes w default_material mat_collector rest
       (serialize_mesh w mesh
          (GetItemIndex mat_collector (Some (material_or_default w default_material mesh))) s)"

fun serialize_excluded_meshes :: "shape_heap \<Rightarrow> addr list \<Rightarrow> shapes_pass \<Rightarrow> shapes_pass" where
  "serialize_excluded_meshes w [] s = s"
| "serialize_excluded_meshes w (mesh # rest) s =
     serialize_excluded_meshes w rest (serialize_mesh w mesh (- 1) s)"

text \<open>
  \<^verbatim>\<open>shape_data[base_shape]\<close> on a \<^verbatim>\<open>std::map\<close>: the record stored for the key, and a
  value-initialised record, which the map then holds, when there is none.
\<close>

definition value_initialized_shape :: clw_shape where
  "value_initialized_shape =
     \<lparr>numprims = 0, startvtx = 0, startidx = 0, start_material_idx = 0,
      transform = Transform (Float4 0 0 0 0) (Float4 0 0 0 0) (Float4 0 0 0 0) (Float4 0 0 0 0),
      linearvelocity = Float3 0 0 0 0, angularvelocity = Float3 0 0 0 0\<rparr>"

definition shape_data_at :: "shapes_pass \<Rightarrow> addr \<Rightarrow> clw_shape" where
  "shape_data_at s p = (case shape_data s p of None \<Rightarrow> value_initialized_shape | Some r \<Rightarrow> r)"

definition serialize_instance :: "shape_heap \<Rightarrow> addr \<Rightarrow> collector \<Rightarrow> addr \<Rightarrow> shapes_pass \<Rightarrow> shapes_pass" where
  "serialize_instance w default_material mat_collector instance s =
     (let base_shape = GetBaseShape w instance;
          mesh_num_indices = GetNumIndices w base_shape;
          found = shape_data_at s base_shape;
          shape = found\<lparr>start_material_idx := static_cast_int (num_matids_written s),
                        transform := shape_transform (GetTransform w instance),
                        linearvelocity := Float3 0 0 0 0,
                        angularvelocity := Float3 0 0 0 1\<rparr>;
          mat_idx = GetItemIndex mat_collector (Some (material_or_default w default_material instance))
      in s\<lparr>shape_data := (shape_data s)(base_shape \<mapsto> found),
           p_shapes := (p_shapes s)[num_shapes_written s := shape],
           num_shapes_written := num_shapes_written s + 1,
           p_matids := fill (num_matids_written s) (mesh_num_indices div 3) mat_idx (p_matids s),
           num_matids_written := num_matids_written s + mesh_num_indices div 3,
           p_dirty := SetDirty instance False (p_dirty s)\<rparr>)"

fun serialize_instances :: "shape_heap \<Rightarrow> addr \<Rightarrow> collector \<Rightarrow> addr list \<Rightarrow> shapes_pass \<Rightarrow> shapes_pass" where
  "serialize_instances w default_material mat_collector [] s = s"
| "serialize_instances w default_material mat_collector (instance # rest) s =
     serialize_instances w default_material mat_collector rest
       (serialize_instance w default_material mat_collector instance s)"

text \<open>
  The sizes the source computes over the three sets, the buffers it creates with these
  sizes and maps, and the counters at zero.
\<close>

definition map_shape_buffers ::
  "clw_context \<Rightarrow> shape_heap \<Rightarrow> addr list \<Rightarrow> addr list \<Rightarrow> addr list \<Rightarrow> dirty_bits \<Rightarrow> shapes_pass" where
  "map_shape_buffers ctx w meshes instances excluded_meshes d =
     (let num_vertices = sum_list (map (GetNumVertices w) (meshes @ excluded_meshes));
          num_normals = sum_list (map (GetNumNormals w) (meshes @ excluded_meshes));
          num_uvs = sum_list (map (GetNumUVs w) (meshes @ excluded_meshes));
          num_indices = sum_list (map (GetNumIndices w) (meshes @ excluded_meshes));
          num_material_ids =
            sum_list (map (\<lambda>mesh. GetNumIndices w mesh div 3) (meshes @ excluded_meshes))
            + sum_list (map (\<lambda>i. GetNumIndices w (GetBaseShape w i) div 3) instances);
          num_shapes = length meshes + length excluded_meshes + length instances
      in \<lparr>num_vertices_written = 0, num_normals_written = 0, num_uvs_written = 0,
          num_indices_written = 0, num_matids_written = 0, num_shapes_written = 0,
          p_vertices = CreateBuffer (fresh_float3 ctx) num_vertices,
          p_normals = CreateBuffer (fresh_float3 ctx) num_normals,
          p_uvs = CreateBuffer (fresh_float2 ctx) num_uvs,
          p_indices = CreateBuffer (fresh_int ctx) num_indices,
          p_matids = CreateBuffer (fresh_int ctx) num_material_ids,
          p_shapes = CreateBuffer (fresh_shape ctx) num_shapes,
          shape_data = Map.empty, p_dirty = d\<rparr>)"

definition UpdateShapes ::
  "clw_context \<Rightarrow> shape_heap \<Rightarrow> addr \<Rightarrow> scene1 \<Rightarrow> collector \<Rightarrow> clw_scene \<Rightarrow> dirty_bits
     \<Rightarrow> clw_scene \<times> dirty_bits" where
  "UpdateShapes ctx w default_material scene mat_collector out d =
     (case SplitMeshesAndInstances w (CreateShapeIterator scene) of
        (meshes, instances, excluded_meshes) \<Rightarrow>
          let s0 = map_shape_buffers ctx w meshes instances excluded_meshes d;
              s1 = serialize_meshes w default_material mat_collector meshes s0;
              s2 = serialize_excluded_meshes w excluded_meshes s1;
              s3 = serialize_instances w default_material mat_collector instances s2
          in (out\<lparr>vertices := p_vertices s3, normals := p_normals s3, uvs := p_uvs s3,
                  indices := p_indices s3, shapes := p_shapes s3, materialids := p_matids s3\<rparr>,
              p_dirty s3))"

subsection \<open>UpdateMaterials\<close>

fun write_materials ::
  "material_heap \<Rightarrow> collector \<Rightarrow> collector \<Rightarrow> addr list \<Rightarrow> nat \<Rightarrow> clw_material list \<Rightarrow> dirty_bits
     \<Rightarrow> 's failure + clw_material list \<times> dirty_bits" where
  "write_materials w mc tc [] num_materials_written buf d = Inr (buf, d)"
| "write_materials w mc tc (material # rest) num_materials_written buf d =
     (case WriteMaterial w material mc tc (buf ! num_materials_written) d of
        Inl e \<Rightarrow> Inl e
      | Inr (clw, d1) \<Rightarrow>
          write_materials w mc tc rest (num_materials_written + 1)
            (buf[num_materials_written := clw]) d1)"

definition UpdateMaterials ::
  "clw_context \<Rightarrow> material_heap \<Rightarrow> collector \<Rightarrow> collector \<Rightarrow> clw_scene \<Rightarrow> dirty_bits
     \<Rightarrow> 's failure + clw_scene \<times> dirty_bits" where
  "UpdateMaterials ctx w mat_collector tex_collector out d =
     (let mat_buffer_size = GetNumItems mat_collector;
          out1 = (if mat_buffer_size > length (materials out)
                  then out\<lparr>materials := CreateBuffer (fresh_material ctx) mat_buffer_size\<rparr>
                  else out);
          out2 = out1\<lparr>material_bundle := Some (CreateBundle mat_collector)\<rparr>
      in case write_materials w mat_collector tex_collector (CreateIterator mat_collector) 0
                (materials out2) d of
           Inl e \<Rightarrow> Inl e
         | Inr (buf, d1) \<Rightarrow> Inr (out2\<lparr>materials := buf\<rparr>, d1))"

subsection \<open>WriteTexture, WriteTextureData and UpdateTextures\<close>

definition GetTextureFormat :: "texture_heap \<Rightarrow> addr \<Rightarrow> TextureFormat" where
  "GetTextureFormat w texture =
     (case GetFormat w texture of
        kRgba8 \<Rightarrow> RGBA8
      | kRgba16 \<Rightarrow> RGBA16
      | kRgba32 \<Rightarrow> RGBA32
      | kOtherFormat \<Rightarrow> RGBA8)"

definition WriteTexture :: "texture_heap \<Rightarrow> addr \<Rightarrow> nat \<Rightarrow> clw_texture \<Rightarrow> clw_texture" where
  "WriteTexture w texture data_offset data =
     data\<lparr>tex_w := fst (GetSize w texture), tex_h := snd (GetSize w texture),
          fmt := GetTextureFormat w texture, dataoffset := static_cast_int data_offset\<rparr>"

definition WriteTextureData :: "texture_heap \<Rightarrow> addr \<Rightarrow> nat \<Rightarrow> 8 word list \<Rightarrow> 8 word list" where
  "WriteTextureData w texture off data = copy (GetData w texture) off data"

text \<open>The first loop returns the headers and \<^verbatim>\<open>tex_data_buffer_size\<close>.\<close>

fun write_textures ::
  "texture_heap \<Rightarrow> addr list \<Rightarrow> nat \<Rightarrow> nat \<Rightarrow> clw_texture list \<Rightarrow> nat \<times> clw_texture list" where
  "write_textures w [] num_textures_written tex_data_buffer_size buf = (tex_data_buffer_size, buf)"
| "write_textures w (t # rest) num_textures_written tex_data_buffer_size buf =
     write_textures w rest (num_textures_written + 1)
       (tex_data_buffer_size + GetSizeInBytes w t)
       (buf[num_textures_written := WriteTexture w t tex_data_buffer_size (buf ! num_textures_written)])"

fun write_texture_data :: "texture_heap \<Rightarrow> addr list \<Rightarrow> nat \<Rightarrow> 8 word list \<Rightarrow> 8 word list" where
  "write_texture_data w [] num_bytes_written data = data"
| "write_texture_data w (t # rest) num_bytes_written data =
     write_texture_data w rest (num_bytes_written + GetSizeInBytes w t)
       (WriteTextureData w t num_bytes_written data)"

definition UpdateTextures :: "clw_context \<Rightarrow> texture_heap \<Rightarrow> collector \<Rightarrow> clw_scene \<Rightarrow> clw_scene" where
  "UpdateTextures ctx w tex_collector out =
     (let tex_buffer_size = GetNumItems tex_collector in
      if tex_buffer_size = 0
      then out\<lparr>textures := CreateBuffer (fresh_texture ctx) 1,
               texturedata := CreateBuffer (fresh_char ctx) 1\<rparr>
      else
        (let out1 = (if tex_buffer_size > length (textures out)
                     then out\<lparr>textures := CreateBuffer (fresh_texture ctx) tex_buffer_size\<rparr>
                     else out);
             out2 = out1\<lparr>texture_bundle := Some (CreateBundle tex_collector)\<rparr>
         in case write_textures w (CreateIterator tex_collector) 0 0 (textures out2) of
              (tex_data_buffer_size, buf) \<Rightarrow>
                (let out3 = out2\<lparr>textures := buf\<rparr>;
                     out4 = (if tex_data_buffer_size > length (texturedata out3)
                             then out3\<lparr>texturedata :=
                                         CreateBuffer (fresh_char ctx) tex_data_buffer_size\<rparr>
                             else out3)
                 in out4\<lparr>texturedata :=
                           write_texture_data w (CreateIterator tex_collector) 0 (texturedata out4)\<rparr>)))"

subsection \<open>RecompileFull\<close>

definition default_volume :: clw_volume where
  "default_volume =
     \<lparr>vol_type = 1, vol_phase_func = 0, vol_data = 0, vol_extra = 0,
      sigma_a = Float3 0.09 0.09 0.09 0, sigma_s = Float3 0.1 0.1 0.1 0,
      sigma_e = Float3 0 0 0 0\<rparr>"

fun delete_shapes :: "rr_shape list \<Rightarrow> api \<Rightarrow> api" where
  "delete_shapes [] a = a"
| "delete_shapes (s # rest) a = delete_shapes rest (DeleteShape s a)"

definition and_then :: "'e + 'a \<Rightarrow> ('a \<Rightarrow> 'e + 'b) \<Rightarrow> 'e + 'b" where
  "and_then r f = (case r of Inl e \<Rightarrow> Inl e | Inr v \<Rightarrow> f v)"

text \<open>
  The state of \<^verbatim>\<open>RecompileFull\<close> is the compiled scene \<open>out\<close>, the engine and the dirty bits.
  When \<^verbatim>\<open>UpdateIntersector\<close> throws, the exception leaves \<open>out\<close> and the engine as they are
  at the throw.
\<close>

definition RecompileFull ::
  "clw_context \<Rightarrow> world \<Rightarrow> addr \<Rightarrow> scene1 \<Rightarrow> collector \<Rightarrow> collector
     \<Rightarrow> clw_scene \<Rightarrow> api \<Rightarrow> dirty_bits
     \<Rightarrow> (clw_scene \<times> api \<times> dirty_bits) failure + clw_scene \<times> api \<times> dirty_bits" where
  "RecompileFull ctx w default_material scene mat_collector tex_collector out a d =
     (let a1 = delete_shapes (isect_shapes out) a;
          out1 = out\<lparr>isect_shapes := []\<rparr>;
          out2 = out1\<lparr>camera := CreateBuffer (fresh_camera ctx) 1\<rparr>
      in and_then (UpdateCamera (the_cameras w) scene out2 d) (\<lambda>(out3, d1).
           case UpdateLights ctx w scene tex_collector (out3, d1) of (out4, d2) \<Rightarrow>
           case UpdateShapes ctx (the_shapes w) default_material scene mat_collector out4 d2 of
             (out5, d3) \<Rightarrow>
           and_then (UpdateMaterials ctx (the_materials w) mat_collector tex_collector out5 d3)
             (\<lambda>(out6, d4).
                let out7 = UpdateTextures ctx (the_textures w) tex_collector out6 in
                case UpdateIntersector (the_shapes w) scene (out7, a1) of
                  Inl e \<Rightarrow> Inl (map_failure (\<lambda>(out8, a2). (out8, a2, d4)) e)
                | Inr (out8, a2) \<Rightarrow> Inr (out8\<lparr>volumes := [default_volume]\<rparr>, a2, d4))))"

subsection \<open>The tracker\<close>

text \<open>
  The state a call of \<^verbatim>\<open>CompileScene\<close> works on: the members of the tracker (the device
  context, the default material, the engine, the scene cache keyed by the address of the
  scene, the current scene), the dirty bits of the scene objects, the dirty flags of the
  scenes, and the two collectors the caller passes by reference.
\<close>

record state =
  m_context :: clw_context
  m_default_material :: addr
  m_api :: api
  m_scene_cache :: "addr \<Rightarrow> clw_scene option"
  m_current_scene :: "addr option"
  IsDirty :: dirty_bits
  GetDirtyFlags :: "addr \<Rightarrow> DirtyFlag set"
  the_mat_collector :: collector
  the_tex_collector :: collector

text \<open>
  \<^verbatim>\<open>ClwScene()\<close>, the entry a scene gets when the cache first sees it: no buffer, no handle,
  no bundle; the scalar members are value-initialised.
\<close>

definition new_ClwScene :: clw_scene where
  "new_ClwScene =
     \<lparr>camera = [], camera_type = kDefault, vertices = [], normals = [], uvs = [], indices = [],
      shapes = [], materialids = [], materials = [], textures = [], texturedata = [],
      lights = [], num_lights = 0, envmapidx = 0, volumes = [], isect_shapes = [],
      visible_shapes = [], material_bundle = None, texture_bundle = None\<rparr>"

text \<open>The compiled scene \<open>out\<close> is a reference into the cache: a write to it is a write there.\<close>

definition store_scene :: "addr \<Rightarrow> clw_scene \<Rightarrow> state \<Rightarrow> state" where
  "store_scene scene_ptr out s = s\<lparr>m_scene_cache := (m_scene_cache s)(scene_ptr \<mapsto> out)\<rparr>"

subsection \<open>CompileScene: collecting materials and textures\<close>

text \<open>
  The material lambda drains a stack: it pops a material, puts it into the result set and
  pushes every material of its dependency iterator, whether or not the set already holds
  it. The loop need not end, so it is a partial function; \<open>None\<close> is a run that does not
  return. The head of the list is the top of the stack.
\<close>

partial_function (option) drain_material_stack ::
  "material_heap \<Rightarrow> addr list \<Rightarrow> addr list \<Rightarrow> addr list option" where
  "drain_material_stack w material_stack mats =
     (case material_stack of
        [] \<Rightarrow> Some mats
      | m # rest \<Rightarrow>
          drain_material_stack w (rev (CreateMaterialIterator w m) @ rest) (emplace m mats))"

declare drain_material_stack.simps [code]

definition shape_materials :: "world \<Rightarrow> addr \<Rightarrow> addr \<Rightarrow> addr list option" where
  "shape_materials w default_material shape =
     drain_material_stack (the_materials w)
       [material_or_default (the_shapes w) default_material shape] []"

definition material_textures :: "world \<Rightarrow> addr \<Rightarrow> addr list option" where
  "material_textures w material =
     Some (fold emplace (CreateTextureIterator (the_materials w) material) [])"

definition light_textures :: "world \<Rightarrow> addr \<Rightarrow> addr list option" where
  "light_textures w light =
     Some (fold emplace (CreateLightTextureIterator (the_lights w) light) [])"

definition collect :: "world \<Rightarrow> scene1 \<Rightarrow> state \<Rightarrow> state option" where
  "collect w scene s =
     Option.bind
       (Collect_roots (shape_materials w (m_default_material s)) (CreateShapeIterator scene)
          (Clear (the_mat_collector s)))
       (\<lambda>mc1.
          Option.bind
            (Collect_roots (material_textures w) (CreateIterator (Commit mc1))
               (Clear (the_tex_collector s)))
            (\<lambda>tc1.
               Option.bind (Collect_roots (light_textures w) (CreateLightIterator scene) tc1)
                 (\<lambda>tc2. Some (s\<lparr>the_mat_collector := Commit mc1,
                                  the_tex_collector := Commit tc2\<rparr>))))"

subsection \<open>CompileScene: a scene the cache does not hold\<close>

definition clear_material_flags :: "collector \<Rightarrow> dirty_bits \<Rightarrow> dirty_bits" where
  "clear_material_flags mc d = Finalize mc (\<lambda>item. SetDirty item False) d"

definition ClearDirtyFlags :: "addr \<Rightarrow> state \<Rightarrow> state" where
  "ClearDirtyFlags scene_ptr s = s\<lparr>GetDirtyFlags := (GetDirtyFlags s)(scene_ptr := {})\<rparr>"

definition first_compile :: "world \<Rightarrow> addr \<Rightarrow> scene1 \<Rightarrow> state \<Rightarrow> state failure + state" where
  "first_compile w scene_ptr scene s =
     (case RecompileFull (m_context s) w (m_default_material s) scene
             (the_mat_collector s) (the_tex_collector s) new_ClwScene (m_api s) (IsDirty s) of
        Inl e \<Rightarrow>
          Inl (map_failure
                 (\<lambda>(out, a, d). store_scene scene_ptr out (s\<lparr>m_api := a, IsDirty := d\<rparr>)) e)
      | Inr (out, a, d) \<Rightarrow>
          Inr (ClearDirtyFlags scene_ptr
                 (store_scene scene_ptr out
                    (s\<lparr>m_api := ReloadIntersector out a,
                       m_current_scene := Some scene_ptr\<rparr>))
               \<lparr>IsDirty := clear_material_flags (the_mat_collector s) d\<rparr>))"

subsection \<open>CompileScene: a scene the cache holds\<close>

text \<open>
  The blocks of the \<^verbatim>\<open>else\<close> branch, in the order of the source. Each takes the cached
  entry \<open>out\<close> and the state, and gives both back or fails.
\<close>

definition camera_block ::
  "world \<Rightarrow> addr \<Rightarrow> scene1 \<Rightarrow> DirtyFlag set \<Rightarrow> clw_scene \<Rightarrow> state \<Rightarrow> state failure + clw_scene \<times> state" where
  "camera_block w scene_ptr scene dirty out s =
     (case GetCamera scene of
        None \<Rightarrow> Inl (RuntimeError ''No camera in the scene'' (store_scene scene_ptr out s))
      | Some cam \<Rightarrow>
          if kCamera \<in> dirty \<or> IsDirty s cam
          then and_then (UpdateCamera (the_cameras w) scene out (IsDirty s))
                 (\<lambda>(out1, d1). Inr (out1, s\<lparr>IsDirty := d1\<rparr>))
          else Inr (out, s))"

definition lights_block ::
  "world \<Rightarrow> addr \<Rightarrow> scene1 \<Rightarrow> DirtyFlag set \<Rightarrow> clw_scene \<Rightarrow> state \<Rightarrow> state failure + clw_scene \<times> state" where
  "lights_block w scene_ptr scene dirty out s =
     (if CreateLightIterator scene = []
      then Inl (RuntimeError ''No lights in the scene'' (store_scene scene_ptr out s))
      else
        (let lights_changed = list_ex (IsDirty s) (CreateLightIterator scene) in
         if kLights \<in> dirty \<or> lights_changed
         then (case UpdateLights (m_context s) w scene (the_tex_collector s) (out, IsDirty s) of
                 (out1, d1) \<Rightarrow> Inr (out1, s\<lparr>IsDirty := d1\<rparr>))
         else Inr (out, s)))"

definition shapes_block ::
  "world \<Rightarrow> addr \<Rightarrow> scene1 \<Rightarrow> DirtyFlag set \<Rightarrow> clw_scene \<Rightarrow> state \<Rightarrow> state failure + clw_scene \<times> state" where
  "shapes_block w scene_ptr scene dirty out s =
     (if CreateShapeIterator scene = []
      then Inl (RuntimeError ''No shapes in the scene'' (store_scene scene_ptr out s))
      else
        (let shapes_changed = list_ex (IsDirty s) (CreateShapeIterator scene) in
         if kShapes \<in> dirty \<or> shapes_changed
         then
           (case UpdateShapes (m_context s) (the_shapes w) (m_default_material s) scene
                   (the_mat_collector s) out (IsDirty s) of
              (out1, d1) \<Rightarrow>
                (case UpdateIntersector (the_shapes w) scene (out1, m_api s) of
                   Inl e \<Rightarrow>
                     Inl (map_failure
                            (\<lambda>(out2, a). store_scene scene_ptr out2 (s\<lparr>IsDirty := d1, m_api := a\<rparr>))
                            e)
                 | Inr (out2, a) \<Rightarrow>
                     Inr (out2, s\<lparr>IsDirty := d1, m_api := ReloadIntersector out2 a\<rparr>)))
         else Inr (out, s)))"

definition materials_block ::
  "world \<Rightarrow> clw_scene \<Rightarrow> state \<Rightarrow> state failure + clw_scene \<times> state" where
  "materials_block w out s =
     (if (case material_bundle out of
            None \<Rightarrow> True
          | Some bundle \<Rightarrow> NeedsUpdate (the_mat_collector s) bundle (IsDirty s))
      then and_then (UpdateMaterials (m_context s) (the_materials w) (the_mat_collector s)
                       (the_tex_collector s) out (IsDirty s))
             (\<lambda>(out1, d1). Inr (out1, s\<lparr>IsDirty := d1\<rparr>))
      else Inr (out, s))"

definition textures_block :: "world \<Rightarrow> clw_scene \<Rightarrow> state \<Rightarrow> clw_scene \<times> state" where
  "textures_block w out s =
     (if GetNumItems (the_tex_collector s) > 0 \<and>
         (case texture_bundle out of
            None \<Rightarrow> True
          | Some bundle \<Rightarrow> NeedsUpdate (the_tex_collector s) bundle (IsDirty s))
      then (UpdateTextures (m_context s) (the_textures w) (the_tex_collector s) out, s)
      else (out, s))"

definition finish_block :: "addr \<Rightarrow> clw_scene \<Rightarrow> state \<Rightarrow> state" where
  "finish_block scene_ptr out s =
     (let s1 = (if m_current_scene s \<noteq> Some scene_ptr
                then s\<lparr>m_api := ReloadIntersector out (m_api s),
                       m_current_scene := Some scene_ptr\<rparr>
                else s);
          s2 = ClearDirtyFlags scene_ptr s1
      in store_scene scene_ptr out
           (s2\<lparr>IsDirty := clear_material_flags (the_mat_collector s2) (IsDirty s2)\<rparr>))"

definition cached_compile ::
  "world \<Rightarrow> addr \<Rightarrow> scene1 \<Rightarrow> clw_scene \<Rightarrow> state \<Rightarrow> state failure + state" where
  "cached_compile w scene_ptr scene out s =
     (let dirty = GetDirtyFlags s scene_ptr in
      and_then (camera_block w scene_ptr scene dirty out s) (\<lambda>(out1, s1).
      and_then (lights_block w scene_ptr scene dirty out1 s1) (\<lambda>(out2, s2).
      and_then (shapes_block w scene_ptr scene dirty out2 s2) (\<lambda>(out3, s3).
      and_then (materials_block w out3 s3) (\<lambda>(out4, s4).
      case textures_block w out4 s4 of (out5, s5) \<Rightarrow>
        Inr (finish_block scene_ptr out5 s5))))))"

subsection \<open>CompileScene\<close>

text \<open>
  \<open>None\<close>: the call does not return. \<open>Some (Inl e)\<close>: it fails with \<open>e\<close>. \<open>Some (Inr s)\<close>: it
  returns, the state is \<open>s\<close> and the reference it returns is the cache entry of the scene
  in \<open>s\<close>.
\<close>

definition CompileScene :: "world \<Rightarrow> addr \<Rightarrow> state \<Rightarrow> (state failure + state) option" where
  "CompileScene w scene_ptr s0 =
     Option.bind (collect w (the_scenes w scene_ptr) s0)
       (\<lambda>s. Some (case m_scene_cache s scene_ptr of
                     None \<Rightarrow> first_compile w scene_ptr (the_scenes w scene_ptr) s
                   | Some out \<Rightarrow> cached_compile w scene_ptr (the_scenes w scene_ptr) out s))"

subsection \<open>Example scenes\<close>

text \<open>
  A small scene graph on which the theorems below are instantiated. The shapes: meshes at
  the addresses 1, 2 and 5, an instance of mesh 2 at address 3 and an instance of mesh 5
  at address 4. The scene at address 100 iterates over the shapes 2, 3, 1, 4 (mesh 5 is
  not in the scene), over the lights 20 (point), 21 (image based), 22 (directional),
  23 (image based), and has the camera 30. Mesh 1 and instance 4 have the material 10, a
  GGX microfacet material whose roughness is the texture 40; the other shapes have none
  and get the default material 11. Material 12 is a layered material.
\<close>

definition identity_matrix :: matrix where
  "identity_matrix = Matrix 1 0 0 0  0 1 0 0  0 0 1 0  0 0 0 1"

definition translation :: "float \<Rightarrow> matrix" where
  "translation t = Matrix 1 0 0 t  0 1 0 0  0 0 1 0  0 0 0 1"

definition ex_shapes :: shape_heap where
  "ex_shapes =
     \<lparr>is_instance = (\<lambda>p. p = 3 \<or> p = 4),
      GetMaterial = (\<lambda>p. if p = 1 \<or> p = 4 then Some 10 else None),
      GetTransform = (\<lambda>p. translation (of_nat p)),
      GetBaseShape = (\<lambda>p. if p = 3 then 2 else 5),
      GetVertices = (\<lambda>p. if p = 5 then [Float3 0 0 0 0, Float3 1 0 0 0, Float3 0 1 0 0, Float3 1 1 0 0]
                          else [Float3 0 0 0 0, Float3 1 0 0 0, Float3 0 1 0 0]),
      GetNormals = (\<lambda>p. [Float3 0 0 1 0]),
      GetUVs = (\<lambda>p. [Float2 0 0]),
      GetIndices = (\<lambda>p. if p = 5 then [0, 1, 2, 1, 2, 3] else [0, 1, 2])\<rparr>"

definition no_input :: InputValue where
  "no_input = \<lparr>input_type = kFloat4, float_value = Float4 0 0 0 0, tex_value = None, mat_value = None\<rparr>"

definition ex_inputs :: "addr \<Rightarrow> string \<Rightarrow> InputValue" where
  "ex_inputs p name =
     (if p = 10 \<and> name = ''roughness''
      then \<lparr>input_type = kTexture, float_value = Float4 0 0 0 0, tex_value = Some 40, mat_value = None\<rparr>
      else if name = ''albedo''
      then \<lparr>input_type = kFloat4, float_value = Float4 0.5 0.6 0.5 1, tex_value = None, mat_value = None\<rparr>
      else no_input)"

definition ex_materials :: material_heap where
  "ex_materials =
     \<lparr>material_class = (\<lambda>p. if p = 10 then SingleBxdf BxdfType.kMicrofacetGGX
                             else if p = 12 then MultiBxdf MultiBxdf_Type.kLayered
                             else SingleBxdf BxdfType.kLambert),
      GetInputValue = ex_inputs,
      CreateMaterialIterator = (\<lambda>p. []),
      CreateTextureIterator = (\<lambda>p. if p = 10 then [40] else [])\<rparr>"

definition ex_lights :: light_heap where
  "ex_lights =
     \<lparr>light_class = (\<lambda>p. if p = 20 then PointLight else if p = 22 then DirectionalLight
                          else ImageBasedLight),
      GetPosition = (\<lambda>p. Float3 0 5 0 0),
      GetDirection = (\<lambda>p. Float3 0 (- 1) 0 0),
      GetEmittedRadiance = (\<lambda>p. Float3 1 1 1 0),
      GetConeShape = (\<lambda>p. Float2 0 0),
      GetMultiplier = (\<lambda>p. 1),
      GetTexture = (\<lambda>p. if p = 21 then Some 41 else Some 42),
      GetShape = (\<lambda>p. None),
      GetPrimitiveIdx = (\<lambda>p. 0),
      CreateLightTextureIterator = (\<lambda>p. if p = 21 then [41] else if p = 23 then [42] else [])\<rparr>"

definition ex_textures :: texture_heap where
  "ex_textures =
     \<lparr>GetSize = (\<lambda>p. (1, 1)), GetFormat = (\<lambda>p. kRgba8), GetData = (\<lambda>p. [1, 2, 3, 4])\<rparr>"

definition ex_cameras :: camera_heap where
  "ex_cameras =
     \<lparr>GetForwardVector = (\<lambda>p. Float3 0 0 1 0), GetUpVector = (\<lambda>p. Float3 0 1 0 0),
      GetRightVector = (\<lambda>p. Float3 1 0 0 0), GetCameraPosition = (\<lambda>p. Float3 0 0 0 0),
      GetAperture = (\<lambda>p. 0), GetAspectRatio = (\<lambda>p. 1), GetSensorSize = (\<lambda>p. Float2 1 1),
      GetFocalLength = (\<lambda>p. 1), GetFocusDistance = (\<lambda>p. 1), GetDepthRange = (\<lambda>p. Float2 0 1)\<rparr>"

definition ex_scene :: scene1 where
  "ex_scene =
     \<lparr>CreateShapeIterator = [2, 3, 1, 4], CreateLightIterator = [20, 21, 22, 23],
      GetCamera = Some 30\<rparr>"

text \<open>The scene at address 101 is \<open>ex_scene\<close> without its camera.\<close>

definition ex_world :: world where
  "ex_world =
     \<lparr>the_scenes = (\<lambda>p. if p = 101 then ex_scene\<lparr>GetCamera := None\<rparr> else ex_scene),
      the_shapes = ex_shapes, the_materials = ex_materials, the_lights = ex_lights,
      the_textures = ex_textures, the_cameras = ex_cameras\<rparr>"

definition ex_api :: api where
  "ex_api = \<lparr>next_handle = 0, attached = [], committed = False\<rparr>"

definition ex_collector :: collector where
  "ex_collector = \<lparr>c_set = [], c_items = [], c_outside = (\<lambda>p. - 1)\<rparr>"

definition ex_material_record :: clw_material where
  "ex_material_record =
     \<lparr>type = Bxdf.kZero, kx = Float4 7 7 7 7, kxmapidx = 7, ns = 7, nsmapidx = 7, nmapidx = 7,
      bump_flag = 7, fresnel = 7, ni = 7, brdfbaseidx = 7, brdftopidx = 7\<rparr>"

definition ex_light_record :: clw_light where
  "ex_light_record =
     \<lparr>ltype = kPoint, lp = Float3 0 0 0 0, ld = Float3 0 0 0 0, intensity = Float3 0 0 0 0,
      ia = 0, oa = 0, multiplier = 0, tex = 0, texdiffuse = 0, shapeidx = 0, primidx = 0\<rparr>"

definition ex_context :: clw_context where
  "ex_context =
     \<lparr>fresh_camera =
        \<lparr>forward = Float3 0 0 0 0, up = Float3 0 0 0 0, right = Float3 0 0 0 0,
         cp = Float3 0 0 0 0, aperture = 0, aspect_ratio = 0, dim = Float2 0 0,
         focal_length = 0, focus_distance = 0, zcap = Float2 0 0\<rparr>,
      fresh_float3 = Float3 9 9 9 9, fresh_float2 = Float2 9 9, fresh_int = 9,
      fresh_shape = value_initialized_shape, fresh_material = ex_material_record,
      fresh_texture = \<lparr>tex_w = 0, tex_h = 0, fmt = RGBA8, dataoffset = 0\<rparr>,
      fresh_char = 0, fresh_light = ex_light_record\<rparr>"

text \<open>A tracker that has compiled nothing yet; every object is clean but texture 40.\<close>

definition ex_state :: state where
  "ex_state =
     \<lparr>m_context = ex_context, m_default_material = 11, m_api = ex_api,
      m_scene_cache = Map.empty, m_current_scene = None,
      IsDirty = (\<lambda>p. p = 40), GetDirtyFlags = (\<lambda>p. {}),
      the_mat_collector = ex_collector, the_tex_collector = ex_collector\<rparr>"

text \<open>
  A tracker that holds a compiled entry for the scene at address 100 and is asked to
  compile it again after the shapes flag was set: every object is clean, the scene is the
  current one, and the entry has a camera record and four light records.
\<close>

definition ex_cached_scene :: clw_scene where
  "ex_cached_scene =
     new_ClwScene\<lparr>camera := [fresh_camera ex_context],
                  lights := [ex_light_record, ex_light_record, ex_light_record, ex_light_record],
                  num_lights := 4, envmapidx := 3\<rparr>"

definition ex_cached_state :: state where
  "ex_cached_state =
     ex_state\<lparr>m_scene_cache := [100 \<mapsto> ex_cached_scene], m_current_scene := Some 100,
              IsDirty := (\<lambda>p. False),
              GetDirtyFlags := (\<lambda>p. if p = 100 then {kShapes} else {})\<rparr>"

section \<open>Lemmas\<close>

lemma set_emplace: "set (emplace a xs) = insert a (set xs)"
  by (induction xs) auto

lemma sorted_emplace: "sorted_wrt (<) xs \<Longrightarrow> sorted_wrt (<) (emplace a xs)"
  by (induction xs) (auto simp: set_emplace)

lemma split_loop_set_fst:
  "set (fst (split_loop w it (ms, is))) = set ms \<union> {a \<in> set it. \<not> is_instance w a}"
  by (induction it arbitrary: ms "is") (auto simp: set_emplace)

lemma split_loop_set_snd:
  "set (snd (split_loop w it (ms, is))) = set is \<union> {a \<in> set it. is_instance w a}"
  by (induction it arbitrary: ms "is") (auto simp: set_emplace)

lemma split_loop_sorted_fst:
  "sorted_wrt (<) ms \<Longrightarrow> sorted_wrt (<) (fst (split_loop w it (ms, is)))"
  by (induction it arbitrary: ms "is") (auto simp: sorted_emplace)

lemma split_loop_sorted_snd:
  "sorted_wrt (<) is \<Longrightarrow> sorted_wrt (<) (snd (split_loop w it (ms, is)))"
  by (induction it arbitrary: ms "is") (auto simp: sorted_emplace)

lemma excluded_loop_set:
  "set (excluded_loop w ms is ex) = set ex \<union> {GetBaseShape w i |i. i \<in> set is \<and> GetBaseShape w i \<notin> set ms}"
  by (induction "is" arbitrary: ex) (auto simp: set_emplace Let_def)

lemma excluded_loop_sorted:
  "sorted_wrt (<) ex \<Longrightarrow> sorted_wrt (<) (excluded_loop w ms is ex)"
  by (induction "is" arbitrary: ex) (auto simp: sorted_emplace Let_def)

subsection \<open>The intersector\<close>

lemma create_mesh_handle_props:
  "create_mesh_handle w mesh s = (shape, a) \<Longrightarrow>
     rr_id shape = Some (id_counter s) \<and> rr_transform shape = Some (GetTransform w mesh) \<and>
     rr_handle shape = next_handle (st_api s) \<and> next_handle a = Suc (next_handle (st_api s)) \<and>
     attached a = attached (st_api s) \<and> committed a = committed (st_api s) \<and>
     rr_kind shape = RRMesh (GetVertices w mesh) (static_cast_int (GetNumVertices w mesh))
        (GetIndices w mesh) (static_cast_int (GetNumIndices w mesh div 3))"
  by (auto simp: create_mesh_handle_def CreateMesh_def SetId_def SetTransform_def)

lemma map_upt_shift: "f 0 # map (\<lambda>k. f (Suc k)) [0..<n] = map f [0..<Suc n]"
  by (simp add: upt_conv_Cons map_Suc_upt [symmetric] del: upt_Suc)

lemma map_upt_add: "map f [0..<m + n] = map f [0..<m] @ map (\<lambda>k. f (m + k)) [0..<n]"
  by (induction n) simp_all

lemma handle_meshes_props:
  "\<exists>hs. st_isect_shapes (handle_meshes w ms s) = st_isect_shapes s @ hs
      \<and> st_visible_shapes (handle_meshes w ms s) = st_visible_shapes s @ hs
      \<and> map rr_id hs = map (\<lambda>k. Some (id_counter s + of_nat k)) [0..<length ms]
      \<and> map rr_transform hs = map (\<lambda>m. Some (GetTransform w m)) ms
      \<and> map rr_handle hs = map (\<lambda>k. next_handle (st_api s) + k) [0..<length ms]
      \<and> id_counter (handle_meshes w ms s) = id_counter s + of_nat (length ms)
      \<and> next_handle (st_api (handle_meshes w ms s)) = next_handle (st_api s) + length ms
      \<and> attached (st_api (handle_meshes w ms s)) = attached (st_api s)
      \<and> committed (st_api (handle_meshes w ms s)) = committed (st_api s)"
proof (induction ms arbitrary: s)
  case Nil
  show ?case by simp
next
  case (Cons mesh rest)
  obtain shape a where c: "create_mesh_handle w mesh s = (shape, a)"
    by (cases "create_mesh_handle w mesh s")
  define s1 where "s1 = s\<lparr>id_counter := id_counter s + 1,
               st_isect_shapes := st_isect_shapes s @ [shape],
               st_visible_shapes := st_visible_shapes s @ [shape],
               rr_shapes := (rr_shapes s)(mesh \<mapsto> shape),
               st_api := a\<rparr>"
  have step: "handle_meshes w (mesh # rest) s = handle_meshes w rest s1"
    by (simp add: c s1_def)
  from Cons.IH [of s1] obtain hs where hs:
    "st_isect_shapes (handle_meshes w rest s1) = st_isect_shapes s1 @ hs"
    "st_visible_shapes (handle_meshes w rest s1) = st_visible_shapes s1 @ hs"
    "map rr_id hs = map (\<lambda>k. Some (id_counter s1 + of_nat k)) [0..<length rest]"
    "map rr_transform hs = map (\<lambda>m. Some (GetTransform w m)) rest"
    "map rr_handle hs = map (\<lambda>k. next_handle (st_api s1) + k) [0..<length rest]"
    "id_counter (handle_meshes w rest s1) = id_counter s1 + of_nat (length rest)"
    "next_handle (st_api (handle_meshes w rest s1)) = next_handle (st_api s1) + length rest"
    "attached (st_api (handle_meshes w rest s1)) = attached (st_api s1)"
    "committed (st_api (handle_meshes w rest s1)) = committed (st_api s1)"
    by blast
  note p = create_mesh_handle_props [OF c]
  have "st_isect_shapes (handle_meshes w (mesh # rest) s) = st_isect_shapes s @ (shape # hs)"
    using hs(1) unfolding step by (simp add: s1_def)
  moreover have "st_visible_shapes (handle_meshes w (mesh # rest) s) = st_visible_shapes s @ (shape # hs)"
    using hs(2) unfolding step by (simp add: s1_def)
  moreover have "map rr_id (shape # hs) = map (\<lambda>k. Some (id_counter s + of_nat k)) [0..<length (mesh # rest)]"
    using hs(3) p map_upt_shift [of "\<lambda>k. Some (id_counter s + of_nat k)" "length rest"]
    by (simp add: s1_def add.assoc del: upt_Suc)
  moreover have "map rr_transform (shape # hs) = map (\<lambda>m. Some (GetTransform w m)) (mesh # rest)"
    using hs(4) p by simp
  moreover have "map rr_handle (shape # hs) = map (\<lambda>k. next_handle (st_api s) + k) [0..<length (mesh # rest)]"
    using hs(5) p map_upt_shift [of "\<lambda>k. next_handle (st_api s) + k" "length rest"]
    by (simp add: s1_def del: upt_Suc)
  moreover have "id_counter (handle_meshes w (mesh # rest) s) = id_counter s + of_nat (length (mesh # rest))"
    using hs(6) unfolding step by (simp add: s1_def)
  moreover have "next_handle (st_api (handle_meshes w (mesh # rest) s)) = next_handle (st_api s) + length (mesh # rest)"
    using hs(7) p unfolding step by (simp add: s1_def)
  moreover have "attached (st_api (handle_meshes w (mesh # rest) s)) = attached (st_api s)"
    using hs(8) p unfolding step by (simp add: s1_def)
  moreover have "committed (st_api (handle_meshes w (mesh # rest) s)) = committed (st_api s)"
    using hs(9) p unfolding step by (simp add: s1_def)
  ultimately show ?case by blast
qed

lemma handle_excluded_meshes_props:
  "\<exists>hs. st_isect_shapes (handle_excluded_meshes w ms s) = st_isect_shapes s @ hs
      \<and> st_visible_shapes (handle_excluded_meshes w ms s) = st_visible_shapes s
      \<and> map rr_id hs = map (\<lambda>k. Some (id_counter s + of_nat k)) [0..<length ms]
      \<and> map rr_transform hs = map (\<lambda>m. Some (GetTransform w m)) ms
      \<and> map rr_handle hs = map (\<lambda>k. next_handle (st_api s) + k) [0..<length ms]
      \<and> id_counter (handle_excluded_meshes w ms s) = id_counter s + of_nat (length ms)
      \<and> next_handle (st_api (handle_excluded_meshes w ms s)) = next_handle (st_api s) + length ms
      \<and> attached (st_api (handle_excluded_meshes w ms s)) = attached (st_api s)
      \<and> committed (st_api (handle_excluded_meshes w ms s)) = committed (st_api s)"
proof (induction ms arbitrary: s)
  case Nil
  show ?case by simp
next
  case (Cons mesh rest)
  obtain shape a where c: "create_mesh_handle w mesh s = (shape, a)"
    by (cases "create_mesh_handle w mesh s")
  define s1 where "s1 = s\<lparr>id_counter := id_counter s + 1,
               st_isect_shapes := st_isect_shapes s @ [shape],
               rr_shapes := (rr_shapes s)(mesh \<mapsto> shape),
               st_api := a\<rparr>"
  have step: "handle_excluded_meshes w (mesh # rest) s = handle_excluded_meshes w rest s1"
    by (simp add: c s1_def)
  from Cons.IH [of s1] obtain hs where hs:
    "st_isect_shapes (handle_excluded_meshes w rest s1) = st_isect_shapes s1 @ hs"
    "st_visible_shapes (handle_excluded_meshes w rest s1) = st_visible_shapes s1"
    "map rr_id hs = map (\<lambda>k. Some (id_counter s1 + of_nat k)) [0..<length rest]"
    "map rr_transform hs = map (\<lambda>m. Some (GetTransform w m)) rest"
    "map rr_handle hs = map (\<lambda>k. next_handle (st_api s1) + k) [0..<length rest]"
    "id_counter (handle_excluded_meshes w rest s1) = id_counter s1 + of_nat (length rest)"
    "next_handle (st_api (handle_excluded_meshes w rest s1)) = next_handle (st_api s1) + length rest"
    "attached (st_api (handle_excluded_meshes w rest s1)) = attached (st_api s1)"
    "committed (st_api (handle_excluded_meshes w rest s1)) = committed (st_api s1)"
    by blast
  note p = create_mesh_handle_props [OF c]
  have "st_isect_shapes (handle_excluded_meshes w (mesh # rest) s) = st_isect_shapes s @ (shape # hs)"
    using hs(1) unfolding step by (simp add: s1_def)
  moreover have "st_visible_shapes (handle_excluded_meshes w (mesh # rest) s) = st_visible_shapes s"
    using hs(2) unfolding step by (simp add: s1_def)
  moreover have "map rr_id (shape # hs) = map (\<lambda>k. Some (id_counter s + of_nat k)) [0..<length (mesh # rest)]"
    using hs(3) p map_upt_shift [of "\<lambda>k. Some (id_counter s + of_nat k)" "length rest"]
    by (simp add: s1_def add.assoc del: upt_Suc)
  moreover have "map rr_transform (shape # hs) = map (\<lambda>m. Some (GetTransform w m)) (mesh # rest)"
    using hs(4) p by simp
  moreover have "map rr_handle (shape # hs) = map (\<lambda>k. next_handle (st_api s) + k) [0..<length (mesh # rest)]"
    using hs(5) p map_upt_shift [of "\<lambda>k. next_handle (st_api s) + k" "length rest"]
    by (simp add: s1_def del: upt_Suc)
  moreover have "id_counter (handle_excluded_meshes w (mesh # rest) s) = id_counter s + of_nat (length (mesh # rest))"
    using hs(6) unfolding step by (simp add: s1_def)
  moreover have "next_handle (st_api (handle_excluded_meshes w (mesh # rest) s)) = next_handle (st_api s) + length (mesh # rest)"
    using hs(7) p unfolding step by (simp add: s1_def)
  moreover have "attached (st_api (handle_excluded_meshes w (mesh # rest) s)) = attached (st_api s)"
    using hs(8) p unfolding step by (simp add: s1_def)
  moreover have "committed (st_api (handle_excluded_meshes w (mesh # rest) s)) = committed (st_api s)"
    using hs(9) p unfolding step by (simp add: s1_def)
  ultimately show ?case by blast
qed

lemma handle_instances_props:
  "\<exists>hs. st_isect_shapes (handle_instances w ms s) = st_isect_shapes s @ hs
      \<and> st_visible_shapes (handle_instances w ms s) = st_visible_shapes s @ hs
      \<and> map rr_id hs = map (\<lambda>k. Some (id_counter s + of_nat k)) [0..<length ms]
      \<and> map rr_transform hs = map (\<lambda>m. Some (GetTransform w m)) ms
      \<and> map rr_handle hs = map (\<lambda>k. next_handle (st_api s) + k) [0..<length ms]
      \<and> id_counter (handle_instances w ms s) = id_counter s + of_nat (length ms)
      \<and> next_handle (st_api (handle_instances w ms s)) = next_handle (st_api s) + length ms
      \<and> attached (st_api (handle_instances w ms s)) = attached (st_api s)
      \<and> committed (st_api (handle_instances w ms s)) = committed (st_api s)"
proof (induction ms arbitrary: s)
  case Nil
  show ?case by simp
next
  case (Cons inst rest)
  obtain shape0 a where c: "CreateInstance (st_api s) (rr_shapes s (GetBaseShape w inst)) = (shape0, a)"
    by (cases "CreateInstance (st_api s) (rr_shapes s (GetBaseShape w inst))")
  define shape where "shape = SetId (id_counter s) (SetTransform (GetTransform w inst) shape0)"
  define s1 where "s1 = s\<lparr>id_counter := id_counter s + 1,
               st_isect_shapes := st_isect_shapes s @ [shape],
               st_visible_shapes := st_visible_shapes s @ [shape],
               st_api := a\<rparr>"
  have step: "handle_instances w (inst # rest) s = handle_instances w rest s1"
    by (simp add: c s1_def shape_def Let_def)
  from Cons.IH [of s1] obtain hs where hs:
    "st_isect_shapes (handle_instances w rest s1) = st_isect_shapes s1 @ hs"
    "st_visible_shapes (handle_instances w rest s1) = st_visible_shapes s1 @ hs"
    "map rr_id hs = map (\<lambda>k. Some (id_counter s1 + of_nat k)) [0..<length rest]"
    "map rr_transform hs = map (\<lambda>m. Some (GetTransform w m)) rest"
    "map rr_handle hs = map (\<lambda>k. next_handle (st_api s1) + k) [0..<length rest]"
    "id_counter (handle_instances w rest s1) = id_counter s1 + of_nat (length rest)"
    "next_handle (st_api (handle_instances w rest s1)) = next_handle (st_api s1) + length rest"
    "attached (st_api (handle_instances w rest s1)) = attached (st_api s1)"
    "committed (st_api (handle_instances w rest s1)) = committed (st_api s1)"
    by blast
  have p: "rr_id shape = Some (id_counter s) \<and> rr_transform shape = Some (GetTransform w inst) \<and>
     rr_handle shape = next_handle (st_api s) \<and> next_handle a = Suc (next_handle (st_api s)) \<and>
     attached a = attached (st_api s) \<and> committed a = committed (st_api s)"
    using c by (auto simp: shape_def CreateInstance_def SetId_def SetTransform_def)
  have "st_isect_shapes (handle_instances w (inst # rest) s) = st_isect_shapes s @ (shape # hs)"
    using hs(1) unfolding step by (simp add: s1_def)
  moreover have "st_visible_shapes (handle_instances w (inst # rest) s) = st_visible_shapes s @ (shape # hs)"
    using hs(2) unfolding step by (simp add: s1_def)
  moreover have "map rr_id (shape # hs) = map (\<lambda>k. Some (id_counter s + of_nat k)) [0..<length (inst # rest)]"
    using hs(3) p map_upt_shift [of "\<lambda>k. Some (id_counter s + of_nat k)" "length rest"]
    by (simp add: s1_def add.assoc del: upt_Suc)
  moreover have "map rr_transform (shape # hs) = map (\<lambda>m. Some (GetTransform w m)) (inst # rest)"
    using hs(4) p by simp
  moreover have "map rr_handle (shape # hs) = map (\<lambda>k. next_handle (st_api s) + k) [0..<length (inst # rest)]"
    using hs(5) p map_upt_shift [of "\<lambda>k. next_handle (st_api s) + k" "length rest"]
    by (simp add: s1_def del: upt_Suc)
  moreover have "id_counter (handle_instances w (inst # rest) s) = id_counter s + of_nat (length (inst # rest))"
    using hs(6) unfolding step by (simp add: s1_def)
  moreover have "next_handle (st_api (handle_instances w (inst # rest) s)) = next_handle (st_api s) + length (inst # rest)"
    using hs(7) p unfolding step by (simp add: s1_def)
  moreover have "attached (st_api (handle_instances w (inst # rest) s)) = attached (st_api s)"
    using hs(8) p unfolding step by (simp add: s1_def)
  moreover have "committed (st_api (handle_instances w (inst # rest) s)) = committed (st_api s)"
    using hs(9) p unfolding step by (simp add: s1_def)
  ultimately show ?case by blast
qed

text \<open>Summary of UpdateIntersector on a scene that has shapes.\<close>

lemma UpdateIntersector_result:
  assumes ne: "CreateShapeIterator scene \<noteq> []"
    and sp: "SplitMeshesAndInstances w (CreateShapeIterator scene) = (ms, is, ex)"
  shows "\<exists>out' a' hm he hi.
      UpdateIntersector w scene (out, a) = Inr (out', a')
    \<and> out' = out\<lparr>isect_shapes := hm @ he @ hi, visible_shapes := hm @ hi\<rparr>
    \<and> map rr_id (hm @ he @ hi) = map (\<lambda>k. Some (1 + of_nat k)) [0..<length ms + length ex + length is]
    \<and> map rr_transform hm = map (\<lambda>m. Some (GetTransform w m)) ms
    \<and> map rr_transform he = map (\<lambda>m. Some (GetTransform w m)) ex
    \<and> map rr_transform hi = map (\<lambda>m. Some (GetTransform w m)) is
    \<and> distinct (map rr_handle (hm @ he @ hi))"
proof -
  define a1 where "a1 = detach_and_delete (isect_shapes out) a"
  define s0 where "s0 = \<lparr>id_counter = 1, st_isect_shapes = [], st_visible_shapes = [],
                            rr_shapes = Map.empty, st_api = a1\<rparr>"
  define s1 where "s1 = handle_meshes w ms s0"
  define s2 where "s2 = handle_excluded_meshes w ex s1"
  define s3 where "s3 = handle_instances w is s2"
  have res: "UpdateIntersector w scene (out, a) =
     Inr (out\<lparr>isect_shapes := st_isect_shapes s3, visible_shapes := st_visible_shapes s3\<rparr>, st_api s3)"
    using ne sp by (simp add: UpdateIntersector_def Let_def s3_def s2_def s1_def s0_def a1_def)
  obtain hm where hm:
    "st_isect_shapes s1 = st_isect_shapes s0 @ hm"
    "st_visible_shapes s1 = st_visible_shapes s0 @ hm"
    "map rr_id hm = map (\<lambda>k. Some (id_counter s0 + of_nat k)) [0..<length ms]"
    "map rr_transform hm = map (\<lambda>m. Some (GetTransform w m)) ms"
    "map rr_handle hm = map (\<lambda>k. next_handle (st_api s0) + k) [0..<length ms]"
    "id_counter s1 = id_counter s0 + of_nat (length ms)"
    "next_handle (st_api s1) = next_handle (st_api s0) + length ms"
    using handle_meshes_props [of w ms s0] unfolding s1_def by blast
  obtain he where he:
    "st_isect_shapes s2 = st_isect_shapes s1 @ he"
    "st_visible_shapes s2 = st_visible_shapes s1"
    "map rr_id he = map (\<lambda>k. Some (id_counter s1 + of_nat k)) [0..<length ex]"
    "map rr_transform he = map (\<lambda>m. Some (GetTransform w m)) ex"
    "map rr_handle he = map (\<lambda>k. next_handle (st_api s1) + k) [0..<length ex]"
    "id_counter s2 = id_counter s1 + of_nat (length ex)"
    "next_handle (st_api s2) = next_handle (st_api s1) + length ex"
    using handle_excluded_meshes_props [of w ex s1] unfolding s2_def by blast
  obtain hi where hi:
    "st_isect_shapes s3 = st_isect_shapes s2 @ hi"
    "st_visible_shapes s3 = st_visible_shapes s2 @ hi"
    "map rr_id hi = map (\<lambda>k. Some (id_counter s2 + of_nat k)) [0..<length is]"
    "map rr_transform hi = map (\<lambda>m. Some (GetTransform w m)) is"
    "map rr_handle hi = map (\<lambda>k. next_handle (st_api s2) + k) [0..<length is]"
    using handle_instances_props [of w "is" s2] unfolding s3_def by blast
  have i: "st_isect_shapes s3 = hm @ he @ hi" and v: "st_visible_shapes s3 = hm @ hi"
    using hm(1,2) he(1,2) hi(1,2) by (simp_all add: s0_def)
  have id1: "id_counter s1 = 1 + of_nat (length ms)" and id2: "id_counter s2 = 1 + of_nat (length ms + length ex)"
    using hm(6) he(6) by (simp_all add: s0_def)
  have n1: "next_handle (st_api s1) = next_handle a1 + length ms"
    and n2: "next_handle (st_api s2) = next_handle a1 + (length ms + length ex)"
    using hm(7) he(7) by (simp_all add: s0_def)
  have ids: "map rr_id (hm @ he @ hi) = map (\<lambda>k. Some (1 + of_nat k)) [0..<length ms + length ex + length is]"
    unfolding map_append hm(3) he(3) hi(3) id1 id2
    by (simp only: map_upt_add [of _ "length ms + length ex"] map_upt_add [of _ "length ms"] s0_def)
       (simp add: add.assoc)
  have hd: "map rr_handle (hm @ he @ hi) = map (\<lambda>k. next_handle a1 + k) [0..<length ms + length ex + length is]"
    unfolding map_append hm(5) he(5) hi(5) n1 n2
    by (simp only: map_upt_add [of _ "length ms + length ex"] map_upt_add [of _ "length ms"] s0_def)
       (simp add: add.assoc)
  have dist: "distinct (map rr_handle (hm @ he @ hi))"
    unfolding hd by (simp add: distinct_map inj_on_def)
  have "UpdateIntersector w scene (out, a) =
      Inr (out\<lparr>isect_shapes := hm @ he @ hi, visible_shapes := hm @ hi\<rparr>, st_api s3)"
    using res i v by simp
  with ids hm(4) he(4) hi(4) dist show ?thesis by blast
qed

subsection \<open>WriteMaterial\<close>

lemma nsmapidx_write_normal_map [simp]:
  "nsmapidx (write_normal_map w material tc clw) = nsmapidx clw"
  by (simp add: write_normal_map_def Let_def)

lemma nsmapidx_write_fresnel_ior_roughness [simp]:
  "nsmapidx (write_fresnel_ior_roughness w material clw) = nsmapidx clw"
  by (simp add: write_fresnel_ior_roughness_def Let_def)

lemma ns_write_fresnel_ior_roughness:
  "ns (write_fresnel_ior_roughness w material clw) =
     (if input_type (GetInputValue w material ''roughness'') = kFloat4
      then fx (float_value (GetInputValue w material ''roughness'')) else 0.99)"
  by (simp add: write_fresnel_ior_roughness_def Let_def)

lemma case_Lambert_result:
  assumes "input_type (GetInputValue w material ''albedo'') \<noteq> kMaterial"
  shows "\<exists>clw2. case_Lambert w material tc clw = Inr clw2
           \<and> nsmapidx clw2 = nsmapidx clw
           \<and> ns clw2 = (if input_type (GetInputValue w material ''roughness'') = kFloat4
                          then fx (float_value (GetInputValue w material ''roughness'')) else 0.99)"
  using assms
  by (cases "input_type (GetInputValue w material ''albedo'')")
     (simp_all add: case_Lambert_def Let_def ns_write_fresnel_ior_roughness)

lemma GetMaterialType_microfacet:
  "material_class w material = SingleBxdf b \<Longrightarrow>
   b \<in> {BxdfType.kMicrofacetGGX, BxdfType.kMicrofacetBeckmann,
         BxdfType.kMicrofacetRefractionGGX, BxdfType.kMicrofacetRefractionBeckmann} \<Longrightarrow>
   GetMaterialType w material \<in> {Bxdf.kMicrofacetGGX, Bxdf.kMicrofacetBeckmann,
         Bxdf.kMicrofacetRefractionGGX, Bxdf.kMicrofacetRefractionBeckmann}"
  by (auto simp: GetMaterialType_def)

lemma WriteMaterial_microfacet:
  "GetMaterialType w material \<in> {Bxdf.kMicrofacetGGX, Bxdf.kMicrofacetBeckmann,
         Bxdf.kMicrofacetRefractionGGX, Bxdf.kMicrofacetRefractionBeckmann} \<Longrightarrow>
   WriteMaterial w material mc tc data d =
     and_then (and_then (case_Microfacet w material tc (data\<lparr>type := GetMaterialType w material\<rparr>))
                 (case_Lambert w material tc))
       (\<lambda>clw. Inr (clw, SetDirty material False d))"
  by (auto simp: WriteMaterial_def Let_def and_then_def split: sum.splits)

text \<open>
  Claim C5. A material of a microfacet kind whose \<open>roughness\<close> input is a non-null
  texture \<open>t\<close>: the record \<open>WriteMaterial\<close> writes has \<open>nsmapidx\<close> equal to the index of
  \<open>t\<close> in the texture collector, and \<open>ns\<close> holds the fallback 0.99 that the block of
  \<open>kLambert\<close> writes after the microfacet block has run into it. The \<open>albedo\<close> input is a
  float4 or a texture; on a material input the block asserts.
\<close>

theorem microfacet_roughness_texture:
  assumes kind: "material_class w material = SingleBxdf b"
    "b \<in> {BxdfType.kMicrofacetGGX, BxdfType.kMicrofacetBeckmann,
          BxdfType.kMicrofacetRefractionGGX, BxdfType.kMicrofacetRefractionBeckmann}"
    and rough: "input_type (GetInputValue w material ''roughness'') = kTexture"
      "tex_value (GetInputValue w material ''roughness'') = Some t"
    and albedo: "input_type (GetInputValue w material ''albedo'') \<noteq> kMaterial"
  shows "\<exists>clw. WriteMaterial w material mc tc data d
                  = (Inr (clw, d(material := False)) :: 'e failure + clw_material \<times> dirty_bits)
           \<and> nsmapidx clw = GetItemIndex tc (Some t)
           \<and> ns clw = 0.99"
proof -
  define clw0 where "clw0 = data\<lparr>type := GetMaterialType w material\<rparr>"
  define clw1 where "clw1 = clw0\<lparr>nsmapidx := GetItemIndex tc (Some t)\<rparr>"
  have m: "case_Microfacet w material tc clw0 = (Inr clw1 :: 'e failure + clw_material)"
    using rough by (simp add: case_Microfacet_def clw1_def)
  obtain clw2 where l: "case_Lambert w material tc clw1 = (Inr clw2 :: 'e failure + clw_material)"
    and n: "nsmapidx clw2 = nsmapidx clw1" and r: "ns clw2 = 0.99"
    using case_Lambert_result [OF albedo, of tc clw1] rough by auto
  have "WriteMaterial w material mc tc data d
          = (Inr (clw2, SetDirty material False d) :: 'e failure + clw_material \<times> dirty_bits)"
    by (subst WriteMaterial_microfacet [OF GetMaterialType_microfacet [OF kind]])
       (simp add: and_then_def m [unfolded clw0_def] l)
  then show ?thesis using n r by (simp add: clw1_def SetDirty_def)
qed

theorem microfacet_roughness_texture_witness:
  "\<exists>clw. WriteMaterial ex_materials 10 ex_collector (ex_collector\<lparr>c_items := [40, 41]\<rparr>)
            ex_material_record (\<lambda>p. True)
          = (Inr (clw, (\<lambda>p. True)(10 := False)) :: unit failure + clw_material \<times> dirty_bits)
       \<and> nsmapidx clw = 0 \<and> ns clw = 0.99"
  using microfacet_roughness_texture [of ex_materials 10 BxdfType.kMicrofacetGGX 40
          ex_collector "ex_collector\<lparr>c_items := [40, 41]\<rparr>" ex_material_record "\<lambda>p. True"]
  by (simp add: ex_materials_def ex_inputs_def GetItemIndex_def)

text \<open>
  Claim C10. For a \<open>MultiBxdf\<close> material of type \<open>kLayered\<close>, \<open>WriteMaterial\<close> writes the
  type tag \<open>kLayered\<close> and nothing else into the record, and clears the dirty bit of the
  material.
\<close>

theorem layered_writes_type_only:
  assumes "material_class w material = MultiBxdf MultiBxdf_Type.kLayered"
  shows "GetMaterialType w material = Bxdf.kLayered
       \<and> WriteMaterial w material mc tc data d
           = Inr (data\<lparr>type := Bxdf.kLayered\<rparr>, d(material := False))"
  using assms by (simp add: WriteMaterial_def GetMaterialType_def SetDirty_def)

theorem layered_writes_type_only_witness:
  "WriteMaterial ex_materials 12 ex_collector ex_collector ex_material_record (\<lambda>p. True)
     = (Inr (ex_material_record\<lparr>type := Bxdf.kLayered\<rparr>, (\<lambda>p. True)(12 := False))
          :: unit failure + clw_material \<times> dirty_bits)"
  by (rule layered_writes_type_only [THEN conjunct2]) (simp add: ex_materials_def)

subsection \<open>Handle ids and visibility\<close>

lemma sint_of_nat_small: "k < 2 ^ 31 \<Longrightarrow> sint (of_nat k :: 32 word) = int k"
proof -
  assume k: "k < 2 ^ 31"
  have "sint (of_nat k :: 32 word) = sint (word_of_int (int k) :: 32 word)" by simp
  also have "\<dots> = signed_take_bit 31 (int k)" by (simp only: sint_sbintrunc') simp
  also have "\<dots> = int k" using k by (intro signed_take_bit_int_eq_self) auto
  finally show ?thesis .
qed

lemma attach_all_attached: "attached (attach_all hs a) = attached a @ hs"
  by (induction hs arbitrary: a) (simp_all add: AttachShape_def)

lemma ReloadIntersector_attached:
  "attached (ReloadIntersector out a) = visible_shapes out \<and> committed (ReloadIntersector out a)"
  by (simp add: ReloadIntersector_def IntersectionApi_Commit_def attach_all_attached DetachAll_def)

lemma ex_split: "SplitMeshesAndInstances ex_shapes [2, 3, 1, 4] = ([1, 2], [3, 4], [5])"
  by (simp add: SplitMeshesAndInstances_def ex_shapes_def)

lemma distinct_map_map: "distinct (map g (map f xs)) \<Longrightarrow> distinct (map f xs)"
  by (induction xs) auto

lemma ids_from_one: "map (\<lambda>k. Some (1 + of_nat k :: int32)) [0..<n] = map (\<lambda>k. Some (of_nat k)) [1..<Suc n]"
proof -
  have "map (\<lambda>k. Some (of_nat k :: int32)) [1..<Suc n] = map (\<lambda>k. Some (of_nat k)) (map Suc [0..<n])"
    by (simp only: map_Suc_upt) simp
  then show ?thesis by (simp add: o_def)
qed

text \<open>
  Claim C2. On a scene that has shapes, \<open>UpdateIntersector\<close> returns and the ids of the
  handles in \<open>isect_shapes\<close> are 1, 2, ..., N in this order, where N is the number of
  meshes, excluded meshes and instances of the partition; the handles stand in the order
  meshes, excluded meshes, instances (the handle at a position carries the transform of
  the shape at that position). The id is a 32-bit \<^verbatim>\<open>int\<close>: for N below \<open>2 ^ 31\<close> the ids read
  as signed numbers are 1 to N, so they are positive and pairwise different.
\<close>

theorem intersector_ids:
  assumes ne: "CreateShapeIterator scene \<noteq> []"
    and sp: "SplitMeshesAndInstances w (CreateShapeIterator scene) = (meshes, instances, excluded_meshes)"
    and N: "N = length meshes + length excluded_meshes + length instances"
  shows "\<exists>out' a'. UpdateIntersector w scene (out, a) = Inr (out', a')
    \<and> map rr_id (isect_shapes out') = map (\<lambda>k. Some (of_nat k)) [1..<Suc N]
    \<and> map rr_transform (isect_shapes out')
        = map (\<lambda>p. Some (GetTransform w p)) (meshes @ excluded_meshes @ instances)
    \<and> (N < 2 ^ 31 \<longrightarrow>
         map (map_option sint \<circ> rr_id) (isect_shapes out') = map (\<lambda>k. Some (int k)) [1..<Suc N]
       \<and> distinct (map rr_id (isect_shapes out')))"
proof -
  obtain out' a' hm he hi where r:
    "UpdateIntersector w scene (out, a) = Inr (out', a')"
    "out' = out\<lparr>isect_shapes := hm @ he @ hi, visible_shapes := hm @ hi\<rparr>"
    "map rr_id (hm @ he @ hi) = map (\<lambda>k. Some (1 + of_nat k)) [0..<length meshes + length excluded_meshes + length instances]"
    "map rr_transform hm = map (\<lambda>m. Some (GetTransform w m)) meshes"
    "map rr_transform he = map (\<lambda>m. Some (GetTransform w m)) excluded_meshes"
    "map rr_transform hi = map (\<lambda>m. Some (GetTransform w m)) instances"
    using UpdateIntersector_result [OF ne sp, of out a] by blast
  have ids: "map rr_id (isect_shapes out') = map (\<lambda>k. Some (of_nat k)) [1..<Suc N]"
    using r(2,3) by (simp add: N ids_from_one)
  have tr: "map rr_transform (isect_shapes out')
        = map (\<lambda>p. Some (GetTransform w p)) (meshes @ excluded_meshes @ instances)"
    using r(2,4,5,6) by simp
  have signed: "map (map_option sint \<circ> rr_id) (isect_shapes out') = map (\<lambda>k. Some (int k)) [1..<Suc N]"
    if "N < 2 ^ 31"
  proof -
    have "map (map_option sint \<circ> rr_id) (isect_shapes out')
            = map (map_option sint) (map rr_id (isect_shapes out'))" by simp
    also have "\<dots> = map (\<lambda>k. Some (sint (of_nat k :: int32))) [1..<Suc N]"
      unfolding ids by (simp add: o_def)
    also have "\<dots> = map (\<lambda>k. Some (int k)) [1..<Suc N]"
    proof (rule map_cong [OF refl])
      fix k assume "k \<in> set [1..<Suc N]"
      then have "k < 2 ^ 31" using that by auto
      then show "Some (sint (of_nat k :: int32)) = Some (int k)"
        by (simp add: sint_of_nat_small)
    qed
    finally show ?thesis .
  qed
  have dist: "distinct (map rr_id (isect_shapes out'))" if "N < 2 ^ 31"
  proof -
    have "distinct (map (\<lambda>k. Some (int k)) [1..<Suc N])"
      by (simp add: distinct_map inj_on_def)
    then have "distinct (map (map_option sint) (map rr_id (isect_shapes out')))"
      using signed [OF that] by simp
    then show ?thesis by (rule distinct_map_map)
  qed
  from r(1) ids tr signed dist show ?thesis by blast
qed

theorem intersector_ids_witness:
  "\<exists>out' a'. UpdateIntersector ex_shapes ex_scene (new_ClwScene, ex_api) = Inr (out', a')
    \<and> map rr_id (isect_shapes out') = [Some 1, Some 2, Some 3, Some 4, Some 5]
    \<and> map (map_option sint \<circ> rr_id) (isect_shapes out') = [Some 1, Some 2, Some 3, Some 4, Some 5]
    \<and> distinct (map rr_id (isect_shapes out'))"
proof -
  have "CreateShapeIterator ex_scene \<noteq> []"
    and "SplitMeshesAndInstances ex_shapes (CreateShapeIterator ex_scene) = ([1, 2], [3, 4], [5])"
    and "(5::nat) = length [1::nat, 2] + length [5::nat] + length [3::nat, 4]"
    and "(5::nat) < 2 ^ 31"
    using ex_split by (simp_all add: ex_scene_def)
  from intersector_ids [OF this(1,2,3), of new_ClwScene ex_api] this(4)
  show ?thesis by (auto simp: upt_rec)
qed

text \<open>
  Claim C7. On a scene that has shapes, \<open>UpdateIntersector\<close> leaves \<open>isect_shapes\<close> as the
  handles of the meshes, then those of the excluded meshes, then those of the instances,
  and \<open>visible_shapes\<close> as the handles of the meshes followed by those of the instances:
  \<open>visible_shapes\<close> is a subset of \<open>isect_shapes\<close> and holds no handle of an excluded mesh.
  \<open>ReloadIntersector\<close> then attaches exactly the visible handles.
\<close>

theorem visible_subset_isect:
  assumes ne: "CreateShapeIterator scene \<noteq> []"
    and sp: "SplitMeshesAndInstances w (CreateShapeIterator scene) = (meshes, instances, excluded_meshes)"
  shows "\<exists>out' a' hm he hi. UpdateIntersector w scene (out, a) = Inr (out', a')
    \<and> isect_shapes out' = hm @ he @ hi
    \<and> visible_shapes out' = hm @ hi
    \<and> map rr_transform hm = map (\<lambda>p. Some (GetTransform w p)) meshes
    \<and> map rr_transform he = map (\<lambda>p. Some (GetTransform w p)) excluded_meshes
    \<and> map rr_transform hi = map (\<lambda>p. Some (GetTransform w p)) instances
    \<and> set (visible_shapes out') \<subseteq> set (isect_shapes out')
    \<and> set he \<inter> set (visible_shapes out') = {}
    \<and> attached (ReloadIntersector out' a') = visible_shapes out'"
proof -
  obtain out' a' hm he hi where r:
    "UpdateIntersector w scene (out, a) = Inr (out', a')"
    "out' = out\<lparr>isect_shapes := hm @ he @ hi, visible_shapes := hm @ hi\<rparr>"
    "map rr_transform hm = map (\<lambda>m. Some (GetTransform w m)) meshes"
    "map rr_transform he = map (\<lambda>m. Some (GetTransform w m)) excluded_meshes"
    "map rr_transform hi = map (\<lambda>m. Some (GetTransform w m)) instances"
    "distinct (map rr_handle (hm @ he @ hi))"
    using UpdateIntersector_result [OF ne sp, of out a] by blast
  have d: "distinct (hm @ he @ hi)" using r(6) by (simp only: distinct_map)
  have sub: "set (visible_shapes out') \<subseteq> set (isect_shapes out')" using r(2) by auto
  have dis: "set he \<inter> set (visible_shapes out') = {}" using d r(2) by auto
  have i: "isect_shapes out' = hm @ he @ hi" and v: "visible_shapes out' = hm @ hi"
    using r(2) by simp_all
  from r(1) i v r(3,4,5) sub dis ReloadIntersector_attached [of out' a'] show ?thesis by blast
qed

theorem visible_subset_isect_witness:
  "\<exists>out' a' hm he hi. UpdateIntersector ex_shapes ex_scene (new_ClwScene, ex_api) = Inr (out', a')
    \<and> isect_shapes out' = hm @ he @ hi \<and> visible_shapes out' = hm @ hi
    \<and> length hm = 2 \<and> length he = 1 \<and> length hi = 2
    \<and> set he \<inter> set (visible_shapes out') = {}
    \<and> attached (ReloadIntersector out' a') = visible_shapes out'"
proof -
  have h1: "CreateShapeIterator ex_scene \<noteq> []"
    and h2: "SplitMeshesAndInstances ex_shapes (CreateShapeIterator ex_scene) = ([1, 2], [3, 4], [5])"
    using ex_split by (simp_all add: ex_scene_def)
  obtain out' a' hm he hi where r: "UpdateIntersector ex_shapes ex_scene (new_ClwScene, ex_api) = Inr (out', a')"
    "isect_shapes out' = hm @ he @ hi" "visible_shapes out' = hm @ hi"
    "map rr_transform hm = map (\<lambda>p. Some (GetTransform ex_shapes p)) [1, 2]"
    "map rr_transform he = map (\<lambda>p. Some (GetTransform ex_shapes p)) [5]"
    "map rr_transform hi = map (\<lambda>p. Some (GetTransform ex_shapes p)) [3, 4]"
    "set he \<inter> set (visible_shapes out') = {}"
    "attached (ReloadIntersector out' a') = visible_shapes out'"
    using visible_subset_isect [OF h1 h2, of new_ClwScene ex_api] by blast
  have "length hm = 2" "length he = 1" "length hi = 2"
    using arg_cong [OF r(4), of length] arg_cong [OF r(5), of length] arg_cong [OF r(6), of length]
    by simp_all
  with r show ?thesis by blast
qed

subsection \<open>UpdateLights\<close>

lemma write_lights_Cons:
  "write_lights w scene tc (l # ls) (n, buf, env, d) =
     write_lights w scene tc ls
       (n + 1, buf[n := WriteLight w scene l tc (buf ! n)],
        (if light_class (the_lights w) l = ImageBasedLight then static_cast_int n else env),
        SetDirty l False d)"
  by (simp add: Let_def)

lemma write_lights_basic:
  "write_lights w scene tc ls (n, buf, env, d) = (n', buf', env', d') \<Longrightarrow>
     n' = n + length ls \<and> length buf' = length buf \<and> (\<forall>i<n. buf' ! i = buf ! i)
   \<and> (\<forall>p. d' p = (if p \<in> set ls then False else d p))"
proof (induction ls arbitrary: n buf env d)
  case Nil
  then show ?case by simp
next
  case (Cons l ls)
  define buf1 where "buf1 = buf[n := WriteLight w scene l tc (buf ! n)]"
  define env1 where "env1 = (if light_class (the_lights w) l = ImageBasedLight
                  then static_cast_int n else env)"
  have run: "write_lights w scene tc ls (n + 1, buf1, env1, SetDirty l False d) = (n', buf', env', d')"
    using Cons.prems unfolding write_lights_Cons buf1_def env1_def .
  note ih = Cons.IH [OF run]
  have "n' = n + length (l # ls)" using ih by simp
  moreover have "length buf' = length buf" using ih by (simp add: buf1_def)
  moreover have "\<forall>i<n. buf' ! i = buf ! i" using ih by (simp add: buf1_def)
  moreover have "\<forall>p. d' p = (if p \<in> set (l # ls) then False else d p)"
    using ih by (simp add: SetDirty_def)
  ultimately show ?case by blast
qed

lemma write_lights_no_ibl:
  "write_lights w scene tc ls (n, buf, env, d) = (n', buf', env', d') \<Longrightarrow>
   \<forall>l \<in> set ls. light_class (the_lights w) l \<noteq> ImageBasedLight \<Longrightarrow> env' = env"
proof (induction ls arbitrary: n buf env d)
  case Nil
  then show ?case by simp
next
  case (Cons l ls)
  have "write_lights w scene tc ls
          (n + 1, buf[n := WriteLight w scene l tc (buf ! n)], env, SetDirty l False d)
        = (n', buf', env', d')"
    using Cons.prems unfolding write_lights_Cons by simp
  then show ?case using Cons.IH Cons.prems(2) by simp
qed

lemma write_lights_last_ibl:
  "write_lights w scene tc ls (n, buf, env, d) = (n', buf', env', d') \<Longrightarrow>
   k < length ls \<Longrightarrow> light_class (the_lights w) (ls ! k) = ImageBasedLight \<Longrightarrow>
   \<forall>j. k < j \<and> j < length ls \<longrightarrow> light_class (the_lights w) (ls ! j) \<noteq> ImageBasedLight \<Longrightarrow>
   env' = static_cast_int (n + k)"
proof (induction ls arbitrary: n buf env d k)
  case Nil
  then show ?case by simp
next
  case (Cons l ls)
  define buf1 where "buf1 = buf[n := WriteLight w scene l tc (buf ! n)]"
  define env1 where "env1 = (if light_class (the_lights w) l = ImageBasedLight
                  then static_cast_int n else env)"
  have run: "write_lights w scene tc ls (n + 1, buf1, env1, SetDirty l False d) = (n', buf', env', d')"
    using Cons.prems(1) unfolding write_lights_Cons buf1_def env1_def .
  show ?case
  proof (cases k)
    case 0
    have "\<forall>x \<in> set ls. light_class (the_lights w) x \<noteq> ImageBasedLight"
    proof
      fix x assume "x \<in> set ls"
      then obtain j where j: "j < length ls" "ls ! j = x" by (auto simp: in_set_conv_nth)
      then have "k < Suc j \<and> Suc j < length (l # ls)" using 0 by simp
      with Cons.prems(4) have "light_class (the_lights w) ((l # ls) ! Suc j) \<noteq> ImageBasedLight" by blast
      then show "light_class (the_lights w) x \<noteq> ImageBasedLight" using j by simp
    qed
    from write_lights_no_ibl [OF run this] Cons.prems(3) 0 show ?thesis
      by (simp add: env1_def)
  next
    case (Suc k')
    have "\<forall>j. k' < j \<and> j < length ls \<longrightarrow> light_class (the_lights w) (ls ! j) \<noteq> ImageBasedLight"
    proof (intro allI impI)
      fix j assume "k' < j \<and> j < length ls"
      then have "k < Suc j \<and> Suc j < length (l # ls)" using Suc by simp
      with Cons.prems(4) have "light_class (the_lights w) ((l # ls) ! Suc j) \<noteq> ImageBasedLight" by blast
      then show "light_class (the_lights w) (ls ! j) \<noteq> ImageBasedLight" by simp
    qed
    from Cons.IH [OF run _ _ this] Cons.prems(2,3) Suc show ?thesis by simp
  qed
qed

lemma write_lights_record:
  "write_lights w scene tc ls (n, buf, env, d) = (n', buf', env', d') \<Longrightarrow>
   k < length ls \<Longrightarrow> n + k < length buf \<Longrightarrow>
   buf' ! (n + k) = WriteLight w scene (ls ! k) tc (buf ! (n + k))"
proof (induction ls arbitrary: n buf env d k)
  case Nil
  then show ?case by simp
next
  case (Cons l ls)
  define buf1 where "buf1 = buf[n := WriteLight w scene l tc (buf ! n)]"
  define env1 where "env1 = (if light_class (the_lights w) l = ImageBasedLight
                  then static_cast_int n else env)"
  have run: "write_lights w scene tc ls (n + 1, buf1, env1, SetDirty l False d) = (n', buf', env', d')"
    using Cons.prems(1) unfolding write_lights_Cons buf1_def env1_def .
  show ?case
  proof (cases k)
    case 0
    have "buf' ! n = buf1 ! n" using write_lights_basic [OF run] by simp
    then show ?thesis using 0 Cons.prems(3) by (simp add: buf1_def)
  next
    case (Suc k')
    have "buf' ! (n + 1 + k') = WriteLight w scene (ls ! k') tc (buf1 ! (n + 1 + k'))"
      using Cons.prems(2,3) Suc by (intro Cons.IH [OF run]) (simp_all add: buf1_def)
    then show ?thesis using Suc by (simp add: buf1_def)
  qed
qed

lemma UpdateLights_run:
  "\<exists>buf0 n' buf' env' d'.
      length buf0 \<ge> length (CreateLightIterator scene)
    \<and> write_lights w scene tc (CreateLightIterator scene) (0, buf0, - 1, d) = (n', buf', env', d')
    \<and> UpdateLights ctx w scene tc (out, d)
        = (out\<lparr>lights := buf', envmapidx := env', num_lights := static_cast_int n'\<rparr>, d')"
proof -
  define buf0 where "buf0 = (if GetNumLights scene > length (lights out)
      then CreateBuffer (fresh_light ctx) (GetNumLights scene) else lights out)"
  obtain n' buf' env' d' where r:
    "write_lights w scene tc (CreateLightIterator scene) (0, buf0, - 1, d) = (n', buf', env', d')"
    by (metis prod_cases4)
  have "length buf0 \<ge> length (CreateLightIterator scene)"
    by (simp add: buf0_def GetNumLights_def CreateBuffer_def)
  moreover have "UpdateLights ctx w scene tc (out, d)
        = (out\<lparr>lights := buf', envmapidx := env', num_lights := static_cast_int n'\<rparr>, d')"
    using r by (cases "GetNumLights scene > length (lights out)")
      (simp_all add: UpdateLights_def Let_def buf0_def)
  ultimately show ?thesis using r by blast
qed

lemma WriteLight_ibl:
  "light_class (the_lights w) l = ImageBasedLight \<Longrightarrow>
   ltype (WriteLight w scene l tc data) = kIbl
   \<and> tex (WriteLight w scene l tc data) = GetItemIndex tc (GetTexture (the_lights w) l)"
  by (simp add: WriteLight_def GetLightType_def Let_def)


text \<open>
  Claim C6. After \<open>UpdateLights\<close>, \<open>envmapidx\<close> is \<^verbatim>\<open>-1\<close> when the light iterator yields no image
  based light. Otherwise it is the position \<open>k\<close> of the last image based light in the
  iterator, cast to \<^verbatim>\<open>int\<close>, and the record at position \<open>k\<close> of the lights buffer is the one
  written for that light. The cast is the identity below \<open>2 ^ 31\<close>.
\<close>

theorem envmapidx_last_ibl:
  assumes run: "UpdateLights ctx w scene tc (out, d) = (out', d')"
    and ls: "ls = CreateLightIterator scene"
  shows "((\<forall>l \<in> set ls. light_class (the_lights w) l \<noteq> ImageBasedLight) \<longrightarrow> envmapidx out' = - 1)
       \<and> (\<forall>k. k < length ls \<and> light_class (the_lights w) (ls ! k) = ImageBasedLight
               \<and> (\<forall>j. k < j \<and> j < length ls \<longrightarrow> light_class (the_lights w) (ls ! j) \<noteq> ImageBasedLight)
            \<longrightarrow> envmapidx out' = static_cast_int k
              \<and> (k < 2 ^ 31 \<longrightarrow> sint (envmapidx out') = int k)
              \<and> ltype (lights out' ! k) = kIbl
              \<and> tex (lights out' ! k) = GetItemIndex tc (GetTexture (the_lights w) (ls ! k)))"
proof -
  obtain buf0 n' buf' env' where r:
    "length buf0 \<ge> length ls"
    "write_lights w scene tc ls (0, buf0, - 1, d) = (n', buf', env', d')"
    "out' = out\<lparr>lights := buf', envmapidx := env', num_lights := static_cast_int n'\<rparr>"
    using UpdateLights_run [of scene w tc d ctx out] run unfolding ls by auto
  have none: "envmapidx out' = - 1" if "\<forall>l \<in> set ls. light_class (the_lights w) l \<noteq> ImageBasedLight"
    using write_lights_no_ibl [OF r(2) that] r(3) by simp
  have some: "envmapidx out' = static_cast_int k
              \<and> (k < 2 ^ 31 \<longrightarrow> sint (envmapidx out') = int k)
              \<and> ltype (lights out' ! k) = kIbl
              \<and> tex (lights out' ! k) = GetItemIndex tc (GetTexture (the_lights w) (ls ! k))"
    if k: "k < length ls" and ibl: "light_class (the_lights w) (ls ! k) = ImageBasedLight"
      and last: "\<forall>j. k < j \<and> j < length ls \<longrightarrow> light_class (the_lights w) (ls ! j) \<noteq> ImageBasedLight"
    for k
  proof -
    have e: "envmapidx out' = static_cast_int k"
      using write_lights_last_ibl [OF r(2) k ibl last] r(3) by simp
    have b: "lights out' ! k = WriteLight w scene (ls ! k) tc (buf0 ! k)"
      using write_lights_record [OF r(2) k] r(1,3) k by simp
    show ?thesis using e b WriteLight_ibl [OF ibl]
      by (simp add: static_cast_int_def sint_of_nat_small)
  qed
  show ?thesis using none some by blast
qed


theorem envmapidx_last_ibl_witness:
  "envmapidx (fst (UpdateLights ex_context ex_world ex_scene ex_collector (new_ClwScene, \<lambda>p. True))) = 3
   \<and> sint (envmapidx (fst (UpdateLights ex_context ex_world ex_scene ex_collector (new_ClwScene, \<lambda>p. True)))) = 3
   \<and> envmapidx (fst (UpdateLights ex_context ex_world (ex_scene\<lparr>CreateLightIterator := [20, 22]\<rparr>)
                       ex_collector (new_ClwScene, \<lambda>p. True))) = - 1"
proof -
  obtain out1 d1 where r1:
    "UpdateLights ex_context ex_world ex_scene ex_collector (new_ClwScene, \<lambda>p. True) = (out1, d1)"
    by (cases "UpdateLights ex_context ex_world ex_scene ex_collector (new_ClwScene, \<lambda>p. True)")
  obtain out2 d2 where r2:
    "UpdateLights ex_context ex_world (ex_scene\<lparr>CreateLightIterator := [20, 22]\<rparr>)
       ex_collector (new_ClwScene, \<lambda>p. True) = (out2, d2)"
    by (cases "UpdateLights ex_context ex_world (ex_scene\<lparr>CreateLightIterator := [20, 22]\<rparr>)
       ex_collector (new_ClwScene, \<lambda>p. True)")
  have l1: "[20, 21, 22, 23] = CreateLightIterator ex_scene" by (simp add: ex_scene_def)
  have l2: "[20, 22] = CreateLightIterator (ex_scene\<lparr>CreateLightIterator := [20, 22]\<rparr>)" by simp
  have "envmapidx out1 = 3 \<and> sint (envmapidx out1) = 3"
    using envmapidx_last_ibl [OF r1 l1, THEN conjunct2, rule_format, of 3]
    by (simp add: ex_world_def ex_lights_def static_cast_int_def)
  moreover have "envmapidx out2 = - 1"
    using envmapidx_last_ibl [OF r2 l2, THEN conjunct1]
    by (simp add: ex_world_def ex_lights_def)
  ultimately show ?thesis by (simp add: r1 r2)
qed

subsection \<open>Writes into mapped buffers\<close>

lemma length_copy [simp]: "length (copy xs off dst) = length dst"
  by (induction xs arbitrary: off dst) simp_all

lemma length_fill [simp]: "length (fill off n v dst) = length dst"
  by (induction n arbitrary: off dst) simp_all

lemma fill_below: "i < off \<Longrightarrow> fill off n v dst ! i = dst ! i"
  by (induction n arbitrary: off dst) simp_all

lemma fill_inside: "off + n \<le> length dst \<Longrightarrow> i < n \<Longrightarrow> fill off n v dst ! (off + i) = v"
proof (induction n arbitrary: off dst i)
  case 0
  then show ?case by simp
next
  case (Suc n)
  show ?case
  proof (cases i)
    case 0
    then show ?thesis using Suc.prems by (simp add: fill_below)
  next
    case (Suc i')
    have "fill (Suc off) n v (dst[off := v]) ! (Suc off + i') = v"
      using Suc.prems Suc by (intro Suc.IH) simp_all
    then show ?thesis using Suc by simp
  qed
qed

subsection \<open>The loops over meshes and excluded meshes\<close>

lemma serialize_mesh_fields [simp]:
  "num_shapes_written (serialize_mesh w m v s) = num_shapes_written s + 1"
  "num_matids_written (serialize_mesh w m v s) = num_matids_written s + GetNumIndices w m div 3"
  "num_vertices_written (serialize_mesh w m v s) = num_vertices_written s + GetNumVertices w m"
  "num_normals_written (serialize_mesh w m v s) = num_normals_written s + GetNumNormals w m"
  "num_uvs_written (serialize_mesh w m v s) = num_uvs_written s + GetNumUVs w m"
  "num_indices_written (serialize_mesh w m v s) = num_indices_written s + GetNumIndices w m"
  "p_shapes (serialize_mesh w m v s) = (p_shapes s)[num_shapes_written s := prepare_shape_descriptor w m s]"
  "shape_data (serialize_mesh w m v s) = (shape_data s)(m \<mapsto> prepare_shape_descriptor w m s)"
  "p_dirty (serialize_mesh w m v s) = SetDirty m False (p_dirty s)"
  "p_matids (serialize_mesh w m v s) = fill (num_matids_written s) (GetNumIndices w m div 3) v (p_matids s)"
  "length (p_vertices (serialize_mesh w m v s)) = length (p_vertices s)"
  "length (p_normals (serialize_mesh w m v s)) = length (p_normals s)"
  "length (p_uvs (serialize_mesh w m v s)) = length (p_uvs s)"
  "length (p_indices (serialize_mesh w m v s)) = length (p_indices s)"
  by (simp_all add: serialize_mesh_def Let_def)

lemma serialize_meshes_fold:
  "serialize_meshes w dm mc ms s =
     fold (\<lambda>m. serialize_mesh w m (GetItemIndex mc (Some (material_or_default w dm m)))) ms s"
  by (induction ms arbitrary: s) simp_all

lemma serialize_excluded_meshes_fold:
  "serialize_excluded_meshes w ms s = fold (\<lambda>m. serialize_mesh w m (- 1)) ms s"
  by (induction ms arbitrary: s) simp_all

lemma meshes_num_shapes_written:
  "num_shapes_written (fold (\<lambda>m. serialize_mesh w m (f m)) xs s) = num_shapes_written s + length xs"
  by (induction xs arbitrary: s) simp_all

lemma meshes_num_matids_written:
  "num_matids_written (fold (\<lambda>m. serialize_mesh w m (f m)) xs s)
     = num_matids_written s + sum_list (map (\<lambda>m. GetNumIndices w m div 3) xs)"
  by (induction xs arbitrary: s) simp_all

lemma meshes_num_vertices_written:
  "num_vertices_written (fold (\<lambda>m. serialize_mesh w m (f m)) xs s)
     = num_vertices_written s + sum_list (map (GetNumVertices w) xs)"
  by (induction xs arbitrary: s) simp_all

lemma meshes_num_indices_written:
  "num_indices_written (fold (\<lambda>m. serialize_mesh w m (f m)) xs s)
     = num_indices_written s + sum_list (map (GetNumIndices w) xs)"
  by (induction xs arbitrary: s) simp_all

lemma meshes_lengths:
  "length (p_shapes (fold (\<lambda>m. serialize_mesh w m (f m)) xs s)) = length (p_shapes s)"
  "length (p_matids (fold (\<lambda>m. serialize_mesh w m (f m)) xs s)) = length (p_matids s)"
  "length (p_vertices (fold (\<lambda>m. serialize_mesh w m (f m)) xs s)) = length (p_vertices s)"
  "length (p_normals (fold (\<lambda>m. serialize_mesh w m (f m)) xs s)) = length (p_normals s)"
  "length (p_uvs (fold (\<lambda>m. serialize_mesh w m (f m)) xs s)) = length (p_uvs s)"
  "length (p_indices (fold (\<lambda>m. serialize_mesh w m (f m)) xs s)) = length (p_indices s)"
  by (induction xs arbitrary: s) simp_all

lemma meshes_shapes_below:
  "i < num_shapes_written s \<Longrightarrow>
   p_shapes (fold (\<lambda>m. serialize_mesh w m (f m)) xs s) ! i = p_shapes s ! i"
  by (induction xs arbitrary: s) simp_all

lemma meshes_shape_data_other:
  "p \<notin> set xs \<Longrightarrow> shape_data (fold (\<lambda>m. serialize_mesh w m (f m)) xs s) p = shape_data s p"
  by (induction xs arbitrary: s) simp_all

lemma meshes_dirty:
  "p_dirty (fold (\<lambda>m. serialize_mesh w m (f m)) xs s) p = (if p \<in> set xs then False else p_dirty s p)"
  by (induction xs arbitrary: s) (simp_all add: SetDirty_def)

lemma meshes_records:
  "distinct xs \<Longrightarrow> num_shapes_written s + length xs \<le> length (p_shapes s) \<Longrightarrow> j < length xs \<Longrightarrow>
     shape_data (fold (\<lambda>m. serialize_mesh w m (f m)) xs s) (xs ! j)
       = Some (p_shapes (fold (\<lambda>m. serialize_mesh w m (f m)) xs s) ! (num_shapes_written s + j))
   \<and> numprims (p_shapes (fold (\<lambda>m. serialize_mesh w m (f m)) xs s) ! (num_shapes_written s + j))
       = static_cast_int (GetNumIndices w (xs ! j) div 3)
   \<and> transform (p_shapes (fold (\<lambda>m. serialize_mesh w m (f m)) xs s) ! (num_shapes_written s + j))
       = shape_transform (GetTransform w (xs ! j))"
proof (induction xs arbitrary: s j)
  case Nil
  then show ?case by simp
next
  case (Cons x xs)
  define s1 where "s1 = serialize_mesh w x (f x) s"
  define F where "F = fold (\<lambda>m. serialize_mesh w m (f m)) xs s1"
  have F: "fold (\<lambda>m. serialize_mesh w m (f m)) (x # xs) s = F"
    by (simp add: F_def s1_def)
  show ?case
  proof (cases j)
    case 0
    have "shape_data F x = shape_data s1 x"
      unfolding F_def using Cons.prems(1) by (intro meshes_shape_data_other) simp
    then have sd: "shape_data F x = Some (prepare_shape_descriptor w x s)"
      by (simp add: s1_def)
    have "p_shapes F ! num_shapes_written s = p_shapes s1 ! num_shapes_written s"
      unfolding F_def by (intro meshes_shapes_below) (simp add: s1_def)
    then have ps: "p_shapes F ! num_shapes_written s = prepare_shape_descriptor w x s"
      using Cons.prems(2) by (simp add: s1_def)
    show ?thesis unfolding F using 0 sd ps by (simp add: prepare_shape_descriptor_def)
  next
    case (Suc j')
    have "shape_data F (xs ! j') = Some (p_shapes F ! (num_shapes_written s1 + j'))
        \<and> numprims (p_shapes F ! (num_shapes_written s1 + j')) = static_cast_int (GetNumIndices w (xs ! j') div 3)
        \<and> transform (p_shapes F ! (num_shapes_written s1 + j')) = shape_transform (GetTransform w (xs ! j'))"
      unfolding F_def using Cons.prems Suc by (intro Cons.IH) (simp_all add: s1_def)
    then show ?thesis unfolding F using Suc by (simp add: s1_def)
  qed
qed

subsection \<open>The loop over instances\<close>

lemma serialize_instance_fields [simp]:
  "num_shapes_written (serialize_instance w dm mc i s) = num_shapes_written s + 1"
  "num_matids_written (serialize_instance w dm mc i s)
     = num_matids_written s + GetNumIndices w (GetBaseShape w i) div 3"
  "num_vertices_written (serialize_instance w dm mc i s) = num_vertices_written s"
  "num_indices_written (serialize_instance w dm mc i s) = num_indices_written s"
  "p_vertices (serialize_instance w dm mc i s) = p_vertices s"
  "p_normals (serialize_instance w dm mc i s) = p_normals s"
  "p_uvs (serialize_instance w dm mc i s) = p_uvs s"
  "p_indices (serialize_instance w dm mc i s) = p_indices s"
  "p_dirty (serialize_instance w dm mc i s) = SetDirty i False (p_dirty s)"
  "p_shapes (serialize_instance w dm mc i s) = (p_shapes s)[num_shapes_written s :=
      (shape_data_at s (GetBaseShape w i))
        \<lparr>start_material_idx := static_cast_int (num_matids_written s),
         transform := shape_transform (GetTransform w i),
         linearvelocity := Float3 0 0 0 0,
         angularvelocity := Float3 0 0 0 1\<rparr>]"
  "p_matids (serialize_instance w dm mc i s)
     = fill (num_matids_written s) (GetNumIndices w (GetBaseShape w i) div 3)
         (GetItemIndex mc (Some (material_or_default w dm i))) (p_matids s)"
  by (simp_all add: serialize_instance_def Let_def)

lemma serialize_instance_shape_data_at [simp]:
  "shape_data_at (serialize_instance w dm mc i s) b = shape_data_at s b"
  by (simp add: serialize_instance_def Let_def shape_data_at_def split: option.splits)

lemma instances_unchanged:
  "p_vertices (serialize_instances w dm mc is s) = p_vertices s"
  "p_normals (serialize_instances w dm mc is s) = p_normals s"
  "p_uvs (serialize_instances w dm mc is s) = p_uvs s"
  "p_indices (serialize_instances w dm mc is s) = p_indices s"
  "shape_data_at (serialize_instances w dm mc is s) b = shape_data_at s b"
  "length (p_shapes (serialize_instances w dm mc is s)) = length (p_shapes s)"
  "length (p_matids (serialize_instances w dm mc is s)) = length (p_matids s)"
  by (induction "is" arbitrary: s) simp_all

lemma instances_num_shapes_written:
  "num_shapes_written (serialize_instances w dm mc is s) = num_shapes_written s + length is"
  by (induction "is" arbitrary: s) simp_all

lemma instances_num_matids_written:
  "num_matids_written (serialize_instances w dm mc is s)
     = num_matids_written s + sum_list (map (\<lambda>i. GetNumIndices w (GetBaseShape w i) div 3) is)"
  by (induction "is" arbitrary: s) simp_all

lemma instances_shapes_below:
  "i < num_shapes_written s \<Longrightarrow> p_shapes (serialize_instances w dm mc is s) ! i = p_shapes s ! i"
  by (induction "is" arbitrary: s) simp_all

lemma instances_matids_below:
  "i < num_matids_written s \<Longrightarrow> p_matids (serialize_instances w dm mc is s) ! i = p_matids s ! i"
  by (induction "is" arbitrary: s) (simp_all add: fill_below)

lemma instances_dirty:
  "p_dirty (serialize_instances w dm mc is s) p = (if p \<in> set is then False else p_dirty s p)"
  by (induction "is" arbitrary: s) (simp_all add: SetDirty_def)

lemma instances_record:
  "k < length is \<Longrightarrow> num_shapes_written s + length is \<le> length (p_shapes s) \<Longrightarrow>
   p_shapes (serialize_instances w dm mc is s) ! (num_shapes_written s + k)
     = (shape_data_at s (GetBaseShape w (is ! k)))
         \<lparr>start_material_idx := static_cast_int
            (num_matids_written s
               + sum_list (map (\<lambda>i. GetNumIndices w (GetBaseShape w i) div 3) (take k is))),
          transform := shape_transform (GetTransform w (is ! k)),
          linearvelocity := Float3 0 0 0 0,
          angularvelocity := Float3 0 0 0 1\<rparr>"
proof (induction "is" arbitrary: s k)
  case Nil
  then show ?case by simp
next
  case (Cons i "is")
  define s1 where "s1 = serialize_instance w dm mc i s"
  show ?case
  proof (cases k)
    case 0
    have "p_shapes (serialize_instances w dm mc is s1) ! num_shapes_written s
            = p_shapes s1 ! num_shapes_written s"
      by (intro instances_shapes_below) (simp add: s1_def)
    then show ?thesis using 0 Cons.prems(2) by (simp add: s1_def)
  next
    case (Suc k')
    have "p_shapes (serialize_instances w dm mc is s1) ! (num_shapes_written s1 + k')
     = (shape_data_at s1 (GetBaseShape w (is ! k')))
         \<lparr>start_material_idx := static_cast_int
            (num_matids_written s1
               + sum_list (map (\<lambda>i. GetNumIndices w (GetBaseShape w i) div 3) (take k' is))),
          transform := shape_transform (GetTransform w (is ! k')),
          linearvelocity := Float3 0 0 0 0,
          angularvelocity := Float3 0 0 0 1\<rparr>"
      using Cons.prems Suc by (intro Cons.IH) (simp_all add: s1_def)
    then show ?thesis using Suc by (simp add: s1_def add.assoc)
  qed
qed

lemma instances_matids:
  "k < length is \<Longrightarrow>
   num_matids_written s + sum_list (map (\<lambda>i. GetNumIndices w (GetBaseShape w i) div 3) is)
     \<le> length (p_matids s) \<Longrightarrow>
   j < GetNumIndices w (GetBaseShape w (is ! k)) div 3 \<Longrightarrow>
   p_matids (serialize_instances w dm mc is s)
     ! (num_matids_written s
          + sum_list (map (\<lambda>i. GetNumIndices w (GetBaseShape w i) div 3) (take k is)) + j)
     = GetItemIndex mc (Some (material_or_default w dm (is ! k)))"
proof (induction "is" arbitrary: s k)
  case Nil
  then show ?case by simp
next
  case (Cons i "is")
  define s1 where "s1 = serialize_instance w dm mc i s"
  show ?case
  proof (cases k)
    case 0
    have "p_matids (serialize_instances w dm mc is s1) ! (num_matids_written s + j)
            = p_matids s1 ! (num_matids_written s + j)"
      using Cons.prems(3) 0 by (intro instances_matids_below) (simp add: s1_def)
    also have "\<dots> = GetItemIndex mc (Some (material_or_default w dm i))"
      using Cons.prems 0 by (simp add: s1_def fill_inside)
    finally show ?thesis using 0 by (simp add: s1_def)
  next
    case (Suc k')
    have "p_matids (serialize_instances w dm mc is s1)
     ! (num_matids_written s1
          + sum_list (map (\<lambda>i. GetNumIndices w (GetBaseShape w i) div 3) (take k' is)) + j)
     = GetItemIndex mc (Some (material_or_default w dm (is ! k')))"
      using Cons.prems Suc by (intro Cons.IH) (simp_all add: s1_def)
    then show ?thesis using Suc by (simp add: s1_def add.assoc)
  qed
qed


subsection \<open>The partition\<close>

lemma SplitMeshesAndInstances_props:
  assumes "SplitMeshesAndInstances w it = (ms, is, ex)"
  shows "sorted_wrt (<) ms" "set ms = {p \<in> set it. \<not> is_instance w p}"
    "sorted_wrt (<) is" "set is = {p \<in> set it. is_instance w p}"
    "sorted_wrt (<) ex"
    "set ex = {GetBaseShape w i |i. i \<in> set is \<and> GetBaseShape w i \<notin> set ms}"
proof -
  have ms: "ms = fst (split_loop w it ([], []))" and "is": "is = snd (split_loop w it ([], []))"
    and ex: "ex = excluded_loop w ms is []"
    using assms by (auto simp: SplitMeshesAndInstances_def split: prod.splits)
  show "sorted_wrt (<) ms" unfolding ms by (rule split_loop_sorted_fst) simp
  show "set ms = {p \<in> set it. \<not> is_instance w p}" unfolding ms by (simp add: split_loop_set_fst)
  show "sorted_wrt (<) is" unfolding "is" by (rule split_loop_sorted_snd) simp
  show "set is = {p \<in> set it. is_instance w p}" unfolding "is" by (simp add: split_loop_set_snd)
  show "sorted_wrt (<) ex" unfolding ex by (rule excluded_loop_sorted) simp
  show "set ex = {GetBaseShape w i |i. i \<in> set is \<and> GetBaseShape w i \<notin> set ms}"
    unfolding ex by (simp add: excluded_loop_set)
qed

lemma strictly_sorted_distinct: "sorted_wrt (<) (xs :: nat list) \<Longrightarrow> distinct xs"
  by (simp add: strict_sorted_iff)

lemma partition_distinct:
  assumes "SplitMeshesAndInstances w it = (ms, is, ex)"
  shows "distinct (ms @ ex)" "distinct is" "\<forall>i \<in> set is. GetBaseShape w i \<in> set (ms @ ex)"
  using SplitMeshesAndInstances_props [OF assms]
  by (auto simp: strictly_sorted_distinct)

subsection \<open>UpdateShapes\<close>

lemma map_shape_buffers_fields [simp]:
  "num_shapes_written (map_shape_buffers ctx w ms is ex d) = 0"
  "num_matids_written (map_shape_buffers ctx w ms is ex d) = 0"
  "num_vertices_written (map_shape_buffers ctx w ms is ex d) = 0"
  "num_indices_written (map_shape_buffers ctx w ms is ex d) = 0"
  "p_dirty (map_shape_buffers ctx w ms is ex d) = d"
  "length (p_shapes (map_shape_buffers ctx w ms is ex d)) = length ms + length ex + length is"
  "length (p_matids (map_shape_buffers ctx w ms is ex d))
     = sum_list (map (\<lambda>mesh. GetNumIndices w mesh div 3) (ms @ ex))
       + sum_list (map (\<lambda>i. GetNumIndices w (GetBaseShape w i) div 3) is)"
  "length (p_vertices (map_shape_buffers ctx w ms is ex d)) = sum_list (map (GetNumVertices w) (ms @ ex))"
  "length (p_indices (map_shape_buffers ctx w ms is ex d)) = sum_list (map (GetNumIndices w) (ms @ ex))"
  by (simp_all add: map_shape_buffers_def Let_def CreateBuffer_def)

text \<open>
  The two mesh loops as one pass over \<open>meshes @ excluded_meshes\<close>; the material id a mesh
  gets depends on the loop it is in.
\<close>

lemma mesh_loops_fold:
  assumes "set ms \<inter> set ex = {}"
  shows "serialize_excluded_meshes w ex (serialize_meshes w dm mc ms s)
     = fold (\<lambda>m. serialize_mesh w m
               (if m \<in> set ms then GetItemIndex mc (Some (material_or_default w dm m)) else - 1))
         (ms @ ex) s"
proof -
  have 1: "fold (\<lambda>m. serialize_mesh w m
               (if m \<in> set ms then GetItemIndex mc (Some (material_or_default w dm m)) else - 1)) ms s
         = serialize_meshes w dm mc ms s"
    unfolding serialize_meshes_fold by (rule fold_cong) simp_all
  have 2: "fold (\<lambda>m. serialize_mesh w m
               (if m \<in> set ms then GetItemIndex mc (Some (material_or_default w dm m)) else - 1)) ex s'
         = serialize_excluded_meshes w ex s'" for s'
    unfolding serialize_excluded_meshes_fold using assms by (intro fold_cong) auto
  show ?thesis by (simp add: 1 2)
qed

lemma UpdateShapes_result:
  assumes sp: "SplitMeshesAndInstances w (CreateShapeIterator scene) = (ms, is, ex)"
    and M: "M = length ms + length ex"
    and P: "P = (\<lambda>p. GetNumIndices w p div 3)"
    and off: "off = (\<lambda>k. sum_list (map P (ms @ ex)) + sum_list (map (\<lambda>i. P (GetBaseShape w i)) (take k is)))"
  shows "\<exists>out' d'. UpdateShapes ctx w dm scene mc out d = (out', d')
    \<and> out' = out\<lparr>vertices := vertices out', normals := normals out', uvs := uvs out',
                    indices := indices out', shapes := shapes out', materialids := materialids out'\<rparr>
    \<and> length (shapes out') = M + length is
    \<and> length (vertices out') = sum_list (map (GetNumVertices w) (ms @ ex))
    \<and> length (indices out') = sum_list (map (GetNumIndices w) (ms @ ex))
    \<and> length (materialids out') = off (length is)
    \<and> (\<forall>j<M. numprims (shapes out' ! j) = static_cast_int (P ((ms @ ex) ! j))
             \<and> transform (shapes out' ! j) = shape_transform (GetTransform w ((ms @ ex) ! j)))
    \<and> (\<forall>k<length is. \<exists>j<M. (ms @ ex) ! j = GetBaseShape w (is ! k)
             \<and> shapes out' ! (M + k)
                 = (shapes out' ! j)\<lparr>start_material_idx := static_cast_int (off k),
                                       transform := shape_transform (GetTransform w (is ! k)),
                                       linearvelocity := Float3 0 0 0 0,
                                       angularvelocity := Float3 0 0 0 1\<rparr>)
    \<and> (\<forall>k<length is. \<forall>i<P (GetBaseShape w (is ! k)).
           materialids out' ! (off k + i) = GetItemIndex mc (Some (material_or_default w dm (is ! k))))
    \<and> (\<forall>p. d' p = (if p \<in> set (ms @ ex @ is) then False else d p))"
proof -
  note part = partition_distinct [OF sp]
  have disj: "set ms \<inter> set ex = {}" using part(1) by auto
  define g where "g = (\<lambda>m. if m \<in> set ms then GetItemIndex mc (Some (material_or_default w dm m)) else - 1)"
  define s0 where "s0 = map_shape_buffers ctx w ms is ex d"
  define s2 where "s2 = fold (\<lambda>m. serialize_mesh w m (g m)) (ms @ ex) s0"
  define s3 where "s3 = serialize_instances w dm mc is s2"
  define out' where "out' = out\<lparr>vertices := p_vertices s3, normals := p_normals s3, uvs := p_uvs s3,
                  indices := p_indices s3, shapes := p_shapes s3, materialids := p_matids s3\<rparr>"
  have run: "UpdateShapes ctx w dm scene mc out d = (out', p_dirty s3)"
    using sp mesh_loops_fold [OF disj, of w dm mc s0]
    by (simp add: UpdateShapes_def Let_def out'_def s3_def s2_def s0_def g_def)
  have nsw2: "num_shapes_written s2 = M"
    by (simp add: s2_def meshes_num_shapes_written s0_def M)
  have nmw2: "num_matids_written s2 = sum_list (map P (ms @ ex))"
    by (simp add: s2_def meshes_num_matids_written s0_def P)
  have len_shapes2: "length (p_shapes s2) = M + length is"
    by (simp add: s2_def meshes_lengths s0_def M)
  have len_matids2: "length (p_matids s2) = off (length is)"
    by (simp add: s2_def meshes_lengths s0_def off P)
  have frame: "out' = out'\<lparr>vertices := vertices out', normals := normals out', uvs := uvs out',
                    indices := indices out', shapes := shapes out', materialids := materialids out'\<rparr>"
    by simp
  have frame': "out' = out\<lparr>vertices := vertices out', normals := normals out', uvs := uvs out',
                    indices := indices out', shapes := shapes out', materialids := materialids out'\<rparr>"
    by (simp add: out'_def)
  have l1: "length (shapes out') = M + length is"
    by (simp add: out'_def s3_def instances_unchanged len_shapes2)
  have l2: "length (vertices out') = sum_list (map (GetNumVertices w) (ms @ ex))"
    by (simp add: out'_def s3_def instances_unchanged s2_def meshes_lengths s0_def)
  have l3: "length (indices out') = sum_list (map (GetNumIndices w) (ms @ ex))"
    by (simp add: out'_def s3_def instances_unchanged s2_def meshes_lengths s0_def)
  have l4: "length (materialids out') = off (length is)"
    by (simp add: out'_def s3_def instances_unchanged len_matids2)
  have below: "shapes out' ! j = p_shapes s2 ! j" if "j < M" for j
    using that by (simp add: out'_def s3_def instances_shapes_below nsw2)
  have rec: "shape_data s2 ((ms @ ex) ! j) = Some (p_shapes s2 ! j)
      \<and> numprims (p_shapes s2 ! j) = static_cast_int (P ((ms @ ex) ! j))
      \<and> transform (p_shapes s2 ! j) = shape_transform (GetTransform w ((ms @ ex) ! j))"
    if "j < M" for j
    using meshes_records [of "ms @ ex" s0 j w g] part(1) that
    by (simp add: s2_def s0_def M P)
  have meshes: "\<forall>j<M. numprims (shapes out' ! j) = static_cast_int (P ((ms @ ex) ! j))
             \<and> transform (shapes out' ! j) = shape_transform (GetTransform w ((ms @ ex) ! j))"
    using rec below by simp
  have inst: "\<exists>j<M. (ms @ ex) ! j = GetBaseShape w (is ! k)
             \<and> shapes out' ! (M + k)
                 = (shapes out' ! j)\<lparr>start_material_idx := static_cast_int (off k),
                                       transform := shape_transform (GetTransform w (is ! k)),
                                       linearvelocity := Float3 0 0 0 0,
                                       angularvelocity := Float3 0 0 0 1\<rparr>"
    if k: "k < length is" for k
  proof -
    have "GetBaseShape w (is ! k) \<in> set (ms @ ex)" using part(3) k by simp
    then obtain j where j: "j < length (ms @ ex)" "(ms @ ex) ! j = GetBaseShape w (is ! k)"
      unfolding in_set_conv_nth by blast
    then have jM: "j < M" by (simp add: M)
    have "shape_data_at s2 (GetBaseShape w (is ! k)) = p_shapes s2 ! j"
      using rec [OF jM] j(2) by (simp add: shape_data_at_def)
    moreover have "shapes out' ! (M + k)
        = (shape_data_at s2 (GetBaseShape w (is ! k)))
            \<lparr>start_material_idx := static_cast_int (off k),
             transform := shape_transform (GetTransform w (is ! k)),
             linearvelocity := Float3 0 0 0 0,
             angularvelocity := Float3 0 0 0 1\<rparr>"
      using instances_record [of k "is" s2 w dm mc] k
      by (simp add: out'_def s3_def nsw2 nmw2 len_shapes2 off P)
    ultimately show ?thesis using jM j(2) below [OF jM] by auto
  qed
  have ids: "\<forall>k<length is. \<forall>i<P (GetBaseShape w (is ! k)).
           materialids out' ! (off k + i) = GetItemIndex mc (Some (material_or_default w dm (is ! k)))"
  proof (intro allI impI)
    fix k i assume k: "k < length is" and i: "i < P (GetBaseShape w (is ! k))"
    show "materialids out' ! (off k + i) = GetItemIndex mc (Some (material_or_default w dm (is ! k)))"
      using instances_matids [of k "is" s2 w i dm mc] k i len_matids2
      by (simp add: out'_def s3_def nmw2 off P)
  qed
  have dirty: "\<forall>p. p_dirty s3 p = (if p \<in> set (ms @ ex @ is) then False else d p)"
    by (simp add: s3_def instances_dirty s2_def meshes_dirty s0_def)
  from run frame' l1 l2 l3 l4 meshes inst ids dirty show ?thesis by blast
qed

subsection \<open>Shape records and the partition\<close>

lemma sum_list_take_nth_le:
  "k < length xs \<Longrightarrow> sum_list (map f (take k xs)) + f (xs ! k) \<le> (sum_list (map f xs) :: nat)"
proof -
  assume k: "k < length xs"
  have "xs = take k xs @ xs ! k # drop (Suc k) xs"
    using k by (simp add: Cons_nth_drop_Suc)
  then have "sum_list (map f xs) = sum_list (map f (take k xs @ xs ! k # drop (Suc k) xs))"
    by simp
  then show ?thesis by simp
qed

lemma ex_split_scene:
  "SplitMeshesAndInstances ex_shapes (CreateShapeIterator ex_scene) = ([1, 2], [3, 4], [5])"
  by (simp add: SplitMeshesAndInstances_def ex_shapes_def ex_scene_def)

text \<open>
  Claim C4, as stated, at the shape iterator that yields mesh 2 and then mesh 1: the set
  \<open>meshes\<close> is visited in the order 1, 2, not in the iterator's order 2, 1.
\<close>

theorem meshes_not_in_iterator_order:
  "fst (SplitMeshesAndInstances ex_shapes [2, 1]) = [1, 2]
   \<and> filter (\<lambda>p. \<not> is_instance ex_shapes p) [2, 1] = [2, 1]
   \<and> fst (SplitMeshesAndInstances ex_shapes [2, 1]) \<noteq> filter (\<lambda>p. \<not> is_instance ex_shapes p) [2, 1]"
  by (simp add: SplitMeshesAndInstances_def ex_shapes_def)

text \<open>
  Claim C4, amended. \<open>meshes\<close> holds exactly the shapes of the iterator that are not
  instances, \<open>instances\<close> exactly those that are, \<open>excluded_meshes\<close> exactly the base shapes of
  these instances that are not in \<open>meshes\<close>; each set is visited in ascending order of
  address and holds every shape once. \<open>meshes\<close> is disjoint from the other two, and
  \<open>excluded_meshes\<close> from \<open>instances\<close> when the base of every instance is a mesh.
  \<open>UpdateShapes\<close> writes the shape records in the order meshes, excluded meshes, instances:
  the record at a position carries the transform of the shape at that position.
\<close>

theorem partition_and_order:
  assumes sp: "SplitMeshesAndInstances w (CreateShapeIterator scene) = (meshes, instances, excluded_meshes)"
  shows "sorted_wrt (<) meshes
       \<and> set meshes = {p \<in> set (CreateShapeIterator scene). \<not> is_instance w p}
       \<and> sorted_wrt (<) instances
       \<and> set instances = {p \<in> set (CreateShapeIterator scene). is_instance w p}
       \<and> sorted_wrt (<) excluded_meshes
       \<and> set excluded_meshes
           = {GetBaseShape w i |i. i \<in> set instances \<and> GetBaseShape w i \<notin> set meshes}
       \<and> set meshes \<inter> set excluded_meshes = {}
       \<and> set meshes \<inter> set instances = {}
       \<and> ((\<forall>i \<in> set instances. \<not> is_instance w (GetBaseShape w i))
            \<longrightarrow> set excluded_meshes \<inter> set instances = {})
       \<and> map transform (shapes (fst (UpdateShapes ctx w dm scene mc out d)))
           = map (\<lambda>p. shape_transform (GetTransform w p)) (meshes @ excluded_meshes @ instances)"
proof -
  note p = SplitMeshesAndInstances_props [OF sp]
  have d1: "set meshes \<inter> set excluded_meshes = {}" using p(6) by auto
  have d2: "set meshes \<inter> set instances = {}" using p(2,4) by auto
  have d3: "set excluded_meshes \<inter> set instances = {}"
    if "\<forall>i \<in> set instances. \<not> is_instance w (GetBaseShape w i)"
    using that p(4,6) by auto
  define M where "M = length meshes + length excluded_meshes"
  define P where "P = (\<lambda>p. GetNumIndices w p div 3)"
  define offs where "offs = (\<lambda>k. sum_list (map P (meshes @ excluded_meshes))
      + sum_list (map (\<lambda>i. P (GetBaseShape w i)) (take k instances)))"
  obtain out' d' where r:
    "UpdateShapes ctx w dm scene mc out d = (out', d')"
    "length (shapes out') = M + length instances"
    "\<forall>j<M. numprims (shapes out' ! j) = static_cast_int (P ((meshes @ excluded_meshes) ! j))
             \<and> transform (shapes out' ! j) = shape_transform (GetTransform w ((meshes @ excluded_meshes) ! j))"
    "\<forall>k<length instances. \<exists>j<M. (meshes @ excluded_meshes) ! j = GetBaseShape w (instances ! k)
             \<and> shapes out' ! (M + k)
                 = (shapes out' ! j)\<lparr>start_material_idx := static_cast_int (offs k),
                                       transform := shape_transform (GetTransform w (instances ! k)),
                                       linearvelocity := Float3 0 0 0 0,
                                       angularvelocity := Float3 0 0 0 1\<rparr>"
    using UpdateShapes_result [OF sp M_def P_def offs_def, of ctx dm mc out d] by blast
  define every where "every = meshes @ excluded_meshes @ instances"
  have len: "length every = M + length instances" by (simp add: every_def M_def)
  have lo: "every ! i = (meshes @ excluded_meshes) ! i" if "i < M" for i
    using that nth_append [of "meshes @ excluded_meshes" instances i] by (simp add: every_def M_def)
  have hi: "every ! (M + k) = instances ! k" for k
    using nth_append [of "meshes @ excluded_meshes" instances "M + k"] by (simp add: every_def M_def)
  have "map transform (shapes out') = map (\<lambda>p. shape_transform (GetTransform w p)) every"
  proof (rule nth_equalityI)
    show "length (map transform (shapes out'))
        = length (map (\<lambda>p. shape_transform (GetTransform w p)) every)"
      using r(2) len by simp
  next
    fix i assume "i < length (map transform (shapes out'))"
    then have i: "i < M + length instances" using r(2) by simp
    show "map transform (shapes out') ! i = map (\<lambda>p. shape_transform (GetTransform w p)) every ! i"
    proof (cases "i < M")
      case True
      then show ?thesis using r(2,3) i len lo by simp
    next
      case False
      then obtain k where k: "i = M + k" "k < length instances"
        using i by (metis add_diff_inverse_nat nat_add_left_cancel_less)
      have "transform (shapes out' ! (M + k)) = shape_transform (GetTransform w (instances ! k))"
        using r(4) k(2) by fastforce
      then show ?thesis using r(2) k len hi by simp
    qed
  qed
  then have order: "map transform (shapes (fst (UpdateShapes ctx w dm scene mc out d)))
      = map (\<lambda>p. shape_transform (GetTransform w p)) (meshes @ excluded_meshes @ instances)"
    using r(1) by (simp add: every_def)
  show ?thesis using p d1 d2 d3 order by blast
qed

theorem partition_and_order_witness:
  "set [1, 2] = {p \<in> set (CreateShapeIterator ex_scene). \<not> is_instance ex_shapes p}
   \<and> set [3, 4] = {p \<in> set (CreateShapeIterator ex_scene). is_instance ex_shapes p}
   \<and> set [5 :: nat] \<inter> set [3, 4] = {}
   \<and> map transform (shapes (fst (UpdateShapes ex_context ex_shapes 11 ex_scene ex_collector
                                   new_ClwScene (\<lambda>p. True))))
       = map (\<lambda>p. shape_transform (GetTransform ex_shapes p)) [1, 2, 5, 3, 4]"
proof -
  have h: "\<forall>i \<in> set [3, 4]. \<not> is_instance ex_shapes (GetBaseShape ex_shapes i)"
    by (simp add: ex_shapes_def)
  note t = partition_and_order [OF ex_split_scene, of ex_context 11 ex_collector new_ClwScene "\<lambda>p. True"]
  note c2 = t [THEN conjunct2, THEN conjunct1]
  note c4 = t [THEN conjunct2, THEN conjunct2, THEN conjunct2, THEN conjunct1]
  note c9 = t [THEN conjunct2, THEN conjunct2, THEN conjunct2, THEN conjunct2, THEN conjunct2,
               THEN conjunct2, THEN conjunct2, THEN conjunct2, THEN conjunct1, THEN mp, OF h]
  note c10 = t [THEN conjunct2, THEN conjunct2, THEN conjunct2, THEN conjunct2, THEN conjunct2,
               THEN conjunct2, THEN conjunct2, THEN conjunct2, THEN conjunct2]
  have c10': "map transform (shapes (fst (UpdateShapes ex_context ex_shapes 11 ex_scene ex_collector
                                   new_ClwScene (\<lambda>p. True))))
       = map (\<lambda>p. shape_transform (GetTransform ex_shapes p)) [1, 2, 5, 3, 4]"
    using c10 by simp
  show ?thesis by (intro conjI) (rule c2, rule c4, rule c9, rule c10')
qed


subsection \<open>What the passes do to the dirty bits and to the compiled scene\<close>

lemma clear_material_flags_apply:
  "clear_material_flags mc d p = (if p \<in> set (c_items mc) then False else d p)"
proof -
  have "fold (\<lambda>item. SetDirty item False) xs d p = (if p \<in> set xs then False else d p)" for xs
    by (induction xs arbitrary: d) (simp_all add: SetDirty_def)
  then show ?thesis by (simp add: clear_material_flags_def Finalize_def)
qed

lemma UpdateCamera_Inr:
  assumes "UpdateCamera w scene out d = Inr (out', d')"
  shows "\<exists>cam. GetCamera scene = Some cam \<and> d' = d(cam := False)
           \<and> out' = out\<lparr>camera_type := camera_type out', camera := camera out'\<rparr>"
  using assms by (auto simp: UpdateCamera_def SetDirty_def split: option.splits)

lemma UpdateCamera_no_camera:
  "GetCamera scene = None \<Longrightarrow> UpdateCamera w scene out d = Inl NullDereference"
  by (simp add: UpdateCamera_def)

lemma UpdateLights_effect:
  assumes "UpdateLights ctx w scene tc (out, d) = (out', d')"
  shows "out' = out\<lparr>lights := lights out', envmapidx := envmapidx out', num_lights := num_lights out'\<rparr>"
    and "d' p = (if p \<in> set (CreateLightIterator scene) then False else d p)"
proof -
  obtain buf0 n' buf' env' d'' where r:
    "write_lights w scene tc (CreateLightIterator scene) (0, buf0, - 1, d) = (n', buf', env', d'')"
    "UpdateLights ctx w scene tc (out, d)
        = (out\<lparr>lights := buf', envmapidx := env', num_lights := static_cast_int n'\<rparr>, d'')"
    using UpdateLights_run [of scene w tc d ctx out] by blast
  from r(2) assms have o: "out' = out\<lparr>lights := buf', envmapidx := env', num_lights := static_cast_int n'\<rparr>"
    and d: "d' = d''" by simp_all
  show "out' = out\<lparr>lights := lights out', envmapidx := envmapidx out', num_lights := num_lights out'\<rparr>"
    by (simp add: o)
  show "d' p = (if p \<in> set (CreateLightIterator scene) then False else d p)"
    using write_lights_basic [OF r(1)] d by simp
qed

lemma WriteMaterial_dirty:
  "WriteMaterial w material mc tc data d = (Inr (clw, d') :: 'e failure + clw_material \<times> dirty_bits)
     \<Longrightarrow> d' = d(material := False)"
  by (auto simp: WriteMaterial_def Let_def SetDirty_def split: sum.splits)

lemma write_materials_dirty:
  "write_materials w mc tc ms n buf d = (Inr (buf', d') :: 'e failure + clw_material list \<times> dirty_bits) \<Longrightarrow>
   d' p = (if p \<in> set ms then False else d p)"
proof (induction ms arbitrary: n buf d)
  case Nil
  then show ?case by simp
next
  case (Cons m ms)
  show ?case
  proof (cases "WriteMaterial w m mc tc (buf ! n) d :: 'e failure + clw_material \<times> dirty_bits")
    case (Inl e)
    then show ?thesis using Cons.prems by simp
  next
    case (Inr r)
    obtain clw d1 where r: "r = (clw, d1)" by (cases r)
    have run: "write_materials w mc tc ms (n + 1) (buf[n := clw]) d1
                 = (Inr (buf', d') :: 'e failure + clw_material list \<times> dirty_bits)"
      using Cons.prems Inr r by simp
    from Cons.IH [OF run] WriteMaterial_dirty [OF Inr [unfolded r]] show ?thesis by simp
  qed
qed

lemma UpdateMaterials_Inr:
  assumes "UpdateMaterials ctx w mc tc out d = (Inr (out', d') :: 'e failure + clw_scene \<times> dirty_bits)"
  shows "out' = out\<lparr>materials := materials out', material_bundle := material_bundle out'\<rparr>"
    and "d' p = (if p \<in> set (c_items mc) then False else d p)"
proof -
  define out2 where "out2 = (if GetNumItems mc > length (materials out)
                  then out\<lparr>materials := CreateBuffer (fresh_material ctx) (GetNumItems mc)\<rparr>
                  else out)\<lparr>material_bundle := Some (CreateBundle mc)\<rparr>"
  have eq: "(UpdateMaterials ctx w mc tc out d :: 'e failure + clw_scene \<times> dirty_bits)
      = (case write_materials w mc tc (CreateIterator mc) 0 (materials out2) d of
           Inl e \<Rightarrow> Inl e
         | Inr (buf, d1) \<Rightarrow> Inr (out2\<lparr>materials := buf\<rparr>, d1))"
    unfolding UpdateMaterials_def Let_def out2_def by simp
  obtain buf where
    r: "write_materials w mc tc (CreateIterator mc) 0 (materials out2) d
          = (Inr (buf, d') :: 'e failure + clw_material list \<times> dirty_bits)"
    and o: "out' = out2\<lparr>materials := buf\<rparr>"
  proof (cases "write_materials w mc tc (CreateIterator mc) 0 (materials out2) d
                  :: 'e failure + clw_material list \<times> dirty_bits")
    case (Inl e)
    then show ?thesis using assms eq by simp
  next
    case (Inr r)
    obtain buf d1 where "r = (buf, d1)" by (cases r)
    then show ?thesis using that Inr assms eq by simp
  qed
  show "out' = out\<lparr>materials := materials out', material_bundle := material_bundle out'\<rparr>"
    by (simp add: o out2_def)
  show "d' p = (if p \<in> set (c_items mc) then False else d p)"
    using write_materials_dirty [OF r] by (simp add: CreateIterator_def)
qed

lemma UpdateTextures_frame:
  "UpdateTextures ctx w tc out
     = out\<lparr>textures := textures (UpdateTextures ctx w tc out),
           texturedata := texturedata (UpdateTextures ctx w tc out),
           texture_bundle := texture_bundle (UpdateTextures ctx w tc out)\<rparr>"
  by (simp add: UpdateTextures_def Let_def split: prod.splits)


lemma UpdateIntersector_Inl:
  assumes "UpdateIntersector w scene (out, a) = Inl e"
  shows "CreateShapeIterator scene = []"
  using assms by (auto simp: UpdateIntersector_def Let_def split: if_splits prod.splits)

lemma UpdateShapes_effect:
  assumes sp: "SplitMeshesAndInstances w (CreateShapeIterator scene) = (ms, is, ex)"
    and run: "UpdateShapes ctx w dm scene mc out d = (out', d')"
  shows "out' = out\<lparr>vertices := vertices out', normals := normals out', uvs := uvs out',
                    indices := indices out', shapes := shapes out', materialids := materialids out'\<rparr>"
    and "d' p = (if p \<in> set (ms @ ex @ is) then False else d p)"
proof -
  obtain out'' d'' where r: "UpdateShapes ctx w dm scene mc out d = (out'', d'')"
    "out'' = out\<lparr>vertices := vertices out'', normals := normals out'', uvs := uvs out'',
                    indices := indices out'', shapes := shapes out'', materialids := materialids out''\<rparr>"
    "\<forall>p. d'' p = (if p \<in> set (ms @ ex @ is) then False else d p)"
    using UpdateShapes_result [OF sp refl refl refl, of ctx dm mc out d] by blast
  from r(1) run have "out'' = out'" "d'' = d'" by simp_all
  with r(2,3) show "out' = out\<lparr>vertices := vertices out', normals := normals out', uvs := uvs out',
                    indices := indices out', shapes := shapes out', materialids := materialids out'\<rparr>"
    and "d' p = (if p \<in> set (ms @ ex @ is) then False else d p)" by simp_all
qed


subsection \<open>RecompileFull and the first compile of a scene\<close>

lemma and_then_Inr:
  "and_then r f = Inr y \<Longrightarrow> \<exists>v. r = Inr v \<and> f v = Inr y"
  by (cases r) (simp_all add: and_then_def)

lemma collect_frame:
  "collect w scene s = Some s1 \<Longrightarrow>
   s1 = s\<lparr>the_mat_collector := the_mat_collector s1, the_tex_collector := the_tex_collector s1\<rparr>"
  by (auto simp: collect_def split: Option.bind_splits)

lemma RecompileFull_no_camera:
  "GetCamera scene = None \<Longrightarrow>
   RecompileFull ctx w dm scene mc tc out a d = Inl NullDereference"
  by (simp add: RecompileFull_def Let_def and_then_def UpdateCamera_no_camera)

lemma RecompileFull_Inr:
  assumes run: "RecompileFull ctx w dm scene mc tc out a d = Inr (out', a', d')"
    and sp: "SplitMeshesAndInstances (the_shapes w) (CreateShapeIterator scene) = (ms, is, ex)"
  shows "\<exists>cam. GetCamera scene = Some cam
       \<and> (\<forall>p. d' p = (if p = cam \<or> p \<in> set (CreateLightIterator scene) \<or> p \<in> set (ms @ ex @ is)
                          \<or> p \<in> set (c_items mc) then False else d p))"
proof -
  define out2 where "out2 = out\<lparr>isect_shapes := [], camera := CreateBuffer (fresh_camera ctx) 1\<rparr>"
  define rest where "rest = (\<lambda>(out3, d1).
           case UpdateLights ctx w scene tc (out3, d1) of (out4, d2) \<Rightarrow>
           case UpdateShapes ctx (the_shapes w) dm scene mc out4 d2 of
             (out5, d3) \<Rightarrow>
           and_then (UpdateMaterials ctx (the_materials w) mc tc out5 d3)
             (\<lambda>(out6, d4).
                let out7 = UpdateTextures ctx (the_textures w) tc out6 in
                case UpdateIntersector (the_shapes w) scene (out7, delete_shapes (isect_shapes out) a) of
                  Inl e \<Rightarrow> Inl (map_failure (\<lambda>(out8, a2). (out8, a2, d4)) e)
                | Inr (out8, a2) \<Rightarrow> Inr (out8\<lparr>volumes := [default_volume]\<rparr>, a2, d4)))"
  have "and_then (UpdateCamera (the_cameras w) scene out2 d) rest = Inr (out', a', d')"
    using run unfolding RecompileFull_def Let_def out2_def rest_def by simp
  from and_then_Inr [OF this]
  obtain v where v: "UpdateCamera (the_cameras w) scene out2 d
        = (Inr v :: (clw_scene \<times> api \<times> dirty_bits) failure + clw_scene \<times> dirty_bits)"
    "rest v = Inr (out', a', d')"
    by blast
  obtain out3 d1 where v3: "v = (out3, d1)" by (cases v)
  obtain cam where cam: "GetCamera scene = Some cam" "d1 = d(cam := False)"
    using UpdateCamera_Inr [OF v(1) [unfolded v3]] by blast
  obtain out4 d2 where l: "UpdateLights ctx w scene tc (out3, d1) = (out4, d2)"
    by (cases "UpdateLights ctx w scene tc (out3, d1)")
  obtain out5 d3 where sh: "UpdateShapes ctx (the_shapes w) dm scene mc out4 d2 = (out5, d3)"
    by (cases "UpdateShapes ctx (the_shapes w) dm scene mc out4 d2")
  define fin where "fin = (\<lambda>(out6, d4 :: dirty_bits).
                let out7 = UpdateTextures ctx (the_textures w) tc out6 in
                case UpdateIntersector (the_shapes w) scene (out7, delete_shapes (isect_shapes out) a) of
                  Inl e \<Rightarrow> Inl (map_failure (\<lambda>(out8, a2). (out8, a2, d4)) e)
                | Inr (out8, a2) \<Rightarrow> Inr (out8\<lparr>volumes := [default_volume]\<rparr>, a2, d4))"
  have "and_then (UpdateMaterials ctx (the_materials w) mc tc out5 d3) fin = Inr (out', a', d')"
    using v(2) unfolding rest_def v3 fin_def by (simp add: l sh)
  from and_then_Inr [OF this]
  obtain u where u: "UpdateMaterials ctx (the_materials w) mc tc out5 d3
        = (Inr u :: (clw_scene \<times> api \<times> dirty_bits) failure + clw_scene \<times> dirty_bits)"
    "fin u = Inr (out', a', d')"
    by blast
  obtain out6 d4 where u6: "u = (out6, d4)" by (cases u)
  have d4: "d' = d4"
    using u(2) unfolding fin_def u6 by (auto simp: Let_def split: sum.splits)
  have "d' p = (if p = cam \<or> p \<in> set (CreateLightIterator scene) \<or> p \<in> set (ms @ ex @ is)
                          \<or> p \<in> set (c_items mc) then False else d p)" for p
    using UpdateMaterials_Inr(2) [OF u(1) [unfolded u6], of p]
      UpdateShapes_effect(2) [OF sp sh, of p] UpdateLights_effect(2) [OF l, of p] cam(2) d4
    by (auto split: if_splits)
  with cam(1) show ?thesis by blast
qed

lemma first_compile_no_camera:
  "GetCamera scene = None \<Longrightarrow> first_compile w scene_ptr scene s = Inl NullDereference"
  by (simp add: first_compile_def RecompileFull_no_camera)

lemma first_compile_Inr:
  assumes run: "first_compile w scene_ptr scene s = Inr s'"
    and sp: "SplitMeshesAndInstances (the_shapes w) (CreateShapeIterator scene) = (ms, is, ex)"
  shows "\<exists>cam. GetCamera scene = Some cam
       \<and> GetDirtyFlags s' scene_ptr = {}
       \<and> the_mat_collector s' = the_mat_collector s \<and> the_tex_collector s' = the_tex_collector s
       \<and> (\<forall>p. IsDirty s' p = (if p = cam \<or> p \<in> set (CreateLightIterator scene)
                                   \<or> p \<in> set (ms @ ex @ is)
                                   \<or> p \<in> set (c_items (the_mat_collector s))
                                 then False else IsDirty s p))"
proof -
  obtain r where r: "RecompileFull (m_context s) w (m_default_material s) scene
             (the_mat_collector s) (the_tex_collector s) new_ClwScene (m_api s) (IsDirty s) = Inr r"
    using run by (auto simp: first_compile_def split: sum.splits)
  obtain out a d where rr: "r = (out, a, d)" by (cases r)
  have s': "s' = (ClearDirtyFlags scene_ptr
                 (store_scene scene_ptr out
                    (s\<lparr>m_api := ReloadIntersector out a,
                       m_current_scene := Some scene_ptr\<rparr>)))
               \<lparr>IsDirty := clear_material_flags (the_mat_collector s) d\<rparr>"
    using run r rr by (simp add: first_compile_def)
  obtain cam where cam: "GetCamera scene = Some cam"
    "\<forall>p. d p = (if p = cam \<or> p \<in> set (CreateLightIterator scene) \<or> p \<in> set (ms @ ex @ is)
                          \<or> p \<in> set (c_items (the_mat_collector s)) then False else IsDirty s p)"
    using RecompileFull_Inr [OF r [unfolded rr] sp] by blast
  have "IsDirty s' p = (if p = cam \<or> p \<in> set (CreateLightIterator scene)
                                   \<or> p \<in> set (ms @ ex @ is)
                                   \<or> p \<in> set (c_items (the_mat_collector s))
                                 then False else IsDirty s p)" for p
    using cam(2) by (simp add: s' clear_material_flags_apply)
  moreover have "GetDirtyFlags s' scene_ptr = {}"
    by (simp add: s' ClearDirtyFlags_def store_scene_def)
  moreover have "the_mat_collector s' = the_mat_collector s \<and> the_tex_collector s' = the_tex_collector s"
    by (simp add: s' ClearDirtyFlags_def store_scene_def)
  ultimately show ?thesis using cam(1) by blast
qed


subsection \<open>The collecting phase on the example\<close>

lemma drain_Nil: "drain_material_stack w [] mats = Some mats"
  by (subst drain_material_stack.simps) simp

lemma drain_Cons:
  "drain_material_stack w (m # rest) mats
     = drain_material_stack w (rev (CreateMaterialIterator w m) @ rest) (emplace m mats)"
  by (subst drain_material_stack.simps) simp

lemma ex_shape_materials:
  "shape_materials ex_world 11 shape = Some [if shape = 1 \<or> shape = 4 then 10 else 11]"
  by (simp add: shape_materials_def drain_Cons drain_Nil ex_world_def ex_materials_def
      ex_shapes_def material_or_default_def)

lemma ex_material_textures:
  "material_textures ex_world m = Some (if m = 10 then [40] else [])"
  by (simp add: material_textures_def ex_world_def ex_materials_def)

lemma ex_light_textures:
  "light_textures ex_world l = Some (if l = 21 then [41] else if l = 23 then [42] else [])"
  by (simp add: light_textures_def ex_world_def ex_lights_def)

lemma ex_collect:
  assumes "CreateShapeIterator scene = [2, 3, 1, 4]" "CreateLightIterator scene = [20, 21, 22, 23]"
  shows "collect ex_world scene ex_state
     = Some (ex_state\<lparr>the_mat_collector := \<lparr>c_set = [10, 11], c_items = [10, 11], c_outside = (\<lambda>p. - 1)\<rparr>,
                      the_tex_collector := \<lparr>c_set = [40, 41, 42], c_items = [40, 41, 42], c_outside = (\<lambda>p. - 1)\<rparr>\<rparr>)"
  by (simp add: collect_def assms ex_shape_materials ex_material_textures ex_light_textures
      ex_state_def ex_collector_def Clear_def Commit_def CreateIterator_def)

subsection \<open>When the passes succeed\<close>

lemma write_materials_succeeds:
  assumes "\<And>m data d. m \<in> set ms \<Longrightarrow>
             \<exists>r. WriteMaterial w m mc tc data d = (Inr r :: 'e failure + clw_material \<times> dirty_bits)"
  shows "\<exists>r. write_materials w mc tc ms n buf d = (Inr r :: 'e failure + clw_material list \<times> dirty_bits)"
  using assms
proof (induction ms arbitrary: n buf d)
  case Nil
  then show ?case by simp
next
  case (Cons m ms)
  obtain r where r: "WriteMaterial w m mc tc (buf ! n) d = (Inr r :: 'e failure + clw_material \<times> dirty_bits)"
    using Cons.prems [of m "buf ! n" d] by auto
  obtain clw d1 where rr: "r = (clw, d1)" by (cases r)
  have "\<exists>r. write_materials w mc tc ms (n + 1) (buf[n := clw]) d1
              = (Inr r :: 'e failure + clw_material list \<times> dirty_bits)"
    by (rule Cons.IH) (rule Cons.prems, simp)
  then show ?case by (simp add: r rr)
qed

lemma UpdateMaterials_succeeds:
  assumes "\<And>m data d. m \<in> set (c_items mc) \<Longrightarrow>
             \<exists>r. WriteMaterial w m mc tc data d = (Inr r :: 'e failure + clw_material \<times> dirty_bits)"
  shows "\<exists>r. UpdateMaterials ctx w mc tc out d = (Inr r :: 'e failure + clw_scene \<times> dirty_bits)"
proof -
  define out2 where "out2 = (if GetNumItems mc > length (materials out)
                  then out\<lparr>materials := CreateBuffer (fresh_material ctx) (GetNumItems mc)\<rparr>
                  else out)\<lparr>material_bundle := Some (CreateBundle mc)\<rparr>"
  have eq: "(UpdateMaterials ctx w mc tc out d :: 'e failure + clw_scene \<times> dirty_bits)
      = (case write_materials w mc tc (CreateIterator mc) 0 (materials out2) d of
           Inl e \<Rightarrow> Inl e
         | Inr (buf, d1) \<Rightarrow> Inr (out2\<lparr>materials := buf\<rparr>, d1))"
    unfolding UpdateMaterials_def Let_def out2_def by simp
  obtain r where r: "write_materials w mc tc (CreateIterator mc) 0 (materials out2) d
          = (Inr r :: 'e failure + clw_material list \<times> dirty_bits)"
    using write_materials_succeeds [of "CreateIterator mc" w mc tc 0 "materials out2" d] assms
    unfolding CreateIterator_def by blast
  obtain buf d1 where "r = (buf, d1)" by (cases r)
  with r eq show ?thesis by simp
qed

lemma UpdateIntersector_succeeds:
  "CreateShapeIterator scene \<noteq> [] \<Longrightarrow> \<exists>r. UpdateIntersector w scene (out, a) = Inr r"
  by (simp add: UpdateIntersector_def Let_def split: prod.splits)

lemma RecompileFull_succeeds:
  assumes cam: "GetCamera scene = Some cam"
    and shapes: "CreateShapeIterator scene \<noteq> []"
    and mats: "\<And>m data d. m \<in> set (c_items mc) \<Longrightarrow>
             \<exists>r. WriteMaterial (the_materials w) m mc tc data d
                   = (Inr r :: (clw_scene \<times> api \<times> dirty_bits) failure + clw_material \<times> dirty_bits)"
  shows "\<exists>r. RecompileFull ctx w dm scene mc tc out a d = Inr r"
proof -
  define out2 where "out2 = out\<lparr>isect_shapes := [], camera := CreateBuffer (fresh_camera ctx) 1\<rparr>"
  obtain out3 d1 where c: "UpdateCamera (the_cameras w) scene out2 d
        = (Inr (out3, d1) :: (clw_scene \<times> api \<times> dirty_bits) failure + clw_scene \<times> dirty_bits)"
    by (simp add: UpdateCamera_def cam)
  obtain out4 d2 where l: "UpdateLights ctx w scene tc (out3, d1) = (out4, d2)"
    by (cases "UpdateLights ctx w scene tc (out3, d1)")
  obtain out5 d3 where sh: "UpdateShapes ctx (the_shapes w) dm scene mc out4 d2 = (out5, d3)"
    by (cases "UpdateShapes ctx (the_shapes w) dm scene mc out4 d2")
  obtain u where u: "UpdateMaterials ctx (the_materials w) mc tc out5 d3
        = (Inr u :: (clw_scene \<times> api \<times> dirty_bits) failure + clw_scene \<times> dirty_bits)"
    using UpdateMaterials_succeeds [of mc "the_materials w" tc ctx out5 d3] mats by blast
  obtain out6 d4 where u6: "u = (out6, d4)" by (cases u)
  obtain r where i: "UpdateIntersector (the_shapes w) scene
          (UpdateTextures ctx (the_textures w) tc out6, delete_shapes (isect_shapes out) a) = Inr r"
    using UpdateIntersector_succeeds [OF shapes] by blast
  obtain out8 a2 where r8: "r = (out8, a2)" by (cases r)
  have "RecompileFull ctx w dm scene mc tc out a d = Inr (out8\<lparr>volumes := [default_volume]\<rparr>, a2, d4)"
    unfolding RecompileFull_def Let_def out2_def [symmetric]
    by (simp add: c and_then_def l sh u u6 i r8)
  then show ?thesis by blast
qed

lemma first_compile_succeeds:
  assumes cam: "GetCamera scene = Some cam"
    and shapes: "CreateShapeIterator scene \<noteq> []"
    and mats: "\<And>m data d. m \<in> set (c_items (the_mat_collector s)) \<Longrightarrow>
             \<exists>r. WriteMaterial (the_materials w) m (the_mat_collector s) (the_tex_collector s) data d
                   = (Inr r :: (clw_scene \<times> api \<times> dirty_bits) failure + clw_material \<times> dirty_bits)"
  shows "\<exists>s'. first_compile w scene_ptr scene s = Inr s'"
proof -
  obtain r where r: "RecompileFull (m_context s) w (m_default_material s) scene
             (the_mat_collector s) (the_tex_collector s) new_ClwScene (m_api s) (IsDirty s) = Inr r"
    using RecompileFull_succeeds [OF cam shapes mats] by blast
  obtain out a d where "r = (out, a, d)" by (cases r)
  with r show ?thesis by (simp add: first_compile_def)
qed

lemma ex_WriteMaterial_succeeds:
  assumes "m = 10 \<or> m = 11"
  shows "\<exists>r. WriteMaterial ex_materials m mc tc data d = (Inr r :: 'e failure + clw_material \<times> dirty_bits)"
  using assms
  by (auto simp: WriteMaterial_def GetMaterialType_def ex_materials_def ex_inputs_def
      case_Microfacet_def case_Lambert_def Let_def)

subsection \<open>The first compile of the example scenes\<close>

lemma ex_scene_iterators:
  "CreateShapeIterator (the_scenes ex_world p) = [2, 3, 1, 4]"
  "CreateLightIterator (the_scenes ex_world p) = [20, 21, 22, 23]"
  by (simp_all add: ex_world_def ex_scene_def)

lemma ex_CompileScene_first:
  "CompileScene ex_world p ex_state
     = Some (first_compile ex_world p (the_scenes ex_world p)
               (ex_state\<lparr>the_mat_collector := \<lparr>c_set = [10, 11], c_items = [10, 11], c_outside = (\<lambda>p. - 1)\<rparr>,
                         the_tex_collector := \<lparr>c_set = [40, 41, 42], c_items = [40, 41, 42], c_outside = (\<lambda>p. - 1)\<rparr>\<rparr>))"
  unfolding CompileScene_def ex_collect [OF ex_scene_iterators]
  by (simp add: ex_state_def)

text \<open>
  Claim C3, on the first compile of a scene. The scene at address 101 has shapes and lights
  and no camera, and the tracker has not compiled it yet. \<^verbatim>\<open>CompileScene\<close> takes the branch
  of a scene the cache does not hold, which tests nothing and calls \<^verbatim>\<open>RecompileFull\<close>;
  \<^verbatim>\<open>UpdateCamera\<close> reads through the null camera pointer. The call does not fail with the
  runtime error "No camera in the scene"; that test is in the branch of a cached scene
  only.
\<close>

theorem first_compile_without_camera:
  "CompileScene ex_world 101 ex_state = Some (Inl NullDereference)"
  unfolding ex_CompileScene_first
  by (simp add: first_compile_no_camera ex_world_def)

text \<open>
  Claim C1, for textures. The scene at address 100 is compiled for the first time while
  texture 40 is dirty. The call returns, the dirty flags of the scene are empty, texture
  40 is among the collected textures, and it is still dirty: no path of the tracker clears
  the dirty bit of a texture, as the paths of the camera, the lights, the shapes and the
  materials do.
\<close>

theorem collected_texture_stays_dirty:
  "\<exists>s. CompileScene ex_world 100 ex_state = Some (Inr s)
      \<and> GetDirtyFlags s 100 = {}
      \<and> 40 \<in> set (c_items (the_tex_collector s))
      \<and> IsDirty s 40"
proof -
  define s1 where "s1 = ex_state\<lparr>the_mat_collector := \<lparr>c_set = [10, 11], c_items = [10, 11], c_outside = (\<lambda>p. - 1)\<rparr>,
                         the_tex_collector := \<lparr>c_set = [40, 41, 42], c_items = [40, 41, 42], c_outside = (\<lambda>p. - 1)\<rparr>\<rparr>"
  have scene: "the_scenes ex_world 100 = ex_scene" by (simp add: ex_world_def)
  have cam: "GetCamera ex_scene = Some 30" by (simp add: ex_scene_def)
  have shapes: "CreateShapeIterator ex_scene \<noteq> []" by (simp add: ex_scene_def)
  have mats: "\<exists>r. WriteMaterial (the_materials ex_world) m (the_mat_collector s1) (the_tex_collector s1) data d
                   = (Inr r :: (clw_scene \<times> api \<times> dirty_bits) failure + clw_material \<times> dirty_bits)"
    if "m \<in> set (c_items (the_mat_collector s1))" for m data d
  proof -
    have "m = 10 \<or> m = 11" using that by (simp add: s1_def)
    from ex_WriteMaterial_succeeds [OF this] show ?thesis by (simp add: ex_world_def)
  qed
  obtain s where s: "first_compile ex_world 100 ex_scene s1 = Inr s"
    using first_compile_succeeds [OF cam shapes mats] by blast
  have sp: "SplitMeshesAndInstances (the_shapes ex_world) (CreateShapeIterator ex_scene) = ([1, 2], [3, 4], [5])"
    using ex_split_scene by (simp add: ex_world_def)
  obtain c where c: "GetCamera ex_scene = Some c" "GetDirtyFlags s 100 = {}"
    "the_tex_collector s = the_tex_collector s1"
    "\<forall>p. IsDirty s p = (if p = c \<or> p \<in> set (CreateLightIterator ex_scene)
                                   \<or> p \<in> set ([1, 2] @ [5] @ [3, 4])
                                   \<or> p \<in> set (c_items (the_mat_collector s1))
                                 then False else IsDirty s1 p)"
    using first_compile_Inr [OF s sp] by blast
  have "c = 30" using c(1) cam by simp
  have "IsDirty s 40" using c(4) [rule_format, of 40] \<open>c = 30\<close>
    by (simp add: ex_scene_def s1_def ex_state_def)
  moreover have "40 \<in> set (c_items (the_tex_collector s))" by (simp add: c(3) s1_def)
  moreover have "CompileScene ex_world 100 ex_state = Some (Inr s)"
    unfolding ex_CompileScene_first scene s1_def [symmetric] s ..
  ultimately show ?thesis using c(2) by blast
qed


subsection \<open>The blocks of a compile of a cached scene\<close>



lemma lights_block_Inr:
  "lights_block w scene_ptr scene dirty out s = Inr r \<Longrightarrow> CreateLightIterator scene \<noteq> []"
  by (auto simp: lights_block_def)


lemma materials_block_Inr:
  assumes "materials_block w out s = Inr (out', s')"
  shows "out' = out\<lparr>materials := materials out', material_bundle := material_bundle out'\<rparr>"
    and "s' = s\<lparr>IsDirty := IsDirty s'\<rparr>"
    and "IsDirty s' p \<Longrightarrow> IsDirty s p"
proof -
  have "out' = out\<lparr>materials := materials out', material_bundle := material_bundle out'\<rparr>
      \<and> s' = s\<lparr>IsDirty := IsDirty s'\<rparr> \<and> (IsDirty s' p \<longrightarrow> IsDirty s p)"
  proof (cases "case material_bundle out of None \<Rightarrow> True
                | Some bundle \<Rightarrow> NeedsUpdate (the_mat_collector s) bundle (IsDirty s)")
    case False
    then show ?thesis using assms by (simp add: materials_block_def)
  next
    case True
    then have "and_then (UpdateMaterials (m_context s) (the_materials w) (the_mat_collector s)
                       (the_tex_collector s) out (IsDirty s))
             (\<lambda>(out1, d1). Inr (out1, s\<lparr>IsDirty := d1\<rparr>)) = (Inr (out', s') :: state failure + clw_scene \<times> state)"
      using assms by (simp add: materials_block_def)
    from and_then_Inr [OF this]
    obtain v where v: "UpdateMaterials (m_context s) (the_materials w) (the_mat_collector s)
                       (the_tex_collector s) out (IsDirty s)
                        = (Inr v :: state failure + clw_scene \<times> dirty_bits)"
      "(\<lambda>(out1, d1). Inr (out1, s\<lparr>IsDirty := d1\<rparr>)) v = (Inr (out', s') :: state failure + clw_scene \<times> state)"
      by blast
    obtain o1 d1 where v1: "v = (o1, d1)" by (cases v)
    from v(2) have e: "out' = o1" "s' = s\<lparr>IsDirty := d1\<rparr>" by (simp_all add: v1)
    from UpdateMaterials_Inr [OF v(1) [unfolded v1]] e show ?thesis
      by (auto split: if_splits)
  qed
  then show "out' = out\<lparr>materials := materials out', material_bundle := material_bundle out'\<rparr>"
    and "s' = s\<lparr>IsDirty := IsDirty s'\<rparr>"
    and "IsDirty s' p \<Longrightarrow> IsDirty s p" by simp_all
qed

lemma textures_block_frame:
  assumes "textures_block w out s = (out', s')"
  shows "s' = s"
    and "out' = out\<lparr>textures := textures out', texturedata := texturedata out',
                      texture_bundle := texture_bundle out'\<rparr>"
proof -
  show "s' = s" using assms by (auto simp: textures_block_def split: if_splits)
  show "out' = out\<lparr>textures := textures out', texturedata := texturedata out',
                      texture_bundle := texture_bundle out'\<rparr>"
  proof (cases "out' = out")
    case True
    then show ?thesis by simp
  next
    case False
    then have "out' = UpdateTextures (m_context s) (the_textures w) (the_tex_collector s) out"
      using assms by (auto simp: textures_block_def split: if_splits)
    then show ?thesis using UpdateTextures_frame [of "m_context s" "the_textures w" "the_tex_collector s" out]
      by simp
  qed
qed

lemma finish_block_fields:
  "m_scene_cache (finish_block scene_ptr out s) scene_ptr = Some out"
  "the_mat_collector (finish_block scene_ptr out s) = the_mat_collector s"
  "the_tex_collector (finish_block scene_ptr out s) = the_tex_collector s"
  "GetDirtyFlags (finish_block scene_ptr out s) scene_ptr = {}"
  "IsDirty (finish_block scene_ptr out s) p
     = (if p \<in> set (c_items (the_mat_collector s)) then False else IsDirty s p)"
  by (simp_all add: finish_block_def Let_def store_scene_def ClearDirtyFlags_def
      clear_material_flags_apply)


subsection \<open>A compile of a cached scene with the shapes flag\<close>




lemma CompileScene_cached:
  assumes "CompileScene w scene_ptr s0 = Some r" and "m_scene_cache s0 scene_ptr = Some out"
  shows "\<exists>s. collect w (the_scenes w scene_ptr) s0 = Some s
           \<and> r = cached_compile w scene_ptr (the_scenes w scene_ptr) out s"
proof -
  obtain s where s: "collect w (the_scenes w scene_ptr) s0 = Some s"
    using assms(1) by (auto simp: CompileScene_def split: Option.bind_splits)
  have "m_scene_cache s = m_scene_cache s0"
    by (subst collect_frame [OF s]) simp
  with assms s show ?thesis by (simp add: CompileScene_def)
qed

lemma collect_fields:
  assumes "collect w scene s0 = Some s"
  shows "m_scene_cache s = m_scene_cache s0" "IsDirty s = IsDirty s0"
    "GetDirtyFlags s = GetDirtyFlags s0" "m_api s = m_api s0" "m_context s = m_context s0"
    "m_default_material s = m_default_material s0" "m_current_scene s = m_current_scene s0"
  by (subst collect_frame [OF assms], simp)+


subsection \<open>The dirty bits after a compile\<close>

lemma camera_block_Inr:
  assumes "camera_block w scene_ptr scene dirty out s = Inr (out', s')"
  shows "\<exists>cam. GetCamera scene = Some cam \<and> \<not> IsDirty s' cam"
    and "s' = s\<lparr>IsDirty := IsDirty s'\<rparr>"
    and "IsDirty s' p \<Longrightarrow> IsDirty s p"
proof -
  obtain cam where cam: "GetCamera scene = Some cam"
    using assms by (cases "GetCamera scene") (simp_all add: camera_block_def)
  have "\<not> IsDirty s' cam \<and> s' = s\<lparr>IsDirty := IsDirty s'\<rparr> \<and> (IsDirty s' p \<longrightarrow> IsDirty s p)"
  proof (cases "kCamera \<in> dirty \<or> IsDirty s cam")
    case False
    then show ?thesis using assms cam by (simp add: camera_block_def)
  next
    case True
    then have "and_then (UpdateCamera (the_cameras w) scene out (IsDirty s))
                 (\<lambda>(out1, d1). Inr (out1, s\<lparr>IsDirty := d1\<rparr>))
                 = (Inr (out', s') :: state failure + clw_scene \<times> state)"
      using assms cam by (simp add: camera_block_def)
    from and_then_Inr [OF this]
    obtain v where v: "UpdateCamera (the_cameras w) scene out (IsDirty s)
                        = (Inr v :: state failure + clw_scene \<times> dirty_bits)"
      "(\<lambda>(out1, d1). Inr (out1, s\<lparr>IsDirty := d1\<rparr>)) v = (Inr (out', s') :: state failure + clw_scene \<times> state)"
      by blast
    obtain o1 d1 where v1: "v = (o1, d1)" by (cases v)
    from v(2) have e: "s' = s\<lparr>IsDirty := d1\<rparr>" by (simp add: v1)
    from UpdateCamera_Inr [OF v(1) [unfolded v1]] cam have "d1 = (IsDirty s)(cam := False)" by auto
    with e show ?thesis by (auto split: if_splits)
  qed
  with cam show "\<exists>cam. GetCamera scene = Some cam \<and> \<not> IsDirty s' cam"
    and "s' = s\<lparr>IsDirty := IsDirty s'\<rparr>"
    and "IsDirty s' p \<Longrightarrow> IsDirty s p" by simp_all
qed

lemma lights_block_dirty:
  assumes "lights_block w scene_ptr scene dirty out s = Inr (out', s')"
  shows "\<forall>l \<in> set (CreateLightIterator scene). \<not> IsDirty s' l"
    and "s' = s\<lparr>IsDirty := IsDirty s'\<rparr>"
    and "IsDirty s' p \<Longrightarrow> IsDirty s p"
proof -
  have ne: "CreateLightIterator scene \<noteq> []" using assms by (rule lights_block_Inr)
  have "(\<forall>l \<in> set (CreateLightIterator scene). \<not> IsDirty s' l)
      \<and> s' = s\<lparr>IsDirty := IsDirty s'\<rparr> \<and> (IsDirty s' p \<longrightarrow> IsDirty s p)"
  proof (cases "kLights \<in> dirty \<or> list_ex (IsDirty s) (CreateLightIterator scene)")
    case False
    then have "s' = s" using assms ne by (simp add: lights_block_def)
    with False show ?thesis by (simp add: list_ex_iff)
  next
    case True
    obtain o1 d1 where l: "UpdateLights (m_context s) w scene (the_tex_collector s) (out, IsDirty s) = (o1, d1)"
      by (cases "UpdateLights (m_context s) w scene (the_tex_collector s) (out, IsDirty s)")
    have e: "s' = s\<lparr>IsDirty := d1\<rparr>"
      using assms ne True by (simp add: lights_block_def l)
    from UpdateLights_effect(2) [OF l] e show ?thesis by (auto split: if_splits)
  qed
  then show "\<forall>l \<in> set (CreateLightIterator scene). \<not> IsDirty s' l"
    and "s' = s\<lparr>IsDirty := IsDirty s'\<rparr>"
    and "IsDirty s' p \<Longrightarrow> IsDirty s p" by simp_all
qed

lemma iterator_shapes_split:
  assumes "SplitMeshesAndInstances w it = (ms, is, ex)"
  shows "set it \<subseteq> set (ms @ ex @ is)"
  using SplitMeshesAndInstances_props(2,4) [OF assms] by auto

lemma shapes_block_dirty:
  assumes "shapes_block w scene_ptr scene dirty out s = Inr (out', s')"
  shows "\<forall>p \<in> set (CreateShapeIterator scene). \<not> IsDirty s' p"
    and "s' = s\<lparr>IsDirty := IsDirty s', m_api := m_api s'\<rparr>"
    and "IsDirty s' p \<Longrightarrow> IsDirty s p"
proof -
  have ne: "CreateShapeIterator scene \<noteq> []"
    using assms by (auto simp: shapes_block_def)
  have "(\<forall>p \<in> set (CreateShapeIterator scene). \<not> IsDirty s' p)
      \<and> s' = s\<lparr>IsDirty := IsDirty s', m_api := m_api s'\<rparr> \<and> (IsDirty s' p \<longrightarrow> IsDirty s p)"
  proof (cases "kShapes \<in> dirty \<or> list_ex (IsDirty s) (CreateShapeIterator scene)")
    case False
    then have "s' = s" using assms ne by (simp add: shapes_block_def)
    with False show ?thesis by (simp add: list_ex_iff)
  next
    case True
    obtain o1 d1 where sh: "UpdateShapes (m_context s) (the_shapes w) (m_default_material s) scene
                   (the_mat_collector s) out (IsDirty s) = (o1, d1)"
      by (cases "UpdateShapes (m_context s) (the_shapes w) (m_default_material s) scene
                   (the_mat_collector s) out (IsDirty s)")
    obtain ms "is" ex where sp:
      "SplitMeshesAndInstances (the_shapes w) (CreateShapeIterator scene) = (ms, is, ex)"
      by (cases "SplitMeshesAndInstances (the_shapes w) (CreateShapeIterator scene)")
    have e: "\<exists>a. s' = s\<lparr>IsDirty := d1, m_api := a\<rparr>"
      using assms ne True by (auto simp: shapes_block_def sh split: sum.splits)
    from UpdateShapes_effect(2) [OF sp sh] iterator_shapes_split [OF sp] e show ?thesis
      by (auto split: if_splits)
  qed
  then show "\<forall>p \<in> set (CreateShapeIterator scene). \<not> IsDirty s' p"
    and "s' = s\<lparr>IsDirty := IsDirty s', m_api := m_api s'\<rparr>"
    and "IsDirty s' p \<Longrightarrow> IsDirty s p" by simp_all
qed

lemma cached_compile_dirty:
  assumes run: "cached_compile w scene_ptr scene out s = Inr s'"
  shows "GetDirtyFlags s' scene_ptr = {}"
    and "\<exists>cam. GetCamera scene = Some cam \<and> \<not> IsDirty s' cam"
    and "\<forall>l \<in> set (CreateLightIterator scene). \<not> IsDirty s' l"
    and "\<forall>p \<in> set (CreateShapeIterator scene). \<not> IsDirty s' p"
    and "\<forall>m \<in> set (c_items (the_mat_collector s')). \<not> IsDirty s' m"
    and "the_mat_collector s' = the_mat_collector s"
    and "the_tex_collector s' = the_tex_collector s"
    and "IsDirty s' p \<Longrightarrow> IsDirty s p"
proof -
  define dirty where "dirty = GetDirtyFlags s scene_ptr"
  have run0: "and_then (camera_block w scene_ptr scene dirty out s) (\<lambda>(out1, s1).
      and_then (lights_block w scene_ptr scene dirty out1 s1) (\<lambda>(out2, s2).
      and_then (shapes_block w scene_ptr scene dirty out2 s2) (\<lambda>(out3, s3).
      and_then (materials_block w out3 s3) (\<lambda>(out4, s4).
      case textures_block w out4 s4 of (out5, s5) \<Rightarrow>
        Inr (finish_block scene_ptr out5 s5))))) = Inr s'"
    using run unfolding cached_compile_def Let_def dirty_def by simp
  from and_then_Inr [OF run0] obtain v1 where
    v1: "camera_block w scene_ptr scene dirty out s = Inr v1"
    and run1: "(\<lambda>(out1, s1).
      and_then (lights_block w scene_ptr scene dirty out1 s1) (\<lambda>(out2, s2).
      and_then (shapes_block w scene_ptr scene dirty out2 s2) (\<lambda>(out3, s3).
      and_then (materials_block w out3 s3) (\<lambda>(out4, s4).
      case textures_block w out4 s4 of (out5, s5) \<Rightarrow>
        Inr (finish_block scene_ptr out5 s5))))) v1 = Inr s'"
    by blast
  obtain out1 s1 where v1': "v1 = (out1, s1)" by (cases v1)
  have run1': "and_then (lights_block w scene_ptr scene dirty out1 s1) (\<lambda>(out2, s2).
      and_then (shapes_block w scene_ptr scene dirty out2 s2) (\<lambda>(out3, s3).
      and_then (materials_block w out3 s3) (\<lambda>(out4, s4).
      case textures_block w out4 s4 of (out5, s5) \<Rightarrow>
        Inr (finish_block scene_ptr out5 s5)))) = Inr s'"
    using run1 unfolding v1' by simp
  from and_then_Inr [OF run1'] obtain v2 where
    v2: "lights_block w scene_ptr scene dirty out1 s1 = Inr v2"
    and run2: "(\<lambda>(out2, s2).
      and_then (shapes_block w scene_ptr scene dirty out2 s2) (\<lambda>(out3, s3).
      and_then (materials_block w out3 s3) (\<lambda>(out4, s4).
      case textures_block w out4 s4 of (out5, s5) \<Rightarrow>
        Inr (finish_block scene_ptr out5 s5)))) v2 = Inr s'"
    by blast
  obtain out2 s2 where v2': "v2 = (out2, s2)" by (cases v2)
  have run2': "and_then (shapes_block w scene_ptr scene dirty out2 s2) (\<lambda>(out3, s3).
      and_then (materials_block w out3 s3) (\<lambda>(out4, s4).
      case textures_block w out4 s4 of (out5, s5) \<Rightarrow>
        Inr (finish_block scene_ptr out5 s5))) = Inr s'"
    using run2 unfolding v2' by simp
  from and_then_Inr [OF run2'] obtain v3 where
    v3: "shapes_block w scene_ptr scene dirty out2 s2 = Inr v3"
    and run3: "(\<lambda>(out3, s3).
      and_then (materials_block w out3 s3) (\<lambda>(out4, s4).
      case textures_block w out4 s4 of (out5, s5) \<Rightarrow>
        Inr (finish_block scene_ptr out5 s5))) v3 = Inr s'"
    by blast
  obtain out3 s3 where v3': "v3 = (out3, s3)" by (cases v3)
  have run3': "and_then (materials_block w out3 s3) (\<lambda>(out4, s4).
      case textures_block w out4 s4 of (out5, s5) \<Rightarrow>
        Inr (finish_block scene_ptr out5 s5)) = Inr s'"
    using run3 unfolding v3' by simp
  from and_then_Inr [OF run3'] obtain v4 where
    v4: "materials_block w out3 s3 = Inr v4"
    and run4: "(\<lambda>(out4, s4).
      case textures_block w out4 s4 of (out5, s5) \<Rightarrow>
        Inr (finish_block scene_ptr out5 s5)) v4 = (Inr s' :: state failure + state)"
    by blast
  obtain out4 s4 where v4': "v4 = (out4, s4)" by (cases v4)
  obtain out5 s5 where t: "textures_block w out4 s4 = (out5, s5)"
    by (cases "textures_block w out4 s4")
  have s': "s' = finish_block scene_ptr out5 s5"
    using run4 unfolding v4' by (simp add: t)
  note cb = camera_block_Inr [OF v1 [unfolded v1']]
  note lb = lights_block_dirty [OF v2 [unfolded v2']]
  note sb = shapes_block_dirty [OF v3 [unfolded v3']]
  note mb = materials_block_Inr(2,3) [OF v4 [unfolded v4']]
  note tf = textures_block_frame(1) [OF t]
  have mc5: "the_mat_collector s5 = the_mat_collector s"
    unfolding tf
    by (subst mb(1), simp, subst sb(2), simp, subst lb(2), simp, subst cb(2), simp)
  have tc5: "the_tex_collector s5 = the_tex_collector s"
    unfolding tf
    by (subst mb(1), simp, subst sb(2), simp, subst lb(2), simp, subst cb(2), simp)
  have mono5: "IsDirty s5 q \<Longrightarrow> IsDirty s4 q" for q by (simp add: tf)
  have d': "IsDirty s' q = (if q \<in> set (c_items (the_mat_collector s)) then False else IsDirty s4 q)" for q
    unfolding s' finish_block_fields mc5 by (simp add: tf)
  show "GetDirtyFlags s' scene_ptr = {}" unfolding s' by (rule finish_block_fields)
  show "the_mat_collector s' = the_mat_collector s" unfolding s' finish_block_fields by (rule mc5)
  show "the_tex_collector s' = the_tex_collector s" unfolding s' finish_block_fields by (rule tc5)
  show "\<forall>m \<in> set (c_items (the_mat_collector s')). \<not> IsDirty s' m"
    unfolding \<open>the_mat_collector s' = the_mat_collector s\<close> by (simp add: d')
  have down: "IsDirty s' q \<Longrightarrow> IsDirty s3 q" for q
    using mb(2) [of q] by (simp add: d' split: if_splits)
  show "\<forall>p \<in> set (CreateShapeIterator scene). \<not> IsDirty s' p"
    using sb(1) down by blast
  show "\<forall>l \<in> set (CreateLightIterator scene). \<not> IsDirty s' l"
    using lb(1) sb(3) down by blast
  show "\<exists>cam. GetCamera scene = Some cam \<and> \<not> IsDirty s' cam"
    using cb(1) lb(3) sb(3) down by blast
  show "IsDirty s' p \<Longrightarrow> IsDirty s p"
    using cb(3) lb(3) sb(3) down by blast
qed


subsection \<open>What the mesh loops write\<close>

lemma copy_eq:
  "off + length xs \<le> length dst \<Longrightarrow>
   copy xs off dst = take off dst @ xs @ drop (off + length xs) dst"
proof (induction xs arbitrary: off dst)
  case Nil
  then show ?case by simp
next
  case (Cons x xs)
  have off: "off < length dst" using Cons.prems by simp
  have "copy (x # xs) off dst = copy xs (Suc off) (dst[off := x])" by simp
  also have "\<dots> = take (Suc off) (dst[off := x]) @ xs @ drop (Suc off + length xs) (dst[off := x])"
    using Cons.prems by (intro Cons.IH) simp
  also have "take (Suc off) (dst[off := x]) = take off dst @ [x]"
    using off by (simp add: take_Suc_conv_app_nth)
  also have "drop (Suc off + length xs) (dst[off := x]) = drop (off + length (x # xs)) dst"
    by simp
  finally show ?case by simp
qed

lemma meshes_num_normals_written:
  "num_normals_written (fold (\<lambda>m. serialize_mesh w m (f m)) xs s)
     = num_normals_written s + sum_list (map (GetNumNormals w) xs)"
  by (induction xs arbitrary: s) simp_all

lemma meshes_num_uvs_written:
  "num_uvs_written (fold (\<lambda>m. serialize_mesh w m (f m)) xs s)
     = num_uvs_written s + sum_list (map (GetNumUVs w) xs)"
  by (induction xs arbitrary: s) simp_all

lemma pool_step:
  assumes "n + length V + k \<le> length pv"
  shows "take (n + length V) (copy V n pv) @ ys @ drop (n + length V + k) (copy V n pv)
       = take n pv @ (V @ ys) @ drop (n + (length V + k)) pv"
proof -
  have c: "copy V n pv = take n pv @ V @ drop (n + length V) pv"
    using assms by (intro copy_eq) simp
  have n: "n \<le> length pv" using assms by simp
  have 1: "take (n + length V) (copy V n pv) = take n pv @ V"
    unfolding c using n by simp
  have 2: "drop (n + length V + k) (copy V n pv) = drop (n + (length V + k)) pv"
    unfolding c using n by (simp add: ac_simps)
  show ?thesis by (simp add: 1 2)
qed

lemma meshes_vertices:
  "num_vertices_written s + sum_list (map (GetNumVertices w) xs) \<le> length (p_vertices s) \<Longrightarrow>
   p_vertices (fold (\<lambda>m. serialize_mesh w m (f m)) xs s)
     = take (num_vertices_written s) (p_vertices s) @ concat (map (GetVertices w) xs)
       @ drop (num_vertices_written s + sum_list (map (GetNumVertices w) xs)) (p_vertices s)"
proof (induction xs arbitrary: s)
  case Nil
  then show ?case by simp
next
  case (Cons x xs)
  define s1 where "s1 = serialize_mesh w x (f x) s"
  have pv: "p_vertices s1 = copy (GetVertices w x) (num_vertices_written s) (p_vertices s)"
    and nv: "num_vertices_written s1 = num_vertices_written s + length (GetVertices w x)"
    by (simp_all add: s1_def serialize_mesh_def Let_def GetNumVertices_def [of w x])
  have b: "num_vertices_written s + length (GetVertices w x) + sum_list (map (GetNumVertices w) xs) \<le> length (p_vertices s)"
    using Cons.prems by (simp add: GetNumVertices_def [of w x])
  have "p_vertices (fold (\<lambda>m. serialize_mesh w m (f m)) xs s1)
     = take (num_vertices_written s1) (p_vertices s1) @ concat (map (GetVertices w) xs)
       @ drop (num_vertices_written s1 + sum_list (map (GetNumVertices w) xs)) (p_vertices s1)"
    using b by (intro Cons.IH) (simp add: pv nv)
  also have "\<dots> = take (num_vertices_written s) (p_vertices s) @ (GetVertices w x @ concat (map (GetVertices w) xs))
       @ drop (num_vertices_written s + (length (GetVertices w x) + sum_list (map (GetNumVertices w) xs))) (p_vertices s)"
    unfolding pv nv by (rule pool_step [OF b])
  finally show ?case by (simp add: s1_def GetNumVertices_def [of w x])
qed

lemma meshes_normals:
  "num_normals_written s + sum_list (map (GetNumNormals w) xs) \<le> length (p_normals s) \<Longrightarrow>
   p_normals (fold (\<lambda>m. serialize_mesh w m (f m)) xs s)
     = take (num_normals_written s) (p_normals s) @ concat (map (GetNormals w) xs)
       @ drop (num_normals_written s + sum_list (map (GetNumNormals w) xs)) (p_normals s)"
proof (induction xs arbitrary: s)
  case Nil
  then show ?case by simp
next
  case (Cons x xs)
  define s1 where "s1 = serialize_mesh w x (f x) s"
  have pv: "p_normals s1 = copy (GetNormals w x) (num_normals_written s) (p_normals s)"
    and nv: "num_normals_written s1 = num_normals_written s + length (GetNormals w x)"
    by (simp_all add: s1_def serialize_mesh_def Let_def GetNumNormals_def [of w x])
  have b: "num_normals_written s + length (GetNormals w x) + sum_list (map (GetNumNormals w) xs) \<le> length (p_normals s)"
    using Cons.prems by (simp add: GetNumNormals_def [of w x])
  have "p_normals (fold (\<lambda>m. serialize_mesh w m (f m)) xs s1)
     = take (num_normals_written s1) (p_normals s1) @ concat (map (GetNormals w) xs)
       @ drop (num_normals_written s1 + sum_list (map (GetNumNormals w) xs)) (p_normals s1)"
    using b by (intro Cons.IH) (simp add: pv nv)
  also have "\<dots> = take (num_normals_written s) (p_normals s) @ (GetNormals w x @ concat (map (GetNormals w) xs))
       @ drop (num_normals_written s + (length (GetNormals w x) + sum_list (map (GetNumNormals w) xs))) (p_normals s)"
    unfolding pv nv by (rule pool_step [OF b])
  finally show ?case by (simp add: s1_def GetNumNormals_def [of w x])
qed

lemma meshes_uvs:
  "num_uvs_written s + sum_list (map (GetNumUVs w) xs) \<le> length (p_uvs s) \<Longrightarrow>
   p_uvs (fold (\<lambda>m. serialize_mesh w m (f m)) xs s)
     = take (num_uvs_written s) (p_uvs s) @ concat (map (GetUVs w) xs)
       @ drop (num_uvs_written s + sum_list (map (GetNumUVs w) xs)) (p_uvs s)"
proof (induction xs arbitrary: s)
  case Nil
  then show ?case by simp
next
  case (Cons x xs)
  define s1 where "s1 = serialize_mesh w x (f x) s"
  have pv: "p_uvs s1 = copy (GetUVs w x) (num_uvs_written s) (p_uvs s)"
    and nv: "num_uvs_written s1 = num_uvs_written s + length (GetUVs w x)"
    by (simp_all add: s1_def serialize_mesh_def Let_def GetNumUVs_def [of w x])
  have b: "num_uvs_written s + length (GetUVs w x) + sum_list (map (GetNumUVs w) xs) \<le> length (p_uvs s)"
    using Cons.prems by (simp add: GetNumUVs_def [of w x])
  have "p_uvs (fold (\<lambda>m. serialize_mesh w m (f m)) xs s1)
     = take (num_uvs_written s1) (p_uvs s1) @ concat (map (GetUVs w) xs)
       @ drop (num_uvs_written s1 + sum_list (map (GetNumUVs w) xs)) (p_uvs s1)"
    using b by (intro Cons.IH) (simp add: pv nv)
  also have "\<dots> = take (num_uvs_written s) (p_uvs s) @ (GetUVs w x @ concat (map (GetUVs w) xs))
       @ drop (num_uvs_written s + (length (GetUVs w x) + sum_list (map (GetNumUVs w) xs))) (p_uvs s)"
    unfolding pv nv by (rule pool_step [OF b])
  finally show ?case by (simp add: s1_def GetNumUVs_def [of w x])
qed

lemma meshes_indices:
  "num_indices_written s + sum_list (map (GetNumIndices w) xs) \<le> length (p_indices s) \<Longrightarrow>
   p_indices (fold (\<lambda>m. serialize_mesh w m (f m)) xs s)
     = take (num_indices_written s) (p_indices s) @ concat (map (GetIndices w) xs)
       @ drop (num_indices_written s + sum_list (map (GetNumIndices w) xs)) (p_indices s)"
proof (induction xs arbitrary: s)
  case Nil
  then show ?case by simp
next
  case (Cons x xs)
  define s1 where "s1 = serialize_mesh w x (f x) s"
  have pv: "p_indices s1 = copy (GetIndices w x) (num_indices_written s) (p_indices s)"
    and nv: "num_indices_written s1 = num_indices_written s + length (GetIndices w x)"
    by (simp_all add: s1_def serialize_mesh_def Let_def GetNumIndices_def [of w x])
  have b: "num_indices_written s + length (GetIndices w x) + sum_list (map (GetNumIndices w) xs) \<le> length (p_indices s)"
    using Cons.prems by (simp add: GetNumIndices_def [of w x])
  have "p_indices (fold (\<lambda>m. serialize_mesh w m (f m)) xs s1)
     = take (num_indices_written s1) (p_indices s1) @ concat (map (GetIndices w) xs)
       @ drop (num_indices_written s1 + sum_list (map (GetNumIndices w) xs)) (p_indices s1)"
    using b by (intro Cons.IH) (simp add: pv nv)
  also have "\<dots> = take (num_indices_written s) (p_indices s) @ (GetIndices w x @ concat (map (GetIndices w) xs))
       @ drop (num_indices_written s + (length (GetIndices w x) + sum_list (map (GetNumIndices w) xs))) (p_indices s)"
    unfolding pv nv by (rule pool_step [OF b])
  finally show ?case by (simp add: s1_def GetNumIndices_def [of w x])
qed

lemma meshes_matids_below:
  "i < num_matids_written s \<Longrightarrow>
   p_matids (fold (\<lambda>m. serialize_mesh w m (f m)) xs s) ! i = p_matids s ! i"
  by (induction xs arbitrary: s) (simp_all add: fill_below)

lemma meshes_matids:
  "j < length xs \<Longrightarrow>
   num_matids_written s + sum_list (map (\<lambda>m. GetNumIndices w m div 3) xs) \<le> length (p_matids s) \<Longrightarrow>
   i < GetNumIndices w (xs ! j) div 3 \<Longrightarrow>
   p_matids (fold (\<lambda>m. serialize_mesh w m (f m)) xs s)
     ! (num_matids_written s + sum_list (map (\<lambda>m. GetNumIndices w m div 3) (take j xs)) + i)
     = f (xs ! j)"
proof (induction xs arbitrary: s j)
  case Nil
  then show ?case by simp
next
  case (Cons x xs)
  define s1 where "s1 = serialize_mesh w x (f x) s"
  show ?case
  proof (cases j)
    case 0
    have "p_matids (fold (\<lambda>m. serialize_mesh w m (f m)) xs s1) ! (num_matids_written s + i)
            = p_matids s1 ! (num_matids_written s + i)"
      using Cons.prems(3) 0 by (intro meshes_matids_below) (simp add: s1_def)
    also have "\<dots> = f x"
      using Cons.prems 0 by (simp add: s1_def fill_inside)
    finally show ?thesis using 0 by (simp add: s1_def)
  next
    case (Suc j')
    have "p_matids (fold (\<lambda>m. serialize_mesh w m (f m)) xs s1)
     ! (num_matids_written s1 + sum_list (map (\<lambda>m. GetNumIndices w m div 3) (take j' xs)) + i)
     = f (xs ! j')"
      using Cons.prems Suc by (intro Cons.IH) (simp_all add: s1_def)
    then show ?thesis using Suc by (simp add: s1_def add.assoc)
  qed
qed

lemma meshes_descriptor:
  "j < length xs \<Longrightarrow> num_shapes_written s + length xs \<le> length (p_shapes s) \<Longrightarrow>
   p_shapes (fold (\<lambda>m. serialize_mesh w m (f m)) xs s) ! (num_shapes_written s + j)
     = prepare_shape_descriptor w (xs ! j) (fold (\<lambda>m. serialize_mesh w m (f m)) (take j xs) s)"
proof (induction xs arbitrary: s j)
  case Nil
  then show ?case by simp
next
  case (Cons x xs)
  define s1 where "s1 = serialize_mesh w x (f x) s"
  show ?case
  proof (cases j)
    case 0
    have "p_shapes (fold (\<lambda>m. serialize_mesh w m (f m)) xs s1) ! num_shapes_written s
            = p_shapes s1 ! num_shapes_written s"
      by (intro meshes_shapes_below) (simp add: s1_def)
    then show ?thesis using 0 Cons.prems(2) by (simp add: s1_def)
  next
    case (Suc j')
    have "p_shapes (fold (\<lambda>m. serialize_mesh w m (f m)) xs s1) ! (num_shapes_written s1 + j')
     = prepare_shape_descriptor w (xs ! j') (fold (\<lambda>m. serialize_mesh w m (f m)) (take j' xs) s1)"
      using Cons.prems Suc by (intro Cons.IH) (simp_all add: s1_def)
    then show ?thesis using Suc by (simp add: s1_def)
  qed
qed


lemma UpdateShapes_content:
  assumes sp: "SplitMeshesAndInstances w (CreateShapeIterator scene) = (ms, is, ex)"
    and run: "UpdateShapes ctx w dm scene mc out d = (out', d')"
  shows "vertices out' = concat (map (GetVertices w) (ms @ ex))"
    and "normals out' = concat (map (GetNormals w) (ms @ ex))"
    and "uvs out' = concat (map (GetUVs w) (ms @ ex))"
    and "indices out' = concat (map (GetIndices w) (ms @ ex))"
    and "j < length (ms @ ex) \<Longrightarrow> shapes out' ! j =
        \<lparr>numprims = static_cast_int (GetNumIndices w ((ms @ ex) ! j) div 3),
         startvtx = static_cast_int (sum_list (map (GetNumVertices w) (take j (ms @ ex)))),
         startidx = static_cast_int (sum_list (map (GetNumIndices w) (take j (ms @ ex)))),
         start_material_idx =
           static_cast_int (sum_list (map (\<lambda>m. GetNumIndices w m div 3) (take j (ms @ ex)))),
         transform = shape_transform (GetTransform w ((ms @ ex) ! j)),
         linearvelocity = Float3 0 0 0 0, angularvelocity = Float3 0 0 0 1\<rparr>"
    and "j < length (ms @ ex) \<Longrightarrow> i < GetNumIndices w ((ms @ ex) ! j) div 3 \<Longrightarrow>
       materialids out' ! (sum_list (map (\<lambda>m. GetNumIndices w m div 3) (take j (ms @ ex))) + i)
         = (if j < length ms then GetItemIndex mc (Some (material_or_default w dm ((ms @ ex) ! j)))
            else - 1)"
proof -
  note part = partition_distinct [OF sp]
  have disj: "set ms \<inter> set ex = {}" using part(1) by auto
  define g where "g = (\<lambda>m. if m \<in> set ms then GetItemIndex mc (Some (material_or_default w dm m)) else - 1)"
  define s0 where "s0 = map_shape_buffers ctx w ms is ex d"
  define s2 where "s2 = fold (\<lambda>m. serialize_mesh w m (g m)) (ms @ ex) s0"
  define s3 where "s3 = serialize_instances w dm mc is s2"
  have "UpdateShapes ctx w dm scene mc out d
          = (out\<lparr>vertices := p_vertices s3, normals := p_normals s3, uvs := p_uvs s3,
                  indices := p_indices s3, shapes := p_shapes s3, materialids := p_matids s3\<rparr>,
             p_dirty s3)"
    using sp mesh_loops_fold [OF disj, of w dm mc s0]
    by (simp add: UpdateShapes_def Let_def s3_def s2_def s0_def g_def)
  with run have out': "out' = out\<lparr>vertices := p_vertices s3, normals := p_normals s3, uvs := p_uvs s3,
                  indices := p_indices s3, shapes := p_shapes s3, materialids := p_matids s3\<rparr>"
    by simp
  have s0: "num_vertices_written s0 = 0" "num_normals_written s0 = 0" "num_uvs_written s0 = 0"
    "num_indices_written s0 = 0" "num_matids_written s0 = 0" "num_shapes_written s0 = 0"
    "length (p_vertices s0) = sum_list (map (GetNumVertices w) (ms @ ex))"
    "length (p_normals s0) = sum_list (map (GetNumNormals w) (ms @ ex))"
    "length (p_uvs s0) = sum_list (map (GetNumUVs w) (ms @ ex))"
    "length (p_indices s0) = sum_list (map (GetNumIndices w) (ms @ ex))"
    "length (p_shapes s0) = length ms + length ex + length is"
    "length (p_matids s0) = sum_list (map (\<lambda>mesh. GetNumIndices w mesh div 3) (ms @ ex))
       + sum_list (map (\<lambda>i. GetNumIndices w (GetBaseShape w i) div 3) is)"
    by (simp_all add: s0_def map_shape_buffers_def Let_def CreateBuffer_def)
  show "vertices out' = concat (map (GetVertices w) (ms @ ex))"
    using meshes_vertices [of s0 w "ms @ ex" g]
    by (simp add: out' s3_def instances_unchanged s2_def s0)
  show "normals out' = concat (map (GetNormals w) (ms @ ex))"
    using meshes_normals [of s0 w "ms @ ex" g]
    by (simp add: out' s3_def instances_unchanged s2_def s0)
  show "uvs out' = concat (map (GetUVs w) (ms @ ex))"
    using meshes_uvs [of s0 w "ms @ ex" g]
    by (simp add: out' s3_def instances_unchanged s2_def s0)
  show "indices out' = concat (map (GetIndices w) (ms @ ex))"
    using meshes_indices [of s0 w "ms @ ex" g]
    by (simp add: out' s3_def instances_unchanged s2_def s0)
  have nsw2: "num_shapes_written s2 = length (ms @ ex)"
    by (simp add: s2_def meshes_num_shapes_written s0)
  have nmw2: "num_matids_written s2 = sum_list (map (\<lambda>m. GetNumIndices w m div 3) (ms @ ex))"
    by (simp add: s2_def meshes_num_matids_written s0)
  show "shapes out' ! j =
        \<lparr>numprims = static_cast_int (GetNumIndices w ((ms @ ex) ! j) div 3),
         startvtx = static_cast_int (sum_list (map (GetNumVertices w) (take j (ms @ ex)))),
         startidx = static_cast_int (sum_list (map (GetNumIndices w) (take j (ms @ ex)))),
         start_material_idx =
           static_cast_int (sum_list (map (\<lambda>m. GetNumIndices w m div 3) (take j (ms @ ex)))),
         transform = shape_transform (GetTransform w ((ms @ ex) ! j)),
         linearvelocity = Float3 0 0 0 0, angularvelocity = Float3 0 0 0 1\<rparr>"
    if j: "j < length (ms @ ex)"
  proof -
    have "shapes out' ! j = p_shapes s2 ! j"
      using j by (simp add: out' s3_def instances_shapes_below nsw2)
    also have "\<dots> = prepare_shape_descriptor w ((ms @ ex) ! j)
                       (fold (\<lambda>m. serialize_mesh w m (g m)) (take j (ms @ ex)) s0)"
      using meshes_descriptor [of j "ms @ ex" s0 w g] j by (simp add: s2_def s0)
    finally show ?thesis
      by (simp add: prepare_shape_descriptor_def meshes_num_vertices_written
          meshes_num_indices_written meshes_num_matids_written s0)
  qed
  show "materialids out' ! (sum_list (map (\<lambda>m. GetNumIndices w m div 3) (take j (ms @ ex))) + i)
         = (if j < length ms then GetItemIndex mc (Some (material_or_default w dm ((ms @ ex) ! j)))
            else - 1)"
    if j: "j < length (ms @ ex)" and i: "i < GetNumIndices w ((ms @ ex) ! j) div 3"
  proof -
    have le: "sum_list (map (\<lambda>m. GetNumIndices w m div 3) (take j (ms @ ex)))
                + GetNumIndices w ((ms @ ex) ! j) div 3
              \<le> sum_list (map (\<lambda>m. GetNumIndices w m div 3) (ms @ ex))"
      by (rule sum_list_take_nth_le [OF j])
    have "materialids out' ! (sum_list (map (\<lambda>m. GetNumIndices w m div 3) (take j (ms @ ex))) + i)
            = p_matids s2 ! (sum_list (map (\<lambda>m. GetNumIndices w m div 3) (take j (ms @ ex))) + i)"
      using le i by (simp add: out' s3_def instances_matids_below nmw2)
    also have "\<dots> = g ((ms @ ex) ! j)"
      using meshes_matids [of j "ms @ ex" s0 w i g] j i by (simp add: s2_def s0)
    also have "\<dots> = (if j < length ms
                      then GetItemIndex mc (Some (material_or_default w dm ((ms @ ex) ! j))) else - 1)"
    proof (cases "j < length ms")
      case True
      then have "(ms @ ex) ! j \<in> set ms" by (simp add: nth_append)
      with True show ?thesis by (simp add: g_def)
    next
      case False
      then have "(ms @ ex) ! j \<in> set ex" using j by (simp add: nth_append)
      with disj have "(ms @ ex) ! j \<notin> set ms" by auto
      with False show ?thesis by (simp add: g_def)
    qed
    finally show ?thesis .
  qed
qed


subsection \<open>The record of an instance\<close>

text \<open>
  Claim C8. For the instance at position \<open>k\<close> of the instances, the record at position
  \<open>M + k\<close> of the shapes buffer (\<open>M\<close> meshes and excluded meshes come first) has the
  \<open>numprims\<close>, \<open>startvtx\<close> and \<open>startidx\<close> of the record at position \<open>j\<close>, the record of its
  base mesh, which holds the number of triangles of the base mesh and the offsets of its
  vertices and indices in the pools. The four rows of its transform are the rows of the
  instance's own matrix. Its \<open>start_material_idx\<close> is the offset \<open>off\<close> just past the
  material ids of all meshes, excluded meshes and earlier instances, and the \<open>prims\<close>
  material ids from there on are the collector index of the instance's own material, or
  of the default material when it has none. The vertex and index pools hold the meshes
  and excluded meshes only.
\<close>

theorem instance_record:
  assumes sp: "SplitMeshesAndInstances w (CreateShapeIterator scene) = (meshes, instances, excluded_meshes)"
    and k: "k < length instances"
    and inst: "instance = instances ! k"
    and base: "base = GetBaseShape w instance"
    and M: "M = length meshes + length excluded_meshes"
    and prims: "prims = GetNumIndices w base div 3"
    and off: "off = sum_list (map (\<lambda>p. GetNumIndices w p div 3) (meshes @ excluded_meshes))
                  + sum_list (map (\<lambda>i. GetNumIndices w (GetBaseShape w i) div 3) (take k instances))"
  shows "\<exists>out' d' j. UpdateShapes ctx w dm scene mc out d = (out', d')
    \<and> j < M \<and> (meshes @ excluded_meshes) ! j = base
    \<and> numprims (shapes out' ! (M + k)) = numprims (shapes out' ! j)
    \<and> startvtx (shapes out' ! (M + k)) = startvtx (shapes out' ! j)
    \<and> startidx (shapes out' ! (M + k)) = startidx (shapes out' ! j)
    \<and> numprims (shapes out' ! j) = static_cast_int prims
    \<and> startvtx (shapes out' ! j)
        = static_cast_int (sum_list (map (GetNumVertices w) (take j (meshes @ excluded_meshes))))
    \<and> startidx (shapes out' ! j)
        = static_cast_int (sum_list (map (GetNumIndices w) (take j (meshes @ excluded_meshes))))
    \<and> transform (shapes out' ! (M + k))
        = Transform
            (Float4 (m00 (GetTransform w instance)) (m01 (GetTransform w instance))
                    (m02 (GetTransform w instance)) (m03 (GetTransform w instance)))
            (Float4 (m10 (GetTransform w instance)) (m11 (GetTransform w instance))
                    (m12 (GetTransform w instance)) (m13 (GetTransform w instance)))
            (Float4 (m20 (GetTransform w instance)) (m21 (GetTransform w instance))
                    (m22 (GetTransform w instance)) (m23 (GetTransform w instance)))
            (Float4 (m30 (GetTransform w instance)) (m31 (GetTransform w instance))
                    (m32 (GetTransform w instance)) (m33 (GetTransform w instance)))
    \<and> start_material_idx (shapes out' ! (M + k)) = static_cast_int off
    \<and> off + prims \<le> length (materialids out')
    \<and> (\<forall>i<prims. materialids out' ! (off + i)
          = GetItemIndex mc (Some (case GetMaterial w instance of
                                     None \<Rightarrow> dm | Some material \<Rightarrow> material)))
    \<and> length (vertices out') = sum_list (map (GetNumVertices w) (meshes @ excluded_meshes))
    \<and> length (indices out') = sum_list (map (GetNumIndices w) (meshes @ excluded_meshes))
    \<and> vertices out' = concat (map (GetVertices w) (meshes @ excluded_meshes))
    \<and> indices out' = concat (map (GetIndices w) (meshes @ excluded_meshes))"
proof -
  define P where "P = (\<lambda>p. GetNumIndices w p div 3)"
  define offs where "offs = (\<lambda>k. sum_list (map P (meshes @ excluded_meshes))
      + sum_list (map (\<lambda>i. P (GetBaseShape w i)) (take k instances)))"
  obtain out' d' where r:
    "UpdateShapes ctx w dm scene mc out d = (out', d')"
    "length (vertices out') = sum_list (map (GetNumVertices w) (meshes @ excluded_meshes))"
    "length (indices out') = sum_list (map (GetNumIndices w) (meshes @ excluded_meshes))"
    "length (materialids out') = offs (length instances)"
    "\<forall>k<length instances. \<exists>j<M. (meshes @ excluded_meshes) ! j = GetBaseShape w (instances ! k)
             \<and> shapes out' ! (M + k)
                 = (shapes out' ! j)\<lparr>start_material_idx := static_cast_int (offs k),
                                       transform := shape_transform (GetTransform w (instances ! k)),
                                       linearvelocity := Float3 0 0 0 0,
                                       angularvelocity := Float3 0 0 0 1\<rparr>"
    "\<forall>k<length instances. \<forall>i<P (GetBaseShape w (instances ! k)).
           materialids out' ! (offs k + i) = GetItemIndex mc (Some (material_or_default w dm (instances ! k)))"
    using UpdateShapes_result [OF sp M P_def offs_def, of ctx dm mc out d] by blast
  note content = UpdateShapes_content [OF sp r(1)]
  have o: "offs k = off" and p: "P base = prims"
    by (simp_all add: offs_def off P_def prims)
  obtain j where j: "j < M" "(meshes @ excluded_meshes) ! j = base"
    "shapes out' ! (M + k)
       = (shapes out' ! j)\<lparr>start_material_idx := static_cast_int off,
                             transform := shape_transform (GetTransform w instance),
                             linearvelocity := Float3 0 0 0 0,
                             angularvelocity := Float3 0 0 0 1\<rparr>"
    using r(5) k unfolding o [symmetric] inst base by blast
  have jl: "j < length (meshes @ excluded_meshes)" using j(1) M by simp
  have recj: "numprims (shapes out' ! j) = static_cast_int prims"
    "startvtx (shapes out' ! j)
        = static_cast_int (sum_list (map (GetNumVertices w) (take j (meshes @ excluded_meshes))))"
    "startidx (shapes out' ! j)
        = static_cast_int (sum_list (map (GetNumIndices w) (take j (meshes @ excluded_meshes))))"
    by (simp_all add: content(5) [OF jl] j(2) prims)
  have reck: "numprims (shapes out' ! (M + k)) = numprims (shapes out' ! j)"
    "startvtx (shapes out' ! (M + k)) = startvtx (shapes out' ! j)"
    "startidx (shapes out' ! (M + k)) = startidx (shapes out' ! j)"
    "start_material_idx (shapes out' ! (M + k)) = static_cast_int off"
    by (simp_all add: j(3))
  have tr: "transform (shapes out' ! (M + k))
        = Transform
            (Float4 (m00 (GetTransform w instance)) (m01 (GetTransform w instance))
                    (m02 (GetTransform w instance)) (m03 (GetTransform w instance)))
            (Float4 (m10 (GetTransform w instance)) (m11 (GetTransform w instance))
                    (m12 (GetTransform w instance)) (m13 (GetTransform w instance)))
            (Float4 (m20 (GetTransform w instance)) (m21 (GetTransform w instance))
                    (m22 (GetTransform w instance)) (m23 (GetTransform w instance)))
            (Float4 (m30 (GetTransform w instance)) (m31 (GetTransform w instance))
                    (m32 (GetTransform w instance)) (m33 (GetTransform w instance)))"
    by (simp add: j(3) shape_transform_def)
  have "offs k + P (GetBaseShape w (instances ! k)) \<le> offs (length instances)"
    using sum_list_take_nth_le [OF k, of "\<lambda>i. P (GetBaseShape w i)"] by (simp add: offs_def)
  then have bound: "off + prims \<le> length (materialids out')"
    using r(4) o p by (simp add: inst base)
  have ids: "\<forall>i<prims. materialids out' ! (off + i)
          = GetItemIndex mc (Some (case GetMaterial w instance of
                                     None \<Rightarrow> dm | Some material \<Rightarrow> material))"
  proof (intro allI impI)
    fix i assume "i < prims"
    then have "i < P (GetBaseShape w (instances ! k))" using p by (simp add: inst base)
    from r(6) [rule_format, OF k this]
    show "materialids out' ! (off + i)
          = GetItemIndex mc (Some (case GetMaterial w instance of
                                     None \<Rightarrow> dm | Some material \<Rightarrow> material))"
      by (simp add: o inst material_or_default_def)
  qed
  show ?thesis
    by (intro exI [of _ out'] exI [of _ d'] exI [of _ j] conjI)
      (fact r(1) j(1) j(2) reck recj tr bound ids r(2) r(3) content(1) content(4))+
qed

theorem instance_record_witness:
  "\<exists>out' d'. UpdateShapes ex_context ex_shapes 11 ex_scene (ex_collector\<lparr>c_items := [10, 11]\<rparr>)
               new_ClwScene (\<lambda>p. True) = (out', d')
     \<and> numprims (shapes out' ! 4) = 2
     \<and> startvtx (shapes out' ! 4) = 6 \<and> startidx (shapes out' ! 4) = 6
     \<and> transform (shapes out' ! 4)
         = Transform (Float4 1 0 0 4) (Float4 0 1 0 0) (Float4 0 0 1 0) (Float4 0 0 0 1)
     \<and> start_material_idx (shapes out' ! 4) = 5
     \<and> materialids out' ! 5 = 0 \<and> materialids out' ! 6 = 0
     \<and> transform (shapes out' ! 3)
         = Transform (Float4 1 0 0 3) (Float4 0 1 0 0) (Float4 0 0 1 0) (Float4 0 0 0 1)
     \<and> start_material_idx (shapes out' ! 3) = 4
     \<and> materialids out' ! 4 = 1
     \<and> length (vertices out') = 10"
proof -
  define mc where "mc = ex_collector\<lparr>c_items := [10, 11]\<rparr>"
  have h4: "(1::nat) < length [3::nat, 4]" "(4::nat) = [3, 4] ! 1" "5 = GetBaseShape ex_shapes 4"
    "(3::nat) = length [1::nat, 2] + length [5::nat]" "2 = GetNumIndices ex_shapes 5 div 3"
    "5 = sum_list (map (\<lambda>p. GetNumIndices ex_shapes p div 3) ([1, 2] @ [5]))
          + sum_list (map (\<lambda>i. GetNumIndices ex_shapes (GetBaseShape ex_shapes i) div 3) (take 1 [3, 4]))"
    by (simp_all add: ex_shapes_def GetNumIndices_def)
  have h3: "(0::nat) < length [3::nat, 4]" "(3::nat) = [3, 4] ! 0" "2 = GetBaseShape ex_shapes 3"
    "(3::nat) = length [1::nat, 2] + length [5::nat]" "1 = GetNumIndices ex_shapes 2 div 3"
    "4 = sum_list (map (\<lambda>p. GetNumIndices ex_shapes p div 3) ([1, 2] @ [5]))
          + sum_list (map (\<lambda>i. GetNumIndices ex_shapes (GetBaseShape ex_shapes i) div 3) (take 0 [3, 4]))"
    by (simp_all add: ex_shapes_def GetNumIndices_def)
  obtain out' d' j where r:
    "UpdateShapes ex_context ex_shapes 11 ex_scene mc new_ClwScene (\<lambda>p. True) = (out', d')"
    "j < 3" "([1, 2] @ [5]) ! j = (5::nat)"
    "numprims (shapes out' ! (3 + 1)) = numprims (shapes out' ! j)"
    "startvtx (shapes out' ! (3 + 1)) = startvtx (shapes out' ! j)"
    "startidx (shapes out' ! (3 + 1)) = startidx (shapes out' ! j)"
    "numprims (shapes out' ! j) = static_cast_int 2"
    "startvtx (shapes out' ! j)
        = static_cast_int (sum_list (map (GetNumVertices ex_shapes) (take j ([1, 2] @ [5]))))"
    "startidx (shapes out' ! j)
        = static_cast_int (sum_list (map (GetNumIndices ex_shapes) (take j ([1, 2] @ [5]))))"
    "transform (shapes out' ! (3 + 1))
        = Transform
            (Float4 (m00 (GetTransform ex_shapes 4)) (m01 (GetTransform ex_shapes 4))
                    (m02 (GetTransform ex_shapes 4)) (m03 (GetTransform ex_shapes 4)))
            (Float4 (m10 (GetTransform ex_shapes 4)) (m11 (GetTransform ex_shapes 4))
                    (m12 (GetTransform ex_shapes 4)) (m13 (GetTransform ex_shapes 4)))
            (Float4 (m20 (GetTransform ex_shapes 4)) (m21 (GetTransform ex_shapes 4))
                    (m22 (GetTransform ex_shapes 4)) (m23 (GetTransform ex_shapes 4)))
            (Float4 (m30 (GetTransform ex_shapes 4)) (m31 (GetTransform ex_shapes 4))
                    (m32 (GetTransform ex_shapes 4)) (m33 (GetTransform ex_shapes 4)))"
    "start_material_idx (shapes out' ! (3 + 1)) = static_cast_int 5"
    "\<forall>i<2. materialids out' ! (5 + i)
          = GetItemIndex mc (Some (case GetMaterial ex_shapes 4 of
                                     None \<Rightarrow> 11 | Some material \<Rightarrow> material))"
    "length (vertices out') = sum_list (map (GetNumVertices ex_shapes) ([1, 2] @ [5]))"
    using instance_record [OF ex_split_scene h4, of ex_context 11 mc new_ClwScene "\<lambda>p. True"]
    by blast
  obtain out'' d'' where r3:
    "UpdateShapes ex_context ex_shapes 11 ex_scene mc new_ClwScene (\<lambda>p. True) = (out'', d'')"
    "transform (shapes out'' ! (3 + 0))
        = Transform
            (Float4 (m00 (GetTransform ex_shapes 3)) (m01 (GetTransform ex_shapes 3))
                    (m02 (GetTransform ex_shapes 3)) (m03 (GetTransform ex_shapes 3)))
            (Float4 (m10 (GetTransform ex_shapes 3)) (m11 (GetTransform ex_shapes 3))
                    (m12 (GetTransform ex_shapes 3)) (m13 (GetTransform ex_shapes 3)))
            (Float4 (m20 (GetTransform ex_shapes 3)) (m21 (GetTransform ex_shapes 3))
                    (m22 (GetTransform ex_shapes 3)) (m23 (GetTransform ex_shapes 3)))
            (Float4 (m30 (GetTransform ex_shapes 3)) (m31 (GetTransform ex_shapes 3))
                    (m32 (GetTransform ex_shapes 3)) (m33 (GetTransform ex_shapes 3)))"
    "start_material_idx (shapes out'' ! (3 + 0)) = static_cast_int 4"
    "\<forall>i<1. materialids out'' ! (4 + i)
          = GetItemIndex mc (Some (case GetMaterial ex_shapes 3 of
                                     None \<Rightarrow> 11 | Some material \<Rightarrow> material))"
    using instance_record [OF ex_split_scene h3, of ex_context 11 mc new_ClwScene "\<lambda>p. True"]
    by blast
  have same: "out'' = out'" using r(1) r3(1) by simp
  have j2: "j = 2"
  proof -
    have "j = 0 \<or> j = 1 \<or> j = 2" using r(2) by arith
    with r(3) show ?thesis by auto
  qed
  have a: "numprims (shapes out' ! 4) = 2" "startvtx (shapes out' ! 4) = 6"
    "startidx (shapes out' ! 4) = 6"
    using r(4-9) unfolding j2
    by (simp_all add: static_cast_int_def GetNumVertices_def GetNumIndices_def ex_shapes_def)
  have b: "transform (shapes out' ! 4)
         = Transform (Float4 1 0 0 4) (Float4 0 1 0 0) (Float4 0 0 1 0) (Float4 0 0 0 1)"
    "start_material_idx (shapes out' ! 4) = 5"
    using r(10,11) by (simp_all add: static_cast_int_def ex_shapes_def translation_def)
  have c: "materialids out' ! 5 = 0 \<and> materialids out' ! 6 = 0"
    using r(12) [rule_format, of 0] r(12) [rule_format, of 1]
    by (simp add: mc_def ex_shapes_def GetItemIndex_def ex_collector_def)
  have d: "transform (shapes out' ! 3)
         = Transform (Float4 1 0 0 3) (Float4 0 1 0 0) (Float4 0 0 1 0) (Float4 0 0 0 1)"
    "start_material_idx (shapes out' ! 3) = 4"
    using r3(2,3) unfolding same by (simp_all add: static_cast_int_def ex_shapes_def translation_def)
  have e: "materialids out' ! 4 = 1"
    using r3(4) [rule_format, of 0] unfolding same
    by (simp add: mc_def ex_shapes_def GetItemIndex_def ex_collector_def)
  have f: "length (vertices out') = 10"
    using r(13) by (simp add: GetNumVertices_def ex_shapes_def)
  from r(1) a b c d e f show ?thesis unfolding mc_def by blast
qed


subsection \<open>When the collecting phase returns\<close>

lemma drain_returns_step:
  assumes "wf {(d, m). d \<in> set (CreateMaterialIterator w m)}"
    and "\<And>mats'. \<exists>y. drain_material_stack w rest mats' = Some y"
  shows "\<exists>y. drain_material_stack w (m # rest) mats = Some y"
  using assms
proof (induction m arbitrary: rest mats rule: wf_induct_rule)
  case (less m)
  have "\<exists>y. drain_material_stack w (ds @ rest) mats' = Some y"
    if "set ds \<subseteq> set (CreateMaterialIterator w m)" for ds mats'
    using that
  proof (induction ds arbitrary: mats')
    case Nil
    show ?case using less.prems by simp
  next
    case (Cons d ds)
    have d: "(d, m) \<in> {(d, m). d \<in> set (CreateMaterialIterator w m)}"
      using Cons.prems by simp
    have "\<exists>y. drain_material_stack w (d # (ds @ rest)) mats' = Some y"
    proof (rule less.IH [OF d])
      fix mats''
      show "\<exists>y. drain_material_stack w (ds @ rest) mats'' = Some y"
        using Cons.prems by (intro Cons.IH) simp
    qed
    then show ?case by simp
  qed
  from this [of "rev (CreateMaterialIterator w m)" "emplace m mats"]
  show ?case by (simp add: drain_Cons)
qed

lemma Collect_roots_returns:
  assumes "\<And>item. \<exists>found. expand item = Some found"
  shows "\<exists>c'. Collect_roots expand items c = Some c'"
proof (induction items arbitrary: c)
  case Nil
  show ?case by simp
next
  case (Cons item items)
  obtain found where "expand item = Some found" using assms by blast
  with Cons.IH show ?case by simp
qed

lemma collect_returns:
  assumes "wf {(d, m). d \<in> set (CreateMaterialIterator (the_materials w) m)}"
  shows "\<exists>s. collect w scene s0 = Some s"
proof -
  have "\<exists>found. shape_materials w (m_default_material s0) item = Some found" for item
    unfolding shape_materials_def
    by (rule drain_returns_step [OF assms]) (simp add: drain_Nil)
  then obtain mc1 where 1: "Collect_roots (shape_materials w (m_default_material s0))
          (CreateShapeIterator scene) (Clear (the_mat_collector s0)) = Some mc1"
    using Collect_roots_returns by blast
  obtain tc1 where 2: "Collect_roots (material_textures w) (CreateIterator (Commit mc1))
               (Clear (the_tex_collector s0)) = Some tc1"
    using Collect_roots_returns [of "material_textures w"] by (auto simp: material_textures_def)
  obtain tc2 where 3: "Collect_roots (light_textures w) (CreateLightIterator scene) tc1 = Some tc2"
    using Collect_roots_returns [of "light_textures w"] by (auto simp: light_textures_def)
  show ?thesis by (simp add: collect_def 1 2 3)
qed



subsection \<open>A compile of a cached scene with the shapes flag: what it rebuilds\<close>




subsection \<open>Further properties of CompileScene\<close>

lemma CompileScene_first:
  assumes "CompileScene w scene_ptr s0 = Some r" and "m_scene_cache s0 scene_ptr = None"
  shows "\<exists>s. collect w (the_scenes w scene_ptr) s0 = Some s
           \<and> r = first_compile w scene_ptr (the_scenes w scene_ptr) s"
proof -
  obtain s where s: "collect w (the_scenes w scene_ptr) s0 = Some s"
    using assms(1) by (auto simp: CompileScene_def split: Option.bind_splits)
  have "m_scene_cache s = m_scene_cache s0"
    by (subst collect_frame [OF s]) simp
  with assms s show ?thesis by (simp add: CompileScene_def)
qed

lemma ex_collect_any:
  assumes "CreateShapeIterator scene = [2, 3, 1, 4]" "CreateLightIterator scene = [20, 21, 22, 23]"
    and "m_default_material s = 11"
  shows "collect ex_world scene s
     = Some (s\<lparr>the_mat_collector := (the_mat_collector s)\<lparr>c_set := [10, 11], c_items := [10, 11]\<rparr>,
                the_tex_collector := (the_tex_collector s)\<lparr>c_set := [40, 41, 42], c_items := [40, 41, 42]\<rparr>\<rparr>)"
  by (simp add: collect_def assms ex_shape_materials ex_material_textures ex_light_textures
      Clear_def Commit_def CreateIterator_def)

text \<open>
  The dirty bits the tracker does clear. When \<^verbatim>\<open>CompileScene\<close> returns, from either branch, the
  dirty flags of the scene are empty, the scene has a camera and it is clean, and every
  light of the light iterator, every shape of the shape iterator and every collected
  material is clean.
\<close>

theorem compile_clears_dirty_bits:
  assumes run: "CompileScene w scene_ptr s0 = Some (Inr s')"
  shows "GetDirtyFlags s' scene_ptr = {}
       \<and> (\<exists>cam. GetCamera (the_scenes w scene_ptr) = Some cam \<and> \<not> IsDirty s' cam)
       \<and> (\<forall>l \<in> set (CreateLightIterator (the_scenes w scene_ptr)). \<not> IsDirty s' l)
       \<and> (\<forall>p \<in> set (CreateShapeIterator (the_scenes w scene_ptr)). \<not> IsDirty s' p)
       \<and> (\<forall>m \<in> set (c_items (the_mat_collector s')). \<not> IsDirty s' m)"
proof (cases "m_scene_cache s0 scene_ptr")
  case None
  define scene where "scene = the_scenes w scene_ptr"
  obtain s where s: "collect w scene s0 = Some s"
    and r: "Inr s' = first_compile w scene_ptr scene s"
    using CompileScene_first [OF run None] unfolding scene_def by blast
  obtain ms "is" ex where sp:
    "SplitMeshesAndInstances (the_shapes w) (CreateShapeIterator scene) = (ms, is, ex)"
    by (cases "SplitMeshesAndInstances (the_shapes w) (CreateShapeIterator scene)")
  obtain cam where c: "GetCamera scene = Some cam" "GetDirtyFlags s' scene_ptr = {}"
    "the_mat_collector s' = the_mat_collector s"
    "\<forall>p. IsDirty s' p = (if p = cam \<or> p \<in> set (CreateLightIterator scene)
                                   \<or> p \<in> set (ms @ ex @ is)
                                   \<or> p \<in> set (c_items (the_mat_collector s))
                                 then False else IsDirty s p)"
    using first_compile_Inr [OF r [symmetric] sp] by blast
  have "\<not> IsDirty s' p" if "p \<in> set (CreateShapeIterator scene)" for p
    using that iterator_shapes_split [OF sp] c(4) by auto
  then show ?thesis using c unfolding scene_def [symmetric] by simp
next
  case (Some out)
  define scene where "scene = the_scenes w scene_ptr"
  obtain s where s: "collect w scene s0 = Some s"
    and r: "Inr s' = cached_compile w scene_ptr scene out s"
    using CompileScene_cached [OF run Some] unfolding scene_def by blast
  from cached_compile_dirty(1-5) [OF r [symmetric]] show ?thesis
    unfolding scene_def [symmetric] by blast
qed

theorem compile_clears_dirty_bits_witness:
  "\<exists>s. CompileScene ex_world 100 (ex_state\<lparr>IsDirty := (\<lambda>p. True)\<rparr>) = Some (Inr s)
      \<and> GetDirtyFlags s 100 = {}
      \<and> \<not> IsDirty s 30 \<and> \<not> IsDirty s 21 \<and> \<not> IsDirty s 3 \<and> \<not> IsDirty s 11"
proof -
  define s0 where "s0 = ex_state\<lparr>IsDirty := (\<lambda>p. True)\<rparr>"
  define s1 where "s1 = s0\<lparr>the_mat_collector := (the_mat_collector s0)\<lparr>c_set := [10, 11], c_items := [10, 11]\<rparr>,
                the_tex_collector := (the_tex_collector s0)\<lparr>c_set := [40, 41, 42], c_items := [40, 41, 42]\<rparr>\<rparr>"
  have scene: "the_scenes ex_world 100 = ex_scene" by (simp add: ex_world_def)
  have col: "collect ex_world (the_scenes ex_world 100) s0 = Some s1"
    unfolding s1_def by (rule ex_collect_any [OF ex_scene_iterators]) (simp add: s0_def ex_state_def)
  have cam: "GetCamera ex_scene = Some 30" by (simp add: ex_scene_def)
  have shapes: "CreateShapeIterator ex_scene \<noteq> []" by (simp add: ex_scene_def)
  have mats: "\<exists>r. WriteMaterial (the_materials ex_world) m (the_mat_collector s1) (the_tex_collector s1) data d
                   = (Inr r :: (clw_scene \<times> api \<times> dirty_bits) failure + clw_material \<times> dirty_bits)"
    if "m \<in> set (c_items (the_mat_collector s1))" for m data d
  proof -
    have "m = 10 \<or> m = 11" using that by (simp add: s1_def)
    from ex_WriteMaterial_succeeds [OF this] show ?thesis by (simp add: ex_world_def)
  qed
  obtain s where s: "first_compile ex_world 100 ex_scene s1 = Inr s"
    using first_compile_succeeds [OF cam shapes mats] by blast
  have c1: "m_scene_cache s1 100 = None" by (simp add: s1_def s0_def ex_state_def)
  have run: "CompileScene ex_world 100 s0 = Some (Inr s)"
    unfolding CompileScene_def col by (simp add: c1 scene s)
  have mc: "the_mat_collector s = the_mat_collector s1"
  proof -
    obtain ms "is" ex where sp:
      "SplitMeshesAndInstances (the_shapes ex_world) (CreateShapeIterator ex_scene) = (ms, is, ex)"
      by (cases "SplitMeshesAndInstances (the_shapes ex_world) (CreateShapeIterator ex_scene)")
    from first_compile_Inr [OF s sp] show ?thesis by blast
  qed
  note t = compile_clears_dirty_bits [OF run, unfolded scene]
  have "GetDirtyFlags s 100 = {}" using t by blast
  moreover have "\<not> IsDirty s 30" using t cam by auto
  moreover have "\<not> IsDirty s 21" using t by (simp add: ex_scene_def)
  moreover have "\<not> IsDirty s 3" using t by (simp add: ex_scene_def)
  moreover have "\<not> IsDirty s 11" using t by (simp add: mc s1_def)
  ultimately show ?thesis using run unfolding s0_def by blast
qed

text \<open>
  The camera test of the branch of a cached scene. A scene the cache holds has no camera, and the material
  dependencies have no cycle, so that the collecting phase returns: \<^verbatim>\<open>CompileScene\<close> throws
  the runtime error "No camera in the scene" before any buffer is written. The state at
  the throw has the cache, the engine, the dirty bits, the dirty flags and the current
  scene of the state at the call; only the collectors have changed.
\<close>

theorem cached_compile_without_camera:
  assumes cache: "m_scene_cache s0 scene_ptr = Some out"
    and cam: "GetCamera (the_scenes w scene_ptr) = None"
    and acyclic: "wf {(d, m). d \<in> set (CreateMaterialIterator (the_materials w) m)}"
  shows "\<exists>s. CompileScene w scene_ptr s0 = Some (Inl (RuntimeError ''No camera in the scene'' s))
           \<and> m_scene_cache s = m_scene_cache s0 \<and> m_api s = m_api s0
           \<and> IsDirty s = IsDirty s0 \<and> GetDirtyFlags s = GetDirtyFlags s0
           \<and> m_current_scene s = m_current_scene s0"
proof -
  obtain s where s: "collect w (the_scenes w scene_ptr) s0 = Some s"
    using collect_returns [OF acyclic] by blast
  note f = collect_fields [OF s]
  have "(m_scene_cache s)(scene_ptr \<mapsto> out) = m_scene_cache s"
    using cache f(1) by (simp add: map_upd_triv)
  then have st: "store_scene scene_ptr out s = s" by (simp add: store_scene_def)
  have "cached_compile w scene_ptr (the_scenes w scene_ptr) out s
          = Inl (RuntimeError ''No camera in the scene'' s)"
    unfolding cached_compile_def Let_def by (simp add: camera_block_def cam and_then_def st)
  then have "CompileScene w scene_ptr s0 = Some (Inl (RuntimeError ''No camera in the scene'' s))"
    using s cache by (simp add: CompileScene_def f)
  with f show ?thesis by blast
qed

theorem cached_compile_without_camera_witness:
  "\<exists>s. CompileScene ex_world 101 (ex_cached_state\<lparr>m_scene_cache := [101 \<mapsto> ex_cached_scene]\<rparr>)
          = Some (Inl (RuntimeError ''No camera in the scene'' s))
      \<and> m_scene_cache s 101 = Some ex_cached_scene \<and> m_api s = ex_api"
proof -
  define s0 where "s0 = ex_cached_state\<lparr>m_scene_cache := [101 \<mapsto> ex_cached_scene]\<rparr>"
  have cache: "m_scene_cache s0 101 = Some ex_cached_scene" by (simp add: s0_def)
  have cam: "GetCamera (the_scenes ex_world 101) = None" by (simp add: ex_world_def)
  have acyclic: "wf {(d, m). d \<in> set (CreateMaterialIterator (the_materials ex_world) m)}"
    by (simp add: ex_world_def ex_materials_def)
  have api: "m_api s0 = ex_api" by (simp add: s0_def ex_cached_state_def ex_state_def)
  from cached_compile_without_camera [OF cache cam acyclic]
  show ?thesis using cache unfolding s0_def [symmetric] api by auto
qed

subsection \<open>A cycle of material dependencies\<close>

lemma drain_diverges:
  assumes closed: "\<forall>m \<in> C. CreateMaterialIterator w m \<noteq> [] \<and> set (CreateMaterialIterator w m) \<subseteq> C"
    and stack: "stack \<noteq> []" "set stack \<subseteq> C"
  shows "drain_material_stack w stack mats = None"
proof (cases "drain_material_stack w stack mats")
  case None
  then show ?thesis .
next
  case (Some y)
  have "w = w \<longrightarrow> \<not> (stack \<noteq> [] \<and> set stack \<subseteq> C)"
  proof (rule drain_material_stack.raw_induct
      [where P = "\<lambda>w' stack' mats' y. w' = w \<longrightarrow> \<not> (stack' \<noteq> [] \<and> set stack' \<subseteq> C)", OF _ Some])
    fix f w' st ms r
    assume IH: "\<And>w' st ms r. f w' st ms = Some r \<Longrightarrow> w' = w \<longrightarrow> \<not> (st \<noteq> [] \<and> set st \<subseteq> C)"
      and eq: "(case st of [] \<Rightarrow> Some ms
                | m # rest \<Rightarrow> f w' (rev (CreateMaterialIterator w' m) @ rest) (emplace m ms)) = Some r"
    show "w' = w \<longrightarrow> \<not> (st \<noteq> [] \<and> set st \<subseteq> C)"
    proof (intro impI notI)
      assume w': "w' = w" and a: "st \<noteq> [] \<and> set st \<subseteq> C"
      then obtain m rest where st: "st = m # rest" by (cases st) auto
      with a have m: "m \<in> C" and rest: "set rest \<subseteq> C" by auto
      from eq st have "f w' (rev (CreateMaterialIterator w' m) @ rest) (emplace m ms) = Some r"
        by simp
      from IH [OF this] w' closed m rest show False by auto
    qed
  qed
  with stack show ?thesis by simp
qed

lemma Collect_roots_diverges:
  "item \<in> set items \<Longrightarrow> expand item = None \<Longrightarrow> Collect_roots expand items c = None"
proof (induction items arbitrary: c)
  case Nil
  then show ?case by simp
next
  case (Cons x xs)
  show ?case
  proof (cases "expand x")
    case None
    then show ?thesis by simp
  next
    case (Some found)
    with Cons.prems have "item \<in> set xs" by auto
    from Cons.IH [OF this Cons.prems(2)] Some show ?thesis by simp
  qed
qed

text \<open>
  The material lambda of \<^verbatim>\<open>CompileScene\<close> pushes every dependency of the material it pops,
  also one the result set already holds. When the material of a shape of the scene (the
  default material when it has none) lies in a set \<open>C\<close> of materials each of which has a
  dependency, all of them in \<open>C\<close>, as on a cycle of dependencies, the stack never empties
  and \<^verbatim>\<open>CompileScene\<close> does not return.
\<close>

theorem material_cycle_does_not_return:
  assumes closed: "\<forall>m \<in> C. CreateMaterialIterator (the_materials w) m \<noteq> []
                     \<and> set (CreateMaterialIterator (the_materials w) m) \<subseteq> C"
    and shape: "shape \<in> set (CreateShapeIterator (the_scenes w scene_ptr))"
    and mat: "(case GetMaterial (the_shapes w) shape of
                 None \<Rightarrow> m_default_material s0 | Some material \<Rightarrow> material) \<in> C"
  shows "CompileScene w scene_ptr s0 = None"
proof -
  have "shape_materials w (m_default_material s0) shape = None"
    unfolding shape_materials_def
    by (rule drain_diverges [OF closed]) (use mat in \<open>simp_all add: material_or_default_def\<close>)
  from Collect_roots_diverges [where expand = "shape_materials w (m_default_material s0)", OF shape this]
  show ?thesis by (simp add: CompileScene_def collect_def)
qed

theorem material_cycle_does_not_return_witness:
  "CompileScene
     (ex_world\<lparr>the_materials :=
        ex_materials\<lparr>CreateMaterialIterator :=
          (\<lambda>p. if p = 10 then [12] else if p = 12 then [10] else [])\<rparr>\<rparr>)
     100 ex_state = None"
proof (rule material_cycle_does_not_return [where C = "{10, 12}" and shape = 1])
  show "\<forall>m \<in> {10, 12}.
          CreateMaterialIterator (the_materials (ex_world\<lparr>the_materials :=
            ex_materials\<lparr>CreateMaterialIterator :=
              (\<lambda>p. if p = 10 then [12] else if p = 12 then [10] else [])\<rparr>\<rparr>)) m \<noteq> []
        \<and> set (CreateMaterialIterator (the_materials (ex_world\<lparr>the_materials :=
            ex_materials\<lparr>CreateMaterialIterator :=
              (\<lambda>p. if p = 10 then [12] else if p = 12 then [10] else [])\<rparr>\<rparr>)) m) \<subseteq> {10, 12}"
    by simp
  show "1 \<in> set (CreateShapeIterator (the_scenes (ex_world\<lparr>the_materials :=
            ex_materials\<lparr>CreateMaterialIterator :=
              (\<lambda>p. if p = 10 then [12] else if p = 12 then [10] else [])\<rparr>\<rparr>) 100))"
    by (simp add: ex_world_def ex_scene_def)
  show "(case GetMaterial (the_shapes (ex_world\<lparr>the_materials :=
            ex_materials\<lparr>CreateMaterialIterator :=
              (\<lambda>p. if p = 10 then [12] else if p = 12 then [10] else [])\<rparr>\<rparr>)) 1 of
           None \<Rightarrow> m_default_material ex_state | Some material \<Rightarrow> material) \<in> {10, 12}"
    by (simp add: ex_world_def ex_shapes_def)
qed

end
